theory Spec2Isabelle
  imports
    Main
    "HOL-Library.Word"
    "HOL-Library.Signed_Division"
    "HOL-Library.Multiset"
begin

unbundle bit_operations_syntax

section \<open>The S6 exporter of OpenRCT2 (src/openrct2/rct2/S6Exporter.cpp)\<close>

text \<open>
  The exporter flattens the live park state into the fixed-layout S6 snapshot
  \<^verbatim>\<open>_s6\<close> (\<^verbatim>\<open>S6Exporter::Export\<close>) and writes that snapshot as a chunked,
  checksummed file (\<^verbatim>\<open>S6Exporter::Save\<close>).  The functions below follow the C++
  statement by statement.  Machine integers are words of their declared width;
  a write outside an array, a null dereference and a failed assertion are
  results of their own, so that every theorem about a successful export also
  says that the export succeeds.
\<close>

type_synonym u8 = "8 word"
type_synonym u16 = "16 word"
type_synonym u32 = "32 word"
type_synonym s16 = "16 word"
type_synonym s32 = "32 word"

datatype error =
  OutOfBounds
  | NullDereference
  | NonTermination
  | AssertionFailed string

subsection \<open>Constants of the headers\<close>

text \<open>
  The exporter uses constants that are declared in headers outside
  S6Exporter.cpp (rct12/RCT12.h, rct2/RCT2.h, ride/Ride.h, world/Location.hpp,
  scenario/Scenario.h).  Their values are parameters of the model: every
  function that needs one takes the record \<open>K\<close> of them.
\<close>

record Limits =
  RCT12_MAX_PEEP_SPAWNS :: nat
  RCT12_MAX_PARK_ENTRANCES :: nat
  RCT12_MAX_RIDES_IN_PARK :: nat
  RCT12_MAX_STATIONS_PER_RIDE :: nat
  RCT12_RIDE_MEASUREMENT_MAX_ITEMS :: nat
  RCT12_NUM_COLOUR_SCHEMES :: nat
  RCT2_MAX_CARS_PER_TRAIN :: nat
  RCT2_MAX_VEHICLES_PER_RIDE :: nat
  RCT2_CUSTOMER_HISTORY_SIZE :: nat
  RCT2_DOWNTIME_HISTORY_SIZE :: nat
  RCT12_MAX_INVERSIONS :: nat
  RCT12_MAX_GOLF_HOLES :: nat
  RIDE_TYPE_COUNT :: nat
  MAX_RIDE_OBJECTS :: nat
  RCT2_MAX_RESEARCHED_SCENERY_ITEMS :: nat
  PEEP_SPAWN_UNDEFINED :: u16
  LOCATION_NULL :: s32
  RCT_XY8_UNDEFINED :: u16
  RIDE_TYPE_NULL :: u8
  RIDE_TYPE_MINI_GOLF :: u8
  S6_TYPE_SAVEDGAME :: u8
  S6_TYPE_SCENARIO :: u8
  S6_RCT2_VERSION :: u32
  S6_MAGIC_NUMBER :: u32

text \<open>
  One assignment of values to these constants, with the sizes and markers of
  the RCT2 save format.  The theorems hold for every \<open>K\<close> that meets
  their hypotheses; this one instantiates them in the examples.
\<close>

definition rct2_limits :: Limits where
  "rct2_limits = \<lparr>
     RCT12_MAX_PEEP_SPAWNS = 2,
     RCT12_MAX_PARK_ENTRANCES = 4,
     RCT12_MAX_RIDES_IN_PARK = 255,
     RCT12_MAX_STATIONS_PER_RIDE = 4,
     RCT12_RIDE_MEASUREMENT_MAX_ITEMS = 8,
     RCT12_NUM_COLOUR_SCHEMES = 4,
     RCT2_MAX_CARS_PER_TRAIN = 32,
     RCT2_MAX_VEHICLES_PER_RIDE = 32,
     RCT2_CUSTOMER_HISTORY_SIZE = 10,
     RCT2_DOWNTIME_HISTORY_SIZE = 8,
     RCT12_MAX_INVERSIONS = 31,
     RCT12_MAX_GOLF_HOLES = 31,
     RIDE_TYPE_COUNT = 91,
     MAX_RIDE_OBJECTS = 128,
     RCT2_MAX_RESEARCHED_SCENERY_ITEMS = 1792,
     PEEP_SPAWN_UNDEFINED = 0xFFFF,
     LOCATION_NULL = 0xFFFF8000,
     RCT_XY8_UNDEFINED = 0xFFFF,
     RIDE_TYPE_NULL = 255,
     RIDE_TYPE_MINI_GOLF = 71,
     S6_TYPE_SAVEDGAME = 0,
     S6_TYPE_SCENARIO = 1,
     S6_RCT2_VERSION = 120001,
     S6_MAGIC_NUMBER = 0x00031144 \<rparr>"

subsection \<open>Integrity hash: \<^verbatim>\<open>S6Exporter::GetLoanHash\<close>\<close>

text \<open>
  Modelled from the spec: \<^verbatim>\<open>ror32\<close> is a macro of common.h, which is not
  among the sources; the spec calls the operation rotate-right.
\<close>

definition ror32 :: "u32 \<Rightarrow> nat \<Rightarrow> u32" where
  "ror32 v shift = word_rotr shift v"

text \<open>
  \<^verbatim>\<open>value\<close> is an \<^verbatim>\<open>int32_t\<close>, \<^verbatim>\<open>money32\<close> is \<^verbatim>\<open>int32_t\<close> and the result is
  \<^verbatim>\<open>uint32_t\<close>: all 32 bits wide, and the arithmetic wraps around.
\<close>

definition GetLoanHash :: "s32 \<Rightarrow> s32 \<Rightarrow> u32 \<Rightarrow> u32" where
  "GetLoanHash initialCash bankLoan maxBankLoan =
     (let v0 = (0x70093A :: u32);
          v1 = v0 - initialCash;
          v2 = ror32 v1 5;
          v3 = v2 - bankLoan;
          v4 = ror32 v3 7;
          v5 = v4 + maxBankLoan;
          v6 = ror32 v5 3
      in v6)"

subsection \<open>Researched-flag bitsets\<close>

text \<open>
  \<^verbatim>\<open>ExportResearchedRideTypes\<close>, \<^verbatim>\<open>ExportResearchedRideEntries\<close> and
  \<^verbatim>\<open>ExportResearchedSceneryItems\<close> have the same body: clear the array with
  \<^verbatim>\<open>std::fill\<close>, then for every index below the domain size, in ascending order,
  set bit \<^verbatim>\<open>index & 0x1F\<close> of word \<^verbatim>\<open>index >> 5\<close> when the index is invented.
  \<open>researched_set_bit\<close> is the body of the \<^verbatim>\<open>if\<close>, \<open>researched_loop\<close> the loop.
  A write past the end of the array is undefined behaviour in C++: here it is
  the result \<open>Inl OutOfBounds\<close>.
\<close>

definition researched_set_bit :: "nat \<Rightarrow> u32 list \<Rightarrow> error + u32 list" where
  "researched_set_bit index arr =
     (let quadIndex = drop_bit 5 index;
          bitIndex = index AND 0x1F
      in if quadIndex < length arr
         then Inr (arr[quadIndex := (arr ! quadIndex) OR push_bit bitIndex (1 :: u32)])
         else Inl OutOfBounds)"

fun researched_loop :: "(nat \<Rightarrow> bool) \<Rightarrow> nat list \<Rightarrow> u32 list \<Rightarrow> error + u32 list" where
  "researched_loop is_invented [] arr = Inr arr"
| "researched_loop is_invented (index # rest) arr =
     (if is_invented index
      then (case researched_set_bit index arr of
              Inl e \<Rightarrow> Inl e
            | Inr arr' \<Rightarrow> researched_loop is_invented rest arr')
      else researched_loop is_invented rest arr)"

text \<open>\<^verbatim>\<open>std::fill(std::begin(a), std::end(a), false)\<close>: every word becomes 0.\<close>

definition fill_false :: "u32 list \<Rightarrow> u32 list" where
  "fill_false arr = replicate (length arr) 0"

subsection \<open>Coordinates\<close>

text \<open>
  \<^verbatim>\<open>CoordsXYZD\<close> (world/Location.hpp) has three \<^verbatim>\<open>int32_t\<close> coordinates and a
  \<^verbatim>\<open>uint8_t\<close> direction; a peep spawn is one.
\<close>

record CoordsXYZD =
  CoordsXYZD_x :: s32
  CoordsXYZD_y :: s32
  CoordsXYZD_z :: s32
  CoordsXYZD_direction :: u8

text \<open>The legacy spawn record \<^verbatim>\<open>rct12_peep_spawn\<close>: \<^verbatim>\<open>uint16_t x, y; uint8_t z, direction\<close>.\<close>

record rct12_peep_spawn =
  rct12_peep_spawn_x :: u16
  rct12_peep_spawn_y :: u16
  rct12_peep_spawn_z :: u8
  rct12_peep_spawn_direction :: u8

text \<open>
  \<^verbatim>\<open>(uint8_t)(z / 16)\<close>: the division is C++'s on \<^verbatim>\<open>int\<close>, which truncates towards
  zero (\<open>sdiv\<close>); the casts keep the low bits.
\<close>

definition ExportPeepSpawn :: "Limits \<Rightarrow> CoordsXYZD list \<Rightarrow> nat \<Rightarrow> rct12_peep_spawn" where
  "ExportPeepSpawn K gPeepSpawns i =
     (if length gPeepSpawns > i
      then \<lparr> rct12_peep_spawn_x = ucast (CoordsXYZD_x (gPeepSpawns ! i)),
             rct12_peep_spawn_y = ucast (CoordsXYZD_y (gPeepSpawns ! i)),
             rct12_peep_spawn_z = word_of_int (sint (CoordsXYZD_z (gPeepSpawns ! i)) sdiv 16),
             rct12_peep_spawn_direction = CoordsXYZD_direction (gPeepSpawns ! i) \<rparr>
      else \<lparr> rct12_peep_spawn_x = PEEP_SPAWN_UNDEFINED K,
             rct12_peep_spawn_y = PEEP_SPAWN_UNDEFINED K,
             rct12_peep_spawn_z = 0,
             rct12_peep_spawn_direction = 0 \<rparr>)"

text \<open>
  The loop of \<^verbatim>\<open>ExportPeepSpawns\<close> writes every slot of
  \<^verbatim>\<open>_s6.peep_spawns[RCT12_MAX_PEEP_SPAWNS]\<close>, so the table it leaves is this list.
\<close>

definition ExportPeepSpawns :: "Limits \<Rightarrow> CoordsXYZD list \<Rightarrow> rct12_peep_spawn list" where
  "ExportPeepSpawns K gPeepSpawns =
     map (ExportPeepSpawn K gPeepSpawns) [0 ..< RCT12_MAX_PEEP_SPAWNS K]"

text \<open>
  The park-entrance loop of \<^verbatim>\<open>Export\<close>: \<^verbatim>\<open>entrance\<close> starts as
  \<^verbatim>\<open>{ LOCATION_NULL, LOCATION_NULL, 0, 0 }\<close> and is overwritten by the live entrance
  when there is one.  The four legacy arrays are \<^verbatim>\<open>int16_t\<close> (x, y, z) and
  \<^verbatim>\<open>uint8_t\<close> (direction); the assignment from \<^verbatim>\<open>int32_t\<close> keeps the low 16 bits.
\<close>

definition park_entrance_slot :: "Limits \<Rightarrow> CoordsXYZD list \<Rightarrow> nat \<Rightarrow> CoordsXYZD" where
  "park_entrance_slot K gParkEntrances i =
     (let entrance = \<lparr> CoordsXYZD_x = LOCATION_NULL K, CoordsXYZD_y = LOCATION_NULL K,
                        CoordsXYZD_z = 0, CoordsXYZD_direction = 0 \<rparr>
      in if length gParkEntrances > i then gParkEntrances ! i else entrance)"

record park_entrance_tables =
  park_entrance_x :: "s16 list"
  park_entrance_y :: "s16 list"
  park_entrance_z :: "s16 list"
  park_entrance_direction :: "u8 list"

definition ExportParkEntrances :: "Limits \<Rightarrow> CoordsXYZD list \<Rightarrow> park_entrance_tables" where
  "ExportParkEntrances K gParkEntrances =
     (let slots = map (park_entrance_slot K gParkEntrances) [0 ..< RCT12_MAX_PARK_ENTRANCES K]
      in \<lparr> park_entrance_x = map (\<lambda>e. ucast (CoordsXYZD_x e)) slots,
            park_entrance_y = map (\<lambda>e. ucast (CoordsXYZD_y e)) slots,
            park_entrance_z = map (\<lambda>e. ucast (CoordsXYZD_z e)) slots,
            park_entrance_direction = map CoordsXYZD_direction slots \<rparr>)"

subsection \<open>Rides\<close>

text \<open>
  \<^verbatim>\<open>LocationXY8\<close> is a union of \<^verbatim>\<open>struct { uint8_t x, y; }\<close> and \<^verbatim>\<open>uint16_t xy\<close>.
  It is modelled by its \<^verbatim>\<open>xy\<close> view; \<open>LocationXY8_of x y\<close> is the value
  \<^verbatim>\<open>{ x, y }\<close>, with \<^verbatim>\<open>x\<close> the low byte as on the little-endian targets of the
  format.
\<close>

type_synonym LocationXY8 = u16

definition LocationXY8_of :: "u8 \<Rightarrow> u8 \<Rightarrow> LocationXY8" where
  "LocationXY8_of x y = ucast x OR push_bit 8 (ucast y)"

record TileCoordsXYZD =
  TileCoordsXYZD_x :: s32
  TileCoordsXYZD_y :: s32
  TileCoordsXYZD_z :: s32
  TileCoordsXYZD_direction :: u8

record rating_tuple =
  rating_tuple_excitement :: s16
  rating_tuple_intensity :: s16
  rating_tuple_nausea :: s16

definition rating_tuple_zero :: rating_tuple where
  "rating_tuple_zero =
     \<lparr> rating_tuple_excitement = 0, rating_tuple_intensity = 0, rating_tuple_nausea = 0 \<rparr>"

record rct_vehicle_colour =
  body_colour :: u8
  trim_colour :: u8

definition rct_vehicle_colour_zero :: rct_vehicle_colour where
  "rct_vehicle_colour_zero = \<lparr> body_colour = 0, trim_colour = 0 \<rparr>"

record VehicleColour =
  VehicleColour_Body :: u8
  VehicleColour_Trim :: u8
  VehicleColour_Ternary :: u8

record TrackColour =
  TrackColour_main :: u8
  TrackColour_additional :: u8
  TrackColour_supports :: u8

record RideStation =
  RideStation_Start :: LocationXY8
  RideStation_Height :: u8
  RideStation_Length :: u8
  RideStation_Depart :: u8
  RideStation_TrainAtStation :: u8
  RideStation_LastPeepInQueue :: u16
  RideStation_SegmentLength :: s32
  RideStation_SegmentTime :: u16
  RideStation_QueueTime :: u8
  RideStation_QueueLength :: u16

text \<open>
  The live performance samples of a ride, \<^verbatim>\<open>RideMeasurement\<close>.  The C++ record
  holds a pointer \<^verbatim>\<open>ride\<close> to its owner, of which the exporter reads
  \<^verbatim>\<open>ride->id\<close> only: \<open>RideMeasurement_ride_id\<close> is that number.
\<close>

record RideMeasurement =
  RideMeasurement_ride_id :: nat
  RideMeasurement_flags :: u8
  RideMeasurement_last_use_tick :: u32
  RideMeasurement_num_items :: u16
  RideMeasurement_current_item :: u16
  RideMeasurement_vehicle_index :: u8
  RideMeasurement_current_station :: u8
  RideMeasurement_vertical :: "u8 list"
  RideMeasurement_lateral :: "u8 list"
  RideMeasurement_velocity :: "u8 list"
  RideMeasurement_altitude :: "u8 list"

record RCT12RideMeasurement =
  RCT12RideMeasurement_ride_index :: u8
  RCT12RideMeasurement_flags :: u8
  RCT12RideMeasurement_last_use_tick :: u32
  RCT12RideMeasurement_num_items :: u16
  RCT12RideMeasurement_current_item :: u16
  RCT12RideMeasurement_vehicle_index :: u8
  RCT12RideMeasurement_current_station :: u8
  RCT12RideMeasurement_vertical :: "u8 list"
  RCT12RideMeasurement_lateral :: "u8 list"
  RCT12RideMeasurement_velocity :: "u8 list"
  RCT12RideMeasurement_altitude :: "u8 list"

text \<open>
  The live ride, \<^verbatim>\<open>Ride\<close> (ride/Ride.h): the fields \<^verbatim>\<open>ExportRide\<close> and
  \<^verbatim>\<open>ExportRideMeasurements\<close> read.  A field that is copied by plain assignment
  has the width of the legacy field it is assigned to.  \<^verbatim>\<open>holes\<close>,
  \<^verbatim>\<open>inversions\<close> and \<^verbatim>\<open>sheltered_eighths\<close> are the numbers the fields hold,
  whatever unsigned width the header declares.
\<close>

record Ride =
  Ride_id :: nat
  Ride_type :: u8
  Ride_subtype :: u8
  Ride_mode :: u8
  Ride_colour_scheme_type :: u8
  Ride_vehicle_colours :: "VehicleColour list"
  Ride_status :: u8
  Ride_name :: u16
  Ride_name_arguments :: u32
  Ride_overall_view :: LocationXY8
  Ride_stations :: "RideStation list"
  Ride_vehicles :: "u16 list"
  Ride_depart_flags :: u8
  Ride_num_stations :: u8
  Ride_num_vehicles :: u8
  Ride_num_cars_per_train :: u8
  Ride_proposed_num_vehicles :: u8
  Ride_proposed_num_cars_per_train :: u8
  Ride_max_trains :: u8
  Ride_min_max_cars_per_train :: u8
  Ride_min_waiting_time :: u8
  Ride_max_waiting_time :: u8
  Ride_operation_option :: u8
  Ride_boat_hire_return_direction :: u8
  Ride_boat_hire_return_position :: LocationXY8
  Ride_special_track_elements :: u8
  Ride_max_speed :: s32
  Ride_average_speed :: s32
  Ride_current_test_segment :: u8
  Ride_average_speed_test_timeout :: u8
  Ride_max_positive_vertical_g :: s16
  Ride_max_negative_vertical_g :: s16
  Ride_max_lateral_g :: s16
  Ride_previous_vertical_g :: s16
  Ride_previous_lateral_g :: s16
  Ride_testing_flags :: u32
  Ride_cur_test_track_location :: LocationXY8
  Ride_turn_count_default :: u16
  Ride_turn_count_banked :: u16
  Ride_turn_count_sloped :: u16
  Ride_holes :: nat
  Ride_inversions :: nat
  Ride_sheltered_eighths :: nat
  Ride_drops :: u8
  Ride_start_drop_height :: u8
  Ride_highest_drop_height :: u8
  Ride_sheltered_length :: s32
  Ride_var_11C :: u16
  Ride_num_sheltered_sections :: u8
  Ride_cur_test_track_z :: u8
  Ride_cur_num_customers :: u16
  Ride_num_customers_timeout :: u16
  Ride_num_customers :: "u16 list"
  Ride_price :: s16
  Ride_chairlift_bullwheel_location :: "LocationXY8 list"
  Ride_chairlift_bullwheel_z :: "u8 list"
  Ride_ratings :: rating_tuple
  Ride_value :: u16
  Ride_chairlift_bullwheel_rotation :: u16
  Ride_satisfaction :: u8
  Ride_satisfaction_time_out :: u8
  Ride_satisfaction_next :: u8
  Ride_window_invalidate_flags :: u8
  Ride_total_customers :: u32
  Ride_total_profit :: s32
  Ride_popularity :: u8
  Ride_popularity_time_out :: u8
  Ride_popularity_next :: u8
  Ride_num_riders :: u8
  Ride_music_tune_id :: u8
  Ride_slide_in_use :: u8
  Ride_slide_peep :: u16
  Ride_slide_peep_t_shirt_colour :: u8
  Ride_spiral_slide_progress :: u8
  Ride_build_date :: s16
  Ride_upkeep_cost :: s16
  Ride_race_winner :: u16
  Ride_music_position :: u32
  Ride_breakdown_reason_pending :: u8
  Ride_mechanic_status :: u8
  Ride_mechanic :: u16
  Ride_inspection_station :: u8
  Ride_broken_vehicle :: u8
  Ride_broken_car :: u8
  Ride_breakdown_reason :: u8
  Ride_price_secondary :: s16
  Ride_reliability :: u16
  Ride_unreliability_factor :: u8
  Ride_downtime :: u8
  Ride_inspection_interval :: u8
  Ride_last_inspection :: u8
  Ride_downtime_history :: "u8 list"
  Ride_no_primary_items_sold :: u32
  Ride_no_secondary_items_sold :: u32
  Ride_breakdown_sound_modifier :: u8
  Ride_not_fixed_timeout :: u8
  Ride_last_crash_type :: u8
  Ride_connected_message_throttle :: u8
  Ride_income_per_hour :: s32
  Ride_profit :: s32
  Ride_track_colour :: "TrackColour list"
  Ride_music :: u8
  Ride_entrance_style :: u8
  Ride_vehicle_change_timeout :: u16
  Ride_num_block_brakes :: u8
  Ride_lift_hill_speed :: u8
  Ride_guests_favourite :: u16
  Ride_lifecycle_flags :: u32
  Ride_total_air_time :: u16
  Ride_current_test_station :: u8
  Ride_num_circuits :: u8
  Ride_cable_lift_x :: s16
  Ride_cable_lift_y :: s16
  Ride_cable_lift_z :: u8
  Ride_cable_lift :: u16
  Ride_measurement :: "RideMeasurement option"

text \<open>
  The legacy ride record \<^verbatim>\<open>rct2_ride\<close> (rct2/RCT2.h), in the order of the
  struct, without its padding bytes, which the exporter never writes.
\<close>

record rct2_ride =
  rct2_ride_type :: u8
  rct2_ride_subtype :: u8
  rct2_ride_mode :: u8
  rct2_ride_colour_scheme_type :: u8
  rct2_ride_vehicle_colours :: "rct_vehicle_colour list"
  rct2_ride_status :: u8
  rct2_ride_name :: u16
  rct2_ride_name_arguments :: u32
  rct2_ride_overall_view :: LocationXY8
  rct2_ride_station_starts :: "LocationXY8 list"
  rct2_ride_station_heights :: "u8 list"
  rct2_ride_station_length :: "u8 list"
  rct2_ride_station_depart :: "u8 list"
  rct2_ride_train_at_station :: "u8 list"
  rct2_ride_entrances :: "LocationXY8 list"
  rct2_ride_exits :: "LocationXY8 list"
  rct2_ride_last_peep_in_queue :: "u16 list"
  rct2_ride_length :: "s32 list"
  rct2_ride_time :: "u16 list"
  rct2_ride_queue_time :: "u8 list"
  rct2_ride_queue_length :: "u16 list"
  rct2_ride_vehicles :: "u16 list"
  rct2_ride_depart_flags :: u8
  rct2_ride_num_stations :: u8
  rct2_ride_num_vehicles :: u8
  rct2_ride_num_cars_per_train :: u8
  rct2_ride_proposed_num_vehicles :: u8
  rct2_ride_proposed_num_cars_per_train :: u8
  rct2_ride_max_trains :: u8
  rct2_ride_min_max_cars_per_train :: u8
  rct2_ride_min_waiting_time :: u8
  rct2_ride_max_waiting_time :: u8
  rct2_ride_operation_option :: u8
  rct2_ride_boat_hire_return_direction :: u8
  rct2_ride_boat_hire_return_position :: LocationXY8
  rct2_ride_measurement_index :: u8
  rct2_ride_special_track_elements :: u8
  rct2_ride_max_speed :: s32
  rct2_ride_average_speed :: s32
  rct2_ride_current_test_segment :: u8
  rct2_ride_average_speed_test_timeout :: u8
  rct2_ride_max_positive_vertical_g :: s16
  rct2_ride_max_negative_vertical_g :: s16
  rct2_ride_max_lateral_g :: s16
  rct2_ride_previous_vertical_g :: s16
  rct2_ride_previous_lateral_g :: s16
  rct2_ride_testing_flags :: u32
  rct2_ride_cur_test_track_location :: LocationXY8
  rct2_ride_turn_count_default :: u16
  rct2_ride_turn_count_banked :: u16
  rct2_ride_turn_count_sloped :: u16
  rct2_ride_inversions :: u8
  rct2_ride_drops :: u8
  rct2_ride_start_drop_height :: u8
  rct2_ride_highest_drop_height :: u8
  rct2_ride_sheltered_length :: s32
  rct2_ride_var_11C :: u16
  rct2_ride_num_sheltered_sections :: u8
  rct2_ride_cur_test_track_z :: u8
  rct2_ride_cur_num_customers :: u16
  rct2_ride_num_customers_timeout :: u16
  rct2_ride_num_customers :: "u16 list"
  rct2_ride_price :: s16
  rct2_ride_chairlift_bullwheel_location :: "LocationXY8 list"
  rct2_ride_chairlift_bullwheel_z :: "u8 list"
  rct2_ride_ratings :: rating_tuple
  rct2_ride_value :: u16
  rct2_ride_chairlift_bullwheel_rotation :: u16
  rct2_ride_satisfaction :: u8
  rct2_ride_satisfaction_time_out :: u8
  rct2_ride_satisfaction_next :: u8
  rct2_ride_window_invalidate_flags :: u8
  rct2_ride_total_customers :: u32
  rct2_ride_total_profit :: s32
  rct2_ride_popularity :: u8
  rct2_ride_popularity_time_out :: u8
  rct2_ride_popularity_next :: u8
  rct2_ride_num_riders :: u8
  rct2_ride_music_tune_id :: u8
  rct2_ride_slide_in_use :: u8
  rct2_ride_slide_peep :: u16
  rct2_ride_slide_peep_t_shirt_colour :: u8
  rct2_ride_spiral_slide_progress :: u8
  rct2_ride_build_date :: s16
  rct2_ride_upkeep_cost :: s16
  rct2_ride_race_winner :: u16
  rct2_ride_music_position :: u32
  rct2_ride_breakdown_reason_pending :: u8
  rct2_ride_mechanic_status :: u8
  rct2_ride_mechanic :: u16
  rct2_ride_inspection_station :: u8
  rct2_ride_broken_vehicle :: u8
  rct2_ride_broken_car :: u8
  rct2_ride_breakdown_reason :: u8
  rct2_ride_price_secondary :: s16
  rct2_ride_reliability :: u16
  rct2_ride_unreliability_factor :: u8
  rct2_ride_downtime :: u8
  rct2_ride_inspection_interval :: u8
  rct2_ride_last_inspection :: u8
  rct2_ride_downtime_history :: "u8 list"
  rct2_ride_no_primary_items_sold :: u32
  rct2_ride_no_secondary_items_sold :: u32
  rct2_ride_breakdown_sound_modifier :: u8
  rct2_ride_not_fixed_timeout :: u8
  rct2_ride_last_crash_type :: u8
  rct2_ride_connected_message_throttle :: u8
  rct2_ride_income_per_hour :: s32
  rct2_ride_profit :: s32
  rct2_ride_track_colour_main :: "u8 list"
  rct2_ride_track_colour_additional :: "u8 list"
  rct2_ride_track_colour_supports :: "u8 list"
  rct2_ride_music :: u8
  rct2_ride_entrance_style :: u8
  rct2_ride_vehicle_change_timeout :: u16
  rct2_ride_num_block_brakes :: u8
  rct2_ride_lift_hill_speed :: u8
  rct2_ride_guests_favourite :: u16
  rct2_ride_lifecycle_flags :: u32
  rct2_ride_vehicle_colours_extended :: "u8 list"
  rct2_ride_total_air_time :: u16
  rct2_ride_current_test_station :: u8
  rct2_ride_num_circuits :: u8
  rct2_ride_cable_lift_x :: s16
  rct2_ride_cable_lift_y :: s16
  rct2_ride_cable_lift_z :: u8
  rct2_ride_cable_lift :: u16

subsection \<open>The snapshot\<close>

record rct_s6_header =
  rct_s6_header_type :: u8
  rct_s6_header_classic_flag :: u8
  rct_s6_header_num_packed_objects :: u16
  rct_s6_header_version :: u32
  rct_s6_header_magic_number :: u32

text \<open>
  The part of the snapshot \<^verbatim>\<open>_s6\<close> (\<^verbatim>\<open>rct_s6_data\<close>) that the functions
  modelled here write.  The remaining fields are filled by \<^verbatim>\<open>Export\<close> with plain
  copies of global variables (assignments, \<^verbatim>\<open>memcpy\<close>, \<^verbatim>\<open>safe_strcpy\<close>) and by
  the sprite export; they are not modelled.
\<close>

record rct_s6_data =
  header :: rct_s6_header
  game_version_number :: u32
  initial_cash :: s32
  current_loan :: s32
  peep_spawns :: "rct12_peep_spawn list"
  researched_ride_types :: "u32 list"
  researched_ride_entries :: "u32 list"
  researched_scenery_items :: "u32 list"
  maximum_loan :: u32
  loan_hash :: u32
  s6_park_entrance_x :: "s16 list"
  s6_park_entrance_y :: "s16 list"
  s6_park_entrance_z :: "s16 list"
  s6_park_entrance_direction :: "u8 list"
  rides :: "rct2_ride list"
  ride_measurements :: "RCT12RideMeasurement list"

text \<open>
  The live game: the global variables the modelled functions read, and the
  functions of other translation units they call.  \<open>get_ride\<close> returns the
  ride of a slot (\<open>None\<close> is \<^verbatim>\<open>nullptr\<close>); the three \<^verbatim>\<open>*_is_invented\<close>
  predicates read the research state; the two cycle checks are represented by
  the numbers they return; the three post-export passes rewrite the snapshot in
  place.  \<open>null_sprites\<close> are the indices of the placeholder (null)
  sprites and \<open>null_sprite_list\<close> is the list of placeholders as it is
  linked from its head; \<^verbatim>\<open>fix_disjoint_sprites\<close> below works on the two.
\<close>

record Game =
  get_ride :: "nat \<Rightarrow> Ride option"
  ride_get_entrance_location :: "Ride \<Rightarrow> nat \<Rightarrow> TileCoordsXYZD"
  ride_get_exit_location :: "Ride \<Rightarrow> nat \<Rightarrow> TileCoordsXYZD"
  isNull :: "TileCoordsXYZD \<Rightarrow> bool"
  gPeepSpawns :: "CoordsXYZD list"
  gParkEntrances :: "CoordsXYZD list"
  gInitialCash :: s32
  gBankLoan :: s32
  gMaxBankLoan :: u32
  ride_type_is_invented :: "nat \<Rightarrow> bool"
  ride_entry_is_invented :: "nat \<Rightarrow> bool"
  scenery_is_invented :: "nat \<Rightarrow> bool"
  check_for_spatial_index_cycles :: s32
  check_for_sprite_list_cycles :: s32
  null_sprites :: "nat list"
  null_sprite_list :: "nat list"
  scenario_remove_trackless_rides :: "rct_s6_data \<Rightarrow> rct_s6_data"
  scenario_fix_ghosts :: "rct_s6_data \<Rightarrow> rct_s6_data"
  game_convert_strings_to_rct2 :: "rct_s6_data \<Rightarrow> rct_s6_data"

subsection \<open>\<^verbatim>\<open>S6Exporter::ExportRide\<close> and \<^verbatim>\<open>S6Exporter::ExportRides\<close>\<close>

text \<open>
  The entrance of station \<open>i\<close>: the undefined-tile constant when the live
  location is null, else the tile with both coordinates cast to \<^verbatim>\<open>uint8_t\<close>.
\<close>

definition ExportRide_entrance :: "Limits \<Rightarrow> Game \<Rightarrow> Ride \<Rightarrow> nat \<Rightarrow> LocationXY8" where
  "ExportRide_entrance K G src i =
     (let entrance = ride_get_entrance_location G src i
      in if isNull G entrance then RCT_XY8_UNDEFINED K
         else LocationXY8_of (ucast (TileCoordsXYZD_x entrance)) (ucast (TileCoordsXYZD_y entrance)))"

definition ExportRide_exit :: "Limits \<Rightarrow> Game \<Rightarrow> Ride \<Rightarrow> nat \<Rightarrow> LocationXY8" where
  "ExportRide_exit K G src i =
     (let exit = ride_get_exit_location G src i
      in if isNull G exit then RCT_XY8_UNDEFINED K
         else LocationXY8_of (ucast (TileCoordsXYZD_x exit)) (ucast (TileCoordsXYZD_y exit)))"

text \<open>
  The packed \<^verbatim>\<open>inversions\<close> byte.  \<^verbatim>\<open>dst->type\<close> has just been assigned
  \<^verbatim>\<open>src->type\<close>.  \<^verbatim>\<open>std::min\<close> is taken before the cast to \<^verbatim>\<open>uint8_t\<close>;
  \<^verbatim>\<open>src->sheltered_eighths << 5\<close> is computed in \<^verbatim>\<open>int\<close> and the \<^verbatim>\<open>|=\<close> keeps
  the low 8 bits.
\<close>

definition ExportRide_inversions :: "Limits \<Rightarrow> Ride \<Rightarrow> u8" where
  "ExportRide_inversions K src =
     (let inversions =
            (if Ride_type src = RIDE_TYPE_MINI_GOLF K
             then (of_nat (min (Ride_holes src) (RCT12_MAX_GOLF_HOLES K)) :: u8)
             else of_nat (min (Ride_inversions src) (RCT12_MAX_INVERSIONS K)))
      in inversions OR of_nat (push_bit 5 (Ride_sheltered_eighths src)))"

text \<open>\<^verbatim>\<open>*dst = {}\<close> and \<^verbatim>\<open>memset(dst, 0, sizeof(rct2_ride))\<close>: the all-zero record.\<close>

definition rct2_ride_zero :: "Limits \<Rightarrow> rct2_ride" where
  "rct2_ride_zero K = \<lparr>
     rct2_ride_type = 0,
     rct2_ride_subtype = 0,
     rct2_ride_mode = 0,
     rct2_ride_colour_scheme_type = 0,
     rct2_ride_vehicle_colours = replicate (RCT2_MAX_CARS_PER_TRAIN K) rct_vehicle_colour_zero,
     rct2_ride_status = 0,
     rct2_ride_name = 0,
     rct2_ride_name_arguments = 0,
     rct2_ride_overall_view = 0,
     rct2_ride_station_starts = replicate (RCT12_MAX_STATIONS_PER_RIDE K) 0,
     rct2_ride_station_heights = replicate (RCT12_MAX_STATIONS_PER_RIDE K) 0,
     rct2_ride_station_length = replicate (RCT12_MAX_STATIONS_PER_RIDE K) 0,
     rct2_ride_station_depart = replicate (RCT12_MAX_STATIONS_PER_RIDE K) 0,
     rct2_ride_train_at_station = replicate (RCT12_MAX_STATIONS_PER_RIDE K) 0,
     rct2_ride_entrances = replicate (RCT12_MAX_STATIONS_PER_RIDE K) 0,
     rct2_ride_exits = replicate (RCT12_MAX_STATIONS_PER_RIDE K) 0,
     rct2_ride_last_peep_in_queue = replicate (RCT12_MAX_STATIONS_PER_RIDE K) 0,
     rct2_ride_length = replicate (RCT12_MAX_STATIONS_PER_RIDE K) 0,
     rct2_ride_time = replicate (RCT12_MAX_STATIONS_PER_RIDE K) 0,
     rct2_ride_queue_time = replicate (RCT12_MAX_STATIONS_PER_RIDE K) 0,
     rct2_ride_queue_length = replicate (RCT12_MAX_STATIONS_PER_RIDE K) 0,
     rct2_ride_vehicles = replicate (RCT2_MAX_VEHICLES_PER_RIDE K) 0,
     rct2_ride_depart_flags = 0,
     rct2_ride_num_stations = 0,
     rct2_ride_num_vehicles = 0,
     rct2_ride_num_cars_per_train = 0,
     rct2_ride_proposed_num_vehicles = 0,
     rct2_ride_proposed_num_cars_per_train = 0,
     rct2_ride_max_trains = 0,
     rct2_ride_min_max_cars_per_train = 0,
     rct2_ride_min_waiting_time = 0,
     rct2_ride_max_waiting_time = 0,
     rct2_ride_operation_option = 0,
     rct2_ride_boat_hire_return_direction = 0,
     rct2_ride_boat_hire_return_position = 0,
     rct2_ride_measurement_index = 0,
     rct2_ride_special_track_elements = 0,
     rct2_ride_max_speed = 0,
     rct2_ride_average_speed = 0,
     rct2_ride_current_test_segment = 0,
     rct2_ride_average_speed_test_timeout = 0,
     rct2_ride_max_positive_vertical_g = 0,
     rct2_ride_max_negative_vertical_g = 0,
     rct2_ride_max_lateral_g = 0,
     rct2_ride_previous_vertical_g = 0,
     rct2_ride_previous_lateral_g = 0,
     rct2_ride_testing_flags = 0,
     rct2_ride_cur_test_track_location = 0,
     rct2_ride_turn_count_default = 0,
     rct2_ride_turn_count_banked = 0,
     rct2_ride_turn_count_sloped = 0,
     rct2_ride_inversions = 0,
     rct2_ride_drops = 0,
     rct2_ride_start_drop_height = 0,
     rct2_ride_highest_drop_height = 0,
     rct2_ride_sheltered_length = 0,
     rct2_ride_var_11C = 0,
     rct2_ride_num_sheltered_sections = 0,
     rct2_ride_cur_test_track_z = 0,
     rct2_ride_cur_num_customers = 0,
     rct2_ride_num_customers_timeout = 0,
     rct2_ride_num_customers = replicate (RCT2_CUSTOMER_HISTORY_SIZE K) 0,
     rct2_ride_price = 0,
     rct2_ride_chairlift_bullwheel_location = replicate 2 0,
     rct2_ride_chairlift_bullwheel_z = replicate 2 0,
     rct2_ride_ratings = rating_tuple_zero,
     rct2_ride_value = 0,
     rct2_ride_chairlift_bullwheel_rotation = 0,
     rct2_ride_satisfaction = 0,
     rct2_ride_satisfaction_time_out = 0,
     rct2_ride_satisfaction_next = 0,
     rct2_ride_window_invalidate_flags = 0,
     rct2_ride_total_customers = 0,
     rct2_ride_total_profit = 0,
     rct2_ride_popularity = 0,
     rct2_ride_popularity_time_out = 0,
     rct2_ride_popularity_next = 0,
     rct2_ride_num_riders = 0,
     rct2_ride_music_tune_id = 0,
     rct2_ride_slide_in_use = 0,
     rct2_ride_slide_peep = 0,
     rct2_ride_slide_peep_t_shirt_colour = 0,
     rct2_ride_spiral_slide_progress = 0,
     rct2_ride_build_date = 0,
     rct2_ride_upkeep_cost = 0,
     rct2_ride_race_winner = 0,
     rct2_ride_music_position = 0,
     rct2_ride_breakdown_reason_pending = 0,
     rct2_ride_mechanic_status = 0,
     rct2_ride_mechanic = 0,
     rct2_ride_inspection_station = 0,
     rct2_ride_broken_vehicle = 0,
     rct2_ride_broken_car = 0,
     rct2_ride_breakdown_reason = 0,
     rct2_ride_price_secondary = 0,
     rct2_ride_reliability = 0,
     rct2_ride_unreliability_factor = 0,
     rct2_ride_downtime = 0,
     rct2_ride_inspection_interval = 0,
     rct2_ride_last_inspection = 0,
     rct2_ride_downtime_history = replicate (RCT2_DOWNTIME_HISTORY_SIZE K) 0,
     rct2_ride_no_primary_items_sold = 0,
     rct2_ride_no_secondary_items_sold = 0,
     rct2_ride_breakdown_sound_modifier = 0,
     rct2_ride_not_fixed_timeout = 0,
     rct2_ride_last_crash_type = 0,
     rct2_ride_connected_message_throttle = 0,
     rct2_ride_income_per_hour = 0,
     rct2_ride_profit = 0,
     rct2_ride_track_colour_main = replicate (RCT12_NUM_COLOUR_SCHEMES K) 0,
     rct2_ride_track_colour_additional = replicate (RCT12_NUM_COLOUR_SCHEMES K) 0,
     rct2_ride_track_colour_supports = replicate (RCT12_NUM_COLOUR_SCHEMES K) 0,
     rct2_ride_music = 0,
     rct2_ride_entrance_style = 0,
     rct2_ride_vehicle_change_timeout = 0,
     rct2_ride_num_block_brakes = 0,
     rct2_ride_lift_hill_speed = 0,
     rct2_ride_guests_favourite = 0,
     rct2_ride_lifecycle_flags = 0,
     rct2_ride_vehicle_colours_extended = replicate (RCT2_MAX_CARS_PER_TRAIN K) 0,
     rct2_ride_total_air_time = 0,
     rct2_ride_current_test_station = 0,
     rct2_ride_num_circuits = 0,
     rct2_ride_cable_lift_x = 0,
     rct2_ride_cable_lift_y = 0,
     rct2_ride_cable_lift_z = 0,
     rct2_ride_cable_lift = 0 \<rparr>"

text \<open>
  \<^verbatim>\<open>ExportRide\<close> clears the record and assigns the fields below; it does not
  assign \<^verbatim>\<open>measurement_index\<close>, which keeps the value of the cleared record.
  The loops over stations, vehicles, cars, customer and downtime history and
  colour schemes run over the declared array sizes; the live arrays have the
  same sizes.
\<close>

definition ExportRide :: "Limits \<Rightarrow> Game \<Rightarrow> Ride \<Rightarrow> rct2_ride" where
  "ExportRide K G src = \<lparr>
     rct2_ride_type = Ride_type src,
     rct2_ride_subtype = Ride_subtype src,
     rct2_ride_mode = Ride_mode src,
     rct2_ride_colour_scheme_type = Ride_colour_scheme_type src,
     rct2_ride_vehicle_colours = map (\<lambda>i. \<lparr> body_colour = VehicleColour_Body (Ride_vehicle_colours src ! i),
                        trim_colour = VehicleColour_Trim (Ride_vehicle_colours src ! i) \<rparr>)
         [0 ..< RCT2_MAX_CARS_PER_TRAIN K],
     rct2_ride_status = Ride_status src,
     rct2_ride_name = Ride_name src,
     rct2_ride_name_arguments = Ride_name_arguments src,
     rct2_ride_overall_view = Ride_overall_view src,
     rct2_ride_station_starts = map (\<lambda>i. RideStation_Start (Ride_stations src ! i)) [0 ..< RCT12_MAX_STATIONS_PER_RIDE K],
     rct2_ride_station_heights = map (\<lambda>i. RideStation_Height (Ride_stations src ! i)) [0 ..< RCT12_MAX_STATIONS_PER_RIDE K],
     rct2_ride_station_length = map (\<lambda>i. RideStation_Length (Ride_stations src ! i)) [0 ..< RCT12_MAX_STATIONS_PER_RIDE K],
     rct2_ride_station_depart = map (\<lambda>i. RideStation_Depart (Ride_stations src ! i)) [0 ..< RCT12_MAX_STATIONS_PER_RIDE K],
     rct2_ride_train_at_station = map (\<lambda>i. RideStation_TrainAtStation (Ride_stations src ! i)) [0 ..< RCT12_MAX_STATIONS_PER_RIDE K],
     rct2_ride_entrances = map (ExportRide_entrance K G src) [0 ..< RCT12_MAX_STATIONS_PER_RIDE K],
     rct2_ride_exits = map (ExportRide_exit K G src) [0 ..< RCT12_MAX_STATIONS_PER_RIDE K],
     rct2_ride_last_peep_in_queue = map (\<lambda>i. RideStation_LastPeepInQueue (Ride_stations src ! i)) [0 ..< RCT12_MAX_STATIONS_PER_RIDE K],
     rct2_ride_length = map (\<lambda>i. RideStation_SegmentLength (Ride_stations src ! i)) [0 ..< RCT12_MAX_STATIONS_PER_RIDE K],
     rct2_ride_time = map (\<lambda>i. RideStation_SegmentTime (Ride_stations src ! i)) [0 ..< RCT12_MAX_STATIONS_PER_RIDE K],
     rct2_ride_queue_time = map (\<lambda>i. RideStation_QueueTime (Ride_stations src ! i)) [0 ..< RCT12_MAX_STATIONS_PER_RIDE K],
     rct2_ride_queue_length = map (\<lambda>i. RideStation_QueueLength (Ride_stations src ! i)) [0 ..< RCT12_MAX_STATIONS_PER_RIDE K],
     rct2_ride_vehicles = map (\<lambda>i. Ride_vehicles src ! i) [0 ..< RCT2_MAX_VEHICLES_PER_RIDE K],
     rct2_ride_depart_flags = Ride_depart_flags src,
     rct2_ride_num_stations = Ride_num_stations src,
     rct2_ride_num_vehicles = Ride_num_vehicles src,
     rct2_ride_num_cars_per_train = Ride_num_cars_per_train src,
     rct2_ride_proposed_num_vehicles = Ride_proposed_num_vehicles src,
     rct2_ride_proposed_num_cars_per_train = Ride_proposed_num_cars_per_train src,
     rct2_ride_max_trains = Ride_max_trains src,
     rct2_ride_min_max_cars_per_train = Ride_min_max_cars_per_train src,
     rct2_ride_min_waiting_time = Ride_min_waiting_time src,
     rct2_ride_max_waiting_time = Ride_max_waiting_time src,
     rct2_ride_operation_option = Ride_operation_option src,
     rct2_ride_boat_hire_return_direction = Ride_boat_hire_return_direction src,
     rct2_ride_boat_hire_return_position = Ride_boat_hire_return_position src,
     rct2_ride_measurement_index = rct2_ride_measurement_index (rct2_ride_zero K),
     rct2_ride_special_track_elements = Ride_special_track_elements src,
     rct2_ride_max_speed = Ride_max_speed src,
     rct2_ride_average_speed = Ride_average_speed src,
     rct2_ride_current_test_segment = Ride_current_test_segment src,
     rct2_ride_average_speed_test_timeout = Ride_average_speed_test_timeout src,
     rct2_ride_max_positive_vertical_g = Ride_max_positive_vertical_g src,
     rct2_ride_max_negative_vertical_g = Ride_max_negative_vertical_g src,
     rct2_ride_max_lateral_g = Ride_max_lateral_g src,
     rct2_ride_previous_vertical_g = Ride_previous_vertical_g src,
     rct2_ride_previous_lateral_g = Ride_previous_lateral_g src,
     rct2_ride_testing_flags = Ride_testing_flags src,
     rct2_ride_cur_test_track_location = Ride_cur_test_track_location src,
     rct2_ride_turn_count_default = Ride_turn_count_default src,
     rct2_ride_turn_count_banked = Ride_turn_count_banked src,
     rct2_ride_turn_count_sloped = Ride_turn_count_sloped src,
     rct2_ride_inversions = ExportRide_inversions K src,
     rct2_ride_drops = Ride_drops src,
     rct2_ride_start_drop_height = Ride_start_drop_height src,
     rct2_ride_highest_drop_height = Ride_highest_drop_height src,
     rct2_ride_sheltered_length = Ride_sheltered_length src,
     rct2_ride_var_11C = Ride_var_11C src,
     rct2_ride_num_sheltered_sections = Ride_num_sheltered_sections src,
     rct2_ride_cur_test_track_z = Ride_cur_test_track_z src,
     rct2_ride_cur_num_customers = Ride_cur_num_customers src,
     rct2_ride_num_customers_timeout = Ride_num_customers_timeout src,
     rct2_ride_num_customers = map (\<lambda>i. Ride_num_customers src ! i) [0 ..< RCT2_CUSTOMER_HISTORY_SIZE K],
     rct2_ride_price = Ride_price src,
     rct2_ride_chairlift_bullwheel_location = map (\<lambda>i. Ride_chairlift_bullwheel_location src ! i) [0 ..< 2],
     rct2_ride_chairlift_bullwheel_z = map (\<lambda>i. Ride_chairlift_bullwheel_z src ! i) [0 ..< 2],
     rct2_ride_ratings = Ride_ratings src,
     rct2_ride_value = Ride_value src,
     rct2_ride_chairlift_bullwheel_rotation = Ride_chairlift_bullwheel_rotation src,
     rct2_ride_satisfaction = Ride_satisfaction src,
     rct2_ride_satisfaction_time_out = Ride_satisfaction_time_out src,
     rct2_ride_satisfaction_next = Ride_satisfaction_next src,
     rct2_ride_window_invalidate_flags = Ride_window_invalidate_flags src,
     rct2_ride_total_customers = Ride_total_customers src,
     rct2_ride_total_profit = Ride_total_profit src,
     rct2_ride_popularity = Ride_popularity src,
     rct2_ride_popularity_time_out = Ride_popularity_time_out src,
     rct2_ride_popularity_next = Ride_popularity_next src,
     rct2_ride_num_riders = Ride_num_riders src,
     rct2_ride_music_tune_id = Ride_music_tune_id src,
     rct2_ride_slide_in_use = Ride_slide_in_use src,
     rct2_ride_slide_peep = Ride_slide_peep src,
     rct2_ride_slide_peep_t_shirt_colour = Ride_slide_peep_t_shirt_colour src,
     rct2_ride_spiral_slide_progress = Ride_spiral_slide_progress src,
     rct2_ride_build_date = Ride_build_date src,
     rct2_ride_upkeep_cost = Ride_upkeep_cost src,
     rct2_ride_race_winner = Ride_race_winner src,
     rct2_ride_music_position = Ride_music_position src,
     rct2_ride_breakdown_reason_pending = Ride_breakdown_reason_pending src,
     rct2_ride_mechanic_status = Ride_mechanic_status src,
     rct2_ride_mechanic = Ride_mechanic src,
     rct2_ride_inspection_station = Ride_inspection_station src,
     rct2_ride_broken_vehicle = Ride_broken_vehicle src,
     rct2_ride_broken_car = Ride_broken_car src,
     rct2_ride_breakdown_reason = Ride_breakdown_reason src,
     rct2_ride_price_secondary = Ride_price_secondary src,
     rct2_ride_reliability = Ride_reliability src,
     rct2_ride_unreliability_factor = Ride_unreliability_factor src,
     rct2_ride_downtime = Ride_downtime src,
     rct2_ride_inspection_interval = Ride_inspection_interval src,
     rct2_ride_last_inspection = Ride_last_inspection src,
     rct2_ride_downtime_history = map (\<lambda>i. Ride_downtime_history src ! i) [0 ..< RCT2_DOWNTIME_HISTORY_SIZE K],
     rct2_ride_no_primary_items_sold = Ride_no_primary_items_sold src,
     rct2_ride_no_secondary_items_sold = Ride_no_secondary_items_sold src,
     rct2_ride_breakdown_sound_modifier = Ride_breakdown_sound_modifier src,
     rct2_ride_not_fixed_timeout = Ride_not_fixed_timeout src,
     rct2_ride_last_crash_type = Ride_last_crash_type src,
     rct2_ride_connected_message_throttle = Ride_connected_message_throttle src,
     rct2_ride_income_per_hour = Ride_income_per_hour src,
     rct2_ride_profit = Ride_profit src,
     rct2_ride_track_colour_main = map (\<lambda>i. TrackColour_main (Ride_track_colour src ! i)) [0 ..< RCT12_NUM_COLOUR_SCHEMES K],
     rct2_ride_track_colour_additional = map (\<lambda>i. TrackColour_additional (Ride_track_colour src ! i)) [0 ..< RCT12_NUM_COLOUR_SCHEMES K],
     rct2_ride_track_colour_supports = map (\<lambda>i. TrackColour_supports (Ride_track_colour src ! i)) [0 ..< RCT12_NUM_COLOUR_SCHEMES K],
     rct2_ride_music = Ride_music src,
     rct2_ride_entrance_style = Ride_entrance_style src,
     rct2_ride_vehicle_change_timeout = Ride_vehicle_change_timeout src,
     rct2_ride_num_block_brakes = Ride_num_block_brakes src,
     rct2_ride_lift_hill_speed = Ride_lift_hill_speed src,
     rct2_ride_guests_favourite = Ride_guests_favourite src,
     rct2_ride_lifecycle_flags = Ride_lifecycle_flags src,
     rct2_ride_vehicle_colours_extended = map (\<lambda>i. VehicleColour_Ternary (Ride_vehicle_colours src ! i)) [0 ..< RCT2_MAX_CARS_PER_TRAIN K],
     rct2_ride_total_air_time = Ride_total_air_time src,
     rct2_ride_current_test_station = Ride_current_test_station src,
     rct2_ride_num_circuits = Ride_num_circuits src,
     rct2_ride_cable_lift_x = Ride_cable_lift_x src,
     rct2_ride_cable_lift_y = Ride_cable_lift_y src,
     rct2_ride_cable_lift_z = Ride_cable_lift_z src,
     rct2_ride_cable_lift = Ride_cable_lift src \<rparr>"

text \<open>
  One iteration of the loop of \<^verbatim>\<open>ExportRides\<close>.  \<^verbatim>\<open>src->type\<close> is read without
  a null check.
\<close>

definition ExportRides_slot :: "Limits \<Rightarrow> Game \<Rightarrow> nat \<Rightarrow> error + rct2_ride" where
  "ExportRides_slot K G index =
     (case get_ride G index of
        None \<Rightarrow> Inl NullDereference
      | Some src \<Rightarrow>
          if Ride_type src = RIDE_TYPE_NULL K
          then Inr ((rct2_ride_zero K)\<lparr> rct2_ride_type := RIDE_TYPE_NULL K \<rparr>)
          else Inr (ExportRide K G src))"

fun ExportRides_loop ::
  "Limits \<Rightarrow> Game \<Rightarrow> nat list \<Rightarrow> rct2_ride list \<Rightarrow> error + rct2_ride list" where
  "ExportRides_loop K G [] tbl = Inr tbl"
| "ExportRides_loop K G (index # rest) tbl =
     (if index < length tbl
      then (case ExportRides_slot K G index of
              Inl e \<Rightarrow> Inl e
            | Inr dst \<Rightarrow> ExportRides_loop K G rest (tbl[index := dst]))
      else Inl OutOfBounds)"

definition ExportRides :: "Limits \<Rightarrow> Game \<Rightarrow> rct_s6_data \<Rightarrow> error + rct_s6_data" where
  "ExportRides K G s6 =
     (case ExportRides_loop K G [0 ..< RCT12_MAX_RIDES_IN_PARK K] (rides s6) of
        Inl e \<Rightarrow> Inl e
      | Inr tbl \<Rightarrow> Inr (s6\<lparr> rides := tbl \<rparr>))"

subsection \<open>\<^verbatim>\<open>S6Exporter::ExportRideMeasurements\<close>\<close>

text \<open>The first loop: the measurements of the rides that have one, in slot order.\<close>

definition collect_ride_measurements :: "Limits \<Rightarrow> Game \<Rightarrow> RideMeasurement list" where
  "collect_ride_measurements K G =
     concat (map (\<lambda>i. case get_ride G i of
                         None \<Rightarrow> []
                       | Some ride \<Rightarrow> (case Ride_measurement ride of None \<Rightarrow> [] | Some m \<Rightarrow> [m]))
                 [0 ..< RCT12_MAX_RIDES_IN_PARK K])"

text \<open>
  \<^verbatim>\<open>std::sort\<close> with the comparator \<^verbatim>\<open>a->last_use_tick > b->last_use_tick\<close>:
  descending by tick, the ticks compared as unsigned numbers.  \<^verbatim>\<open>std::sort\<close>
  leaves the order of equal ticks unspecified; the insertion sort here keeps
  it.  Where the ticks are distinct there is one sorted order only.
\<close>

definition sort_by_last_use :: "RideMeasurement list \<Rightarrow> RideMeasurement list" where
  "sort_by_last_use ms = sort_key (\<lambda>m. - uint (RideMeasurement_last_use_tick m)) ms"

definition trim_by_lru :: "Limits \<Rightarrow> RideMeasurement list \<Rightarrow> RideMeasurement list" where
  "trim_by_lru K rideMeasurements =
     (if length rideMeasurements > RCT12_RIDE_MEASUREMENT_MAX_ITEMS K
      then take (RCT12_RIDE_MEASUREMENT_MAX_ITEMS K) (sort_by_last_use rideMeasurements)
      else rideMeasurements)"

text \<open>
  \<^verbatim>\<open>ExportRideMeasurement\<close> copies the sample into the slot and leaves the
  slot's \<^verbatim>\<open>ride_index\<close> alone.  Its loop copies the four arrays element by
  element over the size of the live array, which is the size of the legacy one.
\<close>

definition ExportRideMeasurement ::
  "RCT12RideMeasurement \<Rightarrow> RideMeasurement \<Rightarrow> RCT12RideMeasurement" where
  "ExportRideMeasurement dst src =
     dst\<lparr> RCT12RideMeasurement_flags := RideMeasurement_flags src,
          RCT12RideMeasurement_last_use_tick := RideMeasurement_last_use_tick src,
          RCT12RideMeasurement_num_items := RideMeasurement_num_items src,
          RCT12RideMeasurement_current_item := RideMeasurement_current_item src,
          RCT12RideMeasurement_vehicle_index := RideMeasurement_vehicle_index src,
          RCT12RideMeasurement_current_station := RideMeasurement_current_station src,
          RCT12RideMeasurement_velocity := RideMeasurement_velocity src,
          RCT12RideMeasurement_altitude := RideMeasurement_altitude src,
          RCT12RideMeasurement_vertical := RideMeasurement_vertical src,
          RCT12RideMeasurement_lateral := RideMeasurement_lateral src \<rparr>"

text \<open>The assignment \<^verbatim>\<open>_s6.rides[rideId].measurement_index = i\<close>, on the record.\<close>

definition set_measurement_index :: "u8 \<Rightarrow> rct2_ride \<Rightarrow> rct2_ride" where
  "set_measurement_index i ride = ride\<lparr> rct2_ride_measurement_index := i \<rparr>"

text \<open>
  The last loop.  The slot counter \<^verbatim>\<open>i\<close> is a \<^verbatim>\<open>uint8_t\<close>; \<^verbatim>\<open>ride_index\<close> is
  a \<^verbatim>\<open>uint8_t\<close> too and keeps the low byte of the ride id.  Both array writes
  are checked here, since C++ does not.
\<close>

fun write_ride_measurements ::
  "RideMeasurement list \<Rightarrow> u8 \<Rightarrow> rct_s6_data \<Rightarrow> error + rct_s6_data" where
  "write_ride_measurements [] i s6 = Inr s6"
| "write_ride_measurements (src # rest) i s6 =
     (if unat i < length (ride_measurements s6)
      then
        (let dst = ExportRideMeasurement (ride_measurements s6 ! unat i) src;
             rideId = RideMeasurement_ride_id src;
             dst = dst\<lparr> RCT12RideMeasurement_ride_index := of_nat rideId \<rparr>;
             s6 = s6\<lparr> ride_measurements := (ride_measurements s6)[unat i := dst] \<rparr>
         in if rideId < length (rides s6)
            then write_ride_measurements rest (i + 1)
                   (s6\<lparr> rides := (rides s6)
                            [rideId := set_measurement_index i (rides s6 ! rideId)] \<rparr>)
            else Inl OutOfBounds)
      else Inl OutOfBounds)"

definition ExportRideMeasurements :: "Limits \<Rightarrow> Game \<Rightarrow> rct_s6_data \<Rightarrow> error + rct_s6_data" where
  "ExportRideMeasurements K G s6 =
     write_ride_measurements (trim_by_lru K (collect_ride_measurements K G)) 0 s6"

subsection \<open>The researched-flag exports on the snapshot\<close>

text \<open>
  The loop variable of \<^verbatim>\<open>ExportResearchedSceneryItems\<close> is a \<^verbatim>\<open>uint16_t\<close>: were
  the domain larger than 65535 the loop would not end.
\<close>

definition ExportResearchedRideTypes :: "Limits \<Rightarrow> Game \<Rightarrow> rct_s6_data \<Rightarrow> error + rct_s6_data" where
  "ExportResearchedRideTypes K G s6 =
     (case researched_loop (ride_type_is_invented G) [0 ..< RIDE_TYPE_COUNT K]
             (fill_false (researched_ride_types s6)) of
        Inl e \<Rightarrow> Inl e
      | Inr arr \<Rightarrow> Inr (s6\<lparr> researched_ride_types := arr \<rparr>))"

definition ExportResearchedRideEntries :: "Limits \<Rightarrow> Game \<Rightarrow> rct_s6_data \<Rightarrow> error + rct_s6_data" where
  "ExportResearchedRideEntries K G s6 =
     (case researched_loop (ride_entry_is_invented G) [0 ..< MAX_RIDE_OBJECTS K]
             (fill_false (researched_ride_entries s6)) of
        Inl e \<Rightarrow> Inl e
      | Inr arr \<Rightarrow> Inr (s6\<lparr> researched_ride_entries := arr \<rparr>))"

definition ExportResearchedSceneryItems :: "Limits \<Rightarrow> Game \<Rightarrow> rct_s6_data \<Rightarrow> error + rct_s6_data" where
  "ExportResearchedSceneryItems K G s6 =
     (if RCT2_MAX_RESEARCHED_SCENERY_ITEMS K > 65535 then Inl NonTermination
      else case researched_loop (scenery_is_invented G) [0 ..< RCT2_MAX_RESEARCHED_SCENERY_ITEMS K]
                  (fill_false (researched_scenery_items s6)) of
             Inl e \<Rightarrow> Inl e
           | Inr arr \<Rightarrow> Inr (s6\<lparr> researched_scenery_items := arr \<rparr>))"

subsection \<open>\<^verbatim>\<open>S6Exporter::Export\<close>\<close>

text \<open>
  The constructor \<^verbatim>\<open>S6Exporter()\<close> fills \<^verbatim>\<open>_s6\<close> with zero bytes.  The sizes of
  the three researched-flag arrays are literals of the struct declaration and
  parameters here.
\<close>

definition rct_s6_data_zero :: "Limits \<Rightarrow> nat \<Rightarrow> nat \<Rightarrow> nat \<Rightarrow> rct_s6_data" where
  "rct_s6_data_zero K n_ride_types n_ride_entries n_scenery_items = \<lparr>
     header = \<lparr> rct_s6_header_type = 0, rct_s6_header_classic_flag = 0,
                rct_s6_header_num_packed_objects = 0, rct_s6_header_version = 0,
                rct_s6_header_magic_number = 0 \<rparr>,
     game_version_number = 0,
     initial_cash = 0,
     current_loan = 0,
     peep_spawns = replicate (RCT12_MAX_PEEP_SPAWNS K)
        \<lparr> rct12_peep_spawn_x = 0, rct12_peep_spawn_y = 0, rct12_peep_spawn_z = 0,
          rct12_peep_spawn_direction = 0 \<rparr>,
     researched_ride_types = replicate n_ride_types 0,
     researched_ride_entries = replicate n_ride_entries 0,
     researched_scenery_items = replicate n_scenery_items 0,
     maximum_loan = 0,
     loan_hash = 0,
     s6_park_entrance_x = replicate (RCT12_MAX_PARK_ENTRANCES K) 0,
     s6_park_entrance_y = replicate (RCT12_MAX_PARK_ENTRANCES K) 0,
     s6_park_entrance_z = replicate (RCT12_MAX_PARK_ENTRANCES K) 0,
     s6_park_entrance_direction = replicate (RCT12_MAX_PARK_ENTRANCES K) 0,
     rides = replicate (RCT12_MAX_RIDES_IN_PARK K) (rct2_ride_zero K),
     ride_measurements = replicate (RCT12_RIDE_MEASUREMENT_MAX_ITEMS K)
        \<lparr> RCT12RideMeasurement_ride_index = 0, RCT12RideMeasurement_flags = 0,
          RCT12RideMeasurement_last_use_tick = 0, RCT12RideMeasurement_num_items = 0,
          RCT12RideMeasurement_current_item = 0, RCT12RideMeasurement_vehicle_index = 0,
          RCT12RideMeasurement_current_station = 0, RCT12RideMeasurement_vertical = [],
          RCT12RideMeasurement_lateral = [], RCT12RideMeasurement_velocity = [],
          RCT12RideMeasurement_altitude = [] \<rparr> \<rparr>"

text \<open>
  Modelled from the spec: \<^verbatim>\<open>openrct2_assert\<close> is a macro of
  core/Guard.hpp, which is not among the sources.  The spec makes a cycle a
  fatal precondition failure after which the export must not proceed: a failed
  assertion ends the export with the message of the assertion.
\<close>

definition openrct2_assert :: "bool \<Rightarrow> string \<Rightarrow> error + unit" where
  "openrct2_assert expr msg = (if expr then Inr () else Inl (AssertionFailed msg))"

text \<open>
  Modelled from the spec: \<^verbatim>\<open>fix_disjoint_sprites\<close> is a function of
  world/Sprite.cpp, which is not among the sources.  The spec has it "detect
  and repair orphaned/disjoint placeholder entities".  A placeholder is
  disjoint when the list of placeholders does not reach it; the repair links
  every disjoint placeholder, once, to the end of that list; the function
  returns how many it found, as the \<^verbatim>\<open>int32_t\<close> that \<^verbatim>\<open>Export\<close> receives.
\<close>

definition disjoint_null_sprites :: "Game \<Rightarrow> nat list" where
  "disjoint_null_sprites G =
     remdups (filter (\<lambda>i. i \<notin> set (null_sprite_list G)) (null_sprites G))"

definition fix_disjoint_sprites :: "Game \<Rightarrow> s32 \<times> Game" where
  "fix_disjoint_sprites G =
     (of_nat (length (disjoint_null_sprites G)),
      G\<lparr> null_sprite_list := null_sprite_list G @ disjoint_null_sprites G \<rparr>)"

text \<open>Sequencing of steps that can fail: the first failure ends the export.\<close>

definition and_then :: "error + 'a \<Rightarrow> ('a \<Rightarrow> error + 'b) \<Rightarrow> error + 'b" where
  "and_then r f = (case r of Inl e \<Rightarrow> Inl e | Inr v \<Rightarrow> f v)"

text \<open>
  The modelled steps of \<^verbatim>\<open>Export\<close> after its integrity checks, in the order of
  the source.
\<close>

definition Export_gather ::
  "Limits \<Rightarrow> Game \<Rightarrow> bool \<Rightarrow> rct_s6_data \<Rightarrow> error + rct_s6_data" where
  "Export_gather K G RemoveTracklessRides s6 =
     (let s6 = s6\<lparr> initial_cash := gInitialCash G, current_loan := gBankLoan G \<rparr>;
          s6 = s6\<lparr> peep_spawns := ExportPeepSpawns K (gPeepSpawns G) \<rparr>
      in and_then (ExportResearchedRideTypes K G s6) (\<lambda>s6.
         and_then (ExportResearchedRideEntries K G s6) (\<lambda>s6.
         and_then (ExportResearchedSceneryItems K G s6) (\<lambda>s6.
         let s6 = s6\<lparr> maximum_loan := gMaxBankLoan G \<rparr>;
             s6 = s6\<lparr> loan_hash := GetLoanHash (gInitialCash G) (gBankLoan G) (gMaxBankLoan G) \<rparr>;
             e = ExportParkEntrances K (gParkEntrances G);
             s6 = s6\<lparr> s6_park_entrance_x := park_entrance_x e,
                       s6_park_entrance_y := park_entrance_y e,
                       s6_park_entrance_z := park_entrance_z e,
                       s6_park_entrance_direction := park_entrance_direction e \<rparr>
         in and_then (ExportRides K G s6) (\<lambda>s6.
            and_then (ExportRideMeasurements K G s6) (\<lambda>s6.
            let s6 = (if RemoveTracklessRides then scenario_remove_trackless_rides G s6 else s6);
                s6 = scenario_fix_ghosts G s6;
                s6 = game_convert_strings_to_rct2 G s6
            in Inr s6))))))"

text \<open>
  \<^verbatim>\<open>Export\<close>.  The three checks run first, then the two assertions, then the
  log line for disjoint sprites, then the gather, on the game as
  \<^verbatim>\<open>fix_disjoint_sprites\<close> left it.  The result carries the snapshot, the lines
  logged with \<^verbatim>\<open>log_error\<close> and the live game after the export.  Messages are
  kept without the number they format.  The numbers are \<^verbatim>\<open>int32_t\<close>: \<^verbatim>\<open>-1\<close>
  is the word of all ones and \<^verbatim>\<open>> 0\<close> is a signed comparison.
\<close>

definition Export ::
  "Limits \<Rightarrow> Game \<Rightarrow> bool \<Rightarrow> rct_s6_data
     \<Rightarrow> error + (rct_s6_data \<times> string list \<times> Game)" where
  "Export K G RemoveTracklessRides s6 =
     (let spatial_cycle = check_for_spatial_index_cycles G;
          regular_cycle = check_for_sprite_list_cycles G;
          (disjoint_sprites_count, G) = fix_disjoint_sprites G
      in and_then (openrct2_assert (spatial_cycle = - 1) ''Sprite cycle exists in spatial list'') (\<lambda>_.
         and_then (openrct2_assert (regular_cycle = - 1) ''Sprite cycle exists in regular list'') (\<lambda>_.
         let log = (if 0 <s disjoint_sprites_count then [''Found disjoint null sprites''] else [])
         in and_then (Export_gather K G RemoveTracklessRides s6) (\<lambda>s6. Inr (s6, log, G)))))"

subsection \<open>\<^verbatim>\<open>S6Exporter::Save\<close>\<close>

text \<open>
  Modelled from the spec: the stream (core/IStream.hpp is not among the
  sources) is "a stream abstraction supporting sequential write, absolute
  seek, length query, and full read-back": a byte sequence and a position.
  A write overwrites from the position on and extends the sequence where it
  reaches past its end; a read of more bytes than there are fails.
\<close>

record IStream =
  stream_data :: "u8 list"
  stream_position :: nat

datatype io_error = IOException

definition GetLength :: "IStream \<Rightarrow> nat" where
  "GetLength stream = length (stream_data stream)"

definition SetPosition :: "IStream \<Rightarrow> nat \<Rightarrow> IStream" where
  "SetPosition stream p = stream\<lparr> stream_position := p \<rparr>"

definition Write :: "IStream \<Rightarrow> u8 list \<Rightarrow> IStream" where
  "Write stream bytes =
     (let p = stream_position stream;
          padded = stream_data stream @ replicate (p - length (stream_data stream)) 0
      in \<lparr> stream_data = take p padded @ bytes @ drop (p + length bytes) padded,
           stream_position = p + length bytes \<rparr>)"

definition ReadArray :: "IStream \<Rightarrow> nat \<Rightarrow> io_error + (u8 list \<times> IStream)" where
  "ReadArray stream n =
     (let p = stream_position stream
      in if p + n \<le> length (stream_data stream)
         then Inr (take n (drop p (stream_data stream)), stream\<lparr> stream_position := p + n \<rparr>)
         else Inl IOException)"

text \<open>
  \<^verbatim>\<open>stream->WriteValue(checksum)\<close> writes the four bytes of the \<^verbatim>\<open>uint32_t\<close> as
  they lie in memory: least significant byte first on the targets of the
  format.  \<open>u32_of_bytes\<close> reads such a field back.
\<close>

definition u32_bytes :: "u32 \<Rightarrow> u8 list" where
  "u32_bytes w = [ucast w, ucast (drop_bit 8 w), ucast (drop_bit 16 w), ucast (drop_bit 24 w)]"

definition WriteValue_u32 :: "IStream \<Rightarrow> u32 \<Rightarrow> IStream" where
  "WriteValue_u32 stream v = Write stream (u32_bytes v)"

definition u32_of_bytes :: "u8 list \<Rightarrow> u32" where
  "u32_of_bytes bs =
     ucast (bs ! 0) OR push_bit 8 (ucast (bs ! 1)) OR push_bit 16 (ucast (bs ! 2))
       OR push_bit 24 (ucast (bs ! 3))"

text \<open>
  What \<^verbatim>\<open>Save\<close> hands to its collaborators.  A chunk is a range of the memory
  of \<^verbatim>\<open>_s6\<close>: the field it starts at, its length (\<open>Sizeof\<close> for the overloads
  that take the size of the object), and the encoding.
\<close>

datatype SAWYER_ENCODING = RLECOMPRESSED | ROTATE

datatype chunk_start =
  At_header
  | At_info
  | At_objects
  | At_elapsed_months
  | At_tile_elements
  | At_next_free_tile_element_pointer_index
  | At_guests_in_park
  | At_last_guests_in_park
  | At_park_rating
  | At_active_research_types
  | At_current_expenditure
  | At_park_value
  | At_completed_company_value

datatype chunk_length = Sizeof | Bytes nat

datatype write_call =
  WriteChunk chunk_start chunk_length SAWYER_ENCODING
  | WritePackedObjects

text \<open>
  The collaborators of \<^verbatim>\<open>Save\<close>, none of them among the sources:
  the bytes the chunk writer puts on the stream for a payload and an encoding
  (framing included), the bytes the object repository writes for the packed
  objects, the checksum of util/SawyerCoding, and the memory image of a range
  of the snapshot.  Each collaborator writes at the position of the stream.
\<close>

record 'o Codec =
  chunk_bytes :: "u8 list \<Rightarrow> SAWYER_ENCODING \<Rightarrow> u8 list"
  packed_objects_bytes :: "'o list \<Rightarrow> u8 list"
  sawyercoding_calculate_checksum :: "u8 list \<Rightarrow> u32"
  s6_memory :: "rct_s6_data \<Rightarrow> chunk_start \<Rightarrow> chunk_length \<Rightarrow> u8 list"

text \<open>The first six assignments of \<^verbatim>\<open>Save\<close>.\<close>

definition Save_header :: "Limits \<Rightarrow> rct_s6_data \<Rightarrow> 'o list \<Rightarrow> bool \<Rightarrow> rct_s6_data" where
  "Save_header K s6 ExportObjectsList isScenario =
     s6\<lparr> header := (header s6)
            \<lparr> rct_s6_header_type := (if isScenario then S6_TYPE_SCENARIO K else S6_TYPE_SAVEDGAME K),
              rct_s6_header_classic_flag := 0,
              rct_s6_header_num_packed_objects := of_nat (length ExportObjectsList),
              rct_s6_header_version := S6_RCT2_VERSION K,
              rct_s6_header_magic_number := S6_MAGIC_NUMBER K \<rparr>,
         game_version_number := 201028 \<rparr>"

text \<open>The two tails: chunks 6 to 13 of a scenario, chunk 6 of a saved game.\<close>

definition scenario_tail :: "write_call list" where
  "scenario_tail =
     [ WriteChunk At_next_free_tile_element_pointer_index (Bytes 0x27104C) RLECOMPRESSED,
       WriteChunk At_guests_in_park (Bytes 4) RLECOMPRESSED,
       WriteChunk At_last_guests_in_park (Bytes 8) RLECOMPRESSED,
       WriteChunk At_park_rating (Bytes 2) RLECOMPRESSED,
       WriteChunk At_active_research_types (Bytes 1082) RLECOMPRESSED,
       WriteChunk At_current_expenditure (Bytes 16) RLECOMPRESSED,
       WriteChunk At_park_value (Bytes 4) RLECOMPRESSED,
       WriteChunk At_completed_company_value (Bytes 0x761E8) RLECOMPRESSED ]"

definition savedgame_tail :: "write_call list" where
  "savedgame_tail =
     [ WriteChunk At_next_free_tile_element_pointer_index (Bytes 0x2E8570) RLECOMPRESSED ]"

text \<open>
  The calls of \<^verbatim>\<open>Save\<close> on its collaborators, in order.  Both branches test
  the header that was just written, not the parameter.
\<close>

definition Save_calls :: "Limits \<Rightarrow> rct_s6_data \<Rightarrow> write_call list" where
  "Save_calls K s6 =
     [WriteChunk At_header Sizeof ROTATE]
     @ (if rct_s6_header_type (header s6) = S6_TYPE_SCENARIO K
        then [WriteChunk At_info Sizeof ROTATE] else [])
     @ (if rct_s6_header_num_packed_objects (header s6) > 0 then [WritePackedObjects] else [])
     @ [ WriteChunk At_objects Sizeof ROTATE,
         WriteChunk At_elapsed_months (Bytes 16) RLECOMPRESSED,
         WriteChunk At_tile_elements (Bytes 0x180000) RLECOMPRESSED ]
     @ (if rct_s6_header_type (header s6) = S6_TYPE_SCENARIO K
        then scenario_tail else savedgame_tail)"

definition call_bytes :: "'o Codec \<Rightarrow> rct_s6_data \<Rightarrow> 'o list \<Rightarrow> write_call \<Rightarrow> u8 list" where
  "call_bytes C s6 ExportObjectsList call =
     (case call of
        WriteChunk start len encoding \<Rightarrow> chunk_bytes C (s6_memory C s6 start len) encoding
      | WritePackedObjects \<Rightarrow> packed_objects_bytes C ExportObjectsList)"

fun write_calls :: "'o Codec \<Rightarrow> rct_s6_data \<Rightarrow> 'o list \<Rightarrow> write_call list \<Rightarrow> IStream \<Rightarrow> IStream" where
  "write_calls C s6 objs [] stream = stream"
| "write_calls C s6 objs (call # rest) stream =
     write_calls C s6 objs rest (Write stream (call_bytes C s6 objs call))"

definition Save ::
  "Limits \<Rightarrow> 'o Codec \<Rightarrow> rct_s6_data \<Rightarrow> 'o list \<Rightarrow> IStream \<Rightarrow> bool
     \<Rightarrow> io_error + (rct_s6_data \<times> IStream)" where
  "Save K C s6 ExportObjectsList stream isScenario =
     (let s6 = Save_header K s6 ExportObjectsList isScenario;
          stream = write_calls C s6 ExportObjectsList (Save_calls K s6) stream;
          fileSize = GetLength stream;
          stream = SetPosition stream 0
      in case ReadArray stream fileSize of
           Inl e \<Rightarrow> Inl e
         | Inr (data, stream) \<Rightarrow>
             (let checksum = sawyercoding_calculate_checksum C data;
                  stream = SetPosition stream fileSize;
                  stream = WriteValue_u32 stream checksum
              in Inr (s6, stream)))"

text \<open>\<^verbatim>\<open>SaveGame(stream)\<close> and \<^verbatim>\<open>SaveScenario(stream)\<close>.\<close>

definition SaveGame ::
  "Limits \<Rightarrow> 'o Codec \<Rightarrow> rct_s6_data \<Rightarrow> 'o list \<Rightarrow> IStream \<Rightarrow> io_error + (rct_s6_data \<times> IStream)" where
  "SaveGame K C s6 ExportObjectsList stream = Save K C s6 ExportObjectsList stream False"

definition SaveScenario ::
  "Limits \<Rightarrow> 'o Codec \<Rightarrow> rct_s6_data \<Rightarrow> 'o list \<Rightarrow> IStream \<Rightarrow> io_error + (rct_s6_data \<times> IStream)" where
  "SaveScenario K C s6 ExportObjectsList stream = Save K C s6 ExportObjectsList stream True"

subsection \<open>An example park\<close>

text \<open>
  The example of the specification: five rides, each with performance samples,
  and room for three sample records.  The rides are blank but for their type,
  their counts and their samples; ride \<open>i\<close> holds the samples whose recency
  is the \<open>i\<close>-th of 10, 30, 20, 50, 40.
\<close>

definition blank_ride :: "Limits \<Rightarrow> Ride" where
  "blank_ride K = \<lparr>
     Ride_id = 0,
     Ride_type = 0,
     Ride_subtype = 0,
     Ride_mode = 0,
     Ride_colour_scheme_type = 0,
     Ride_vehicle_colours = replicate (RCT2_MAX_CARS_PER_TRAIN K)
        \<lparr> VehicleColour_Body = 0, VehicleColour_Trim = 0, VehicleColour_Ternary = 0 \<rparr>,
     Ride_status = 0,
     Ride_name = 0,
     Ride_name_arguments = 0,
     Ride_overall_view = 0,
     Ride_stations = replicate (RCT12_MAX_STATIONS_PER_RIDE K)
        \<lparr> RideStation_Start = 0, RideStation_Height = 0, RideStation_Length = 0,
          RideStation_Depart = 0, RideStation_TrainAtStation = 0,
          RideStation_LastPeepInQueue = 0, RideStation_SegmentLength = 0,
          RideStation_SegmentTime = 0, RideStation_QueueTime = 0,
          RideStation_QueueLength = 0 \<rparr>,
     Ride_vehicles = replicate (RCT2_MAX_VEHICLES_PER_RIDE K) 0,
     Ride_depart_flags = 0,
     Ride_num_stations = 0,
     Ride_num_vehicles = 0,
     Ride_num_cars_per_train = 0,
     Ride_proposed_num_vehicles = 0,
     Ride_proposed_num_cars_per_train = 0,
     Ride_max_trains = 0,
     Ride_min_max_cars_per_train = 0,
     Ride_min_waiting_time = 0,
     Ride_max_waiting_time = 0,
     Ride_operation_option = 0,
     Ride_boat_hire_return_direction = 0,
     Ride_boat_hire_return_position = 0,
     Ride_special_track_elements = 0,
     Ride_max_speed = 0,
     Ride_average_speed = 0,
     Ride_current_test_segment = 0,
     Ride_average_speed_test_timeout = 0,
     Ride_max_positive_vertical_g = 0,
     Ride_max_negative_vertical_g = 0,
     Ride_max_lateral_g = 0,
     Ride_previous_vertical_g = 0,
     Ride_previous_lateral_g = 0,
     Ride_testing_flags = 0,
     Ride_cur_test_track_location = 0,
     Ride_turn_count_default = 0,
     Ride_turn_count_banked = 0,
     Ride_turn_count_sloped = 0,
     Ride_holes = 0,
     Ride_inversions = 0,
     Ride_sheltered_eighths = 0,
     Ride_drops = 0,
     Ride_start_drop_height = 0,
     Ride_highest_drop_height = 0,
     Ride_sheltered_length = 0,
     Ride_var_11C = 0,
     Ride_num_sheltered_sections = 0,
     Ride_cur_test_track_z = 0,
     Ride_cur_num_customers = 0,
     Ride_num_customers_timeout = 0,
     Ride_num_customers = replicate (RCT2_CUSTOMER_HISTORY_SIZE K) 0,
     Ride_price = 0,
     Ride_chairlift_bullwheel_location = replicate 2 0,
     Ride_chairlift_bullwheel_z = replicate 2 0,
     Ride_ratings = rating_tuple_zero,
     Ride_value = 0,
     Ride_chairlift_bullwheel_rotation = 0,
     Ride_satisfaction = 0,
     Ride_satisfaction_time_out = 0,
     Ride_satisfaction_next = 0,
     Ride_window_invalidate_flags = 0,
     Ride_total_customers = 0,
     Ride_total_profit = 0,
     Ride_popularity = 0,
     Ride_popularity_time_out = 0,
     Ride_popularity_next = 0,
     Ride_num_riders = 0,
     Ride_music_tune_id = 0,
     Ride_slide_in_use = 0,
     Ride_slide_peep = 0,
     Ride_slide_peep_t_shirt_colour = 0,
     Ride_spiral_slide_progress = 0,
     Ride_build_date = 0,
     Ride_upkeep_cost = 0,
     Ride_race_winner = 0,
     Ride_music_position = 0,
     Ride_breakdown_reason_pending = 0,
     Ride_mechanic_status = 0,
     Ride_mechanic = 0,
     Ride_inspection_station = 0,
     Ride_broken_vehicle = 0,
     Ride_broken_car = 0,
     Ride_breakdown_reason = 0,
     Ride_price_secondary = 0,
     Ride_reliability = 0,
     Ride_unreliability_factor = 0,
     Ride_downtime = 0,
     Ride_inspection_interval = 0,
     Ride_last_inspection = 0,
     Ride_downtime_history = replicate (RCT2_DOWNTIME_HISTORY_SIZE K) 0,
     Ride_no_primary_items_sold = 0,
     Ride_no_secondary_items_sold = 0,
     Ride_breakdown_sound_modifier = 0,
     Ride_not_fixed_timeout = 0,
     Ride_last_crash_type = 0,
     Ride_connected_message_throttle = 0,
     Ride_income_per_hour = 0,
     Ride_profit = 0,
     Ride_track_colour = replicate (RCT12_NUM_COLOUR_SCHEMES K)
        \<lparr> TrackColour_main = 0, TrackColour_additional = 0, TrackColour_supports = 0 \<rparr>,
     Ride_music = 0,
     Ride_entrance_style = 0,
     Ride_vehicle_change_timeout = 0,
     Ride_num_block_brakes = 0,
     Ride_lift_hill_speed = 0,
     Ride_guests_favourite = 0,
     Ride_lifecycle_flags = 0,
     Ride_total_air_time = 0,
     Ride_current_test_station = 0,
     Ride_num_circuits = 0,
     Ride_cable_lift_x = 0,
     Ride_cable_lift_y = 0,
     Ride_cable_lift_z = 0,
     Ride_cable_lift = 0,
     Ride_measurement = None \<rparr>"

definition example_limits :: Limits where
  "example_limits =
     rct2_limits\<lparr> RCT12_MAX_RIDES_IN_PARK := 5, RCT12_RIDE_MEASUREMENT_MAX_ITEMS := 3 \<rparr>"

definition example_measurement :: "nat \<Rightarrow> u32 \<Rightarrow> RideMeasurement" where
  "example_measurement i t = \<lparr>
     RideMeasurement_ride_id = i,
     RideMeasurement_flags = 1,
     RideMeasurement_last_use_tick = t,
     RideMeasurement_num_items = 0,
     RideMeasurement_current_item = 0,
     RideMeasurement_vehicle_index = 0,
     RideMeasurement_current_station = 0,
     RideMeasurement_vertical = [],
     RideMeasurement_lateral = [],
     RideMeasurement_velocity = [],
     RideMeasurement_altitude = [] \<rparr>"

definition example_ride :: "nat \<Rightarrow> u32 \<Rightarrow> Ride" where
  "example_ride i t =
     (blank_ride example_limits)
       \<lparr> Ride_id := i, Ride_type := 4, Ride_inversions := 33, Ride_sheltered_eighths := 3,
         Ride_measurement := Some (example_measurement i t) \<rparr>"

definition example_rides :: "Ride list" where
  "example_rides =
     [example_ride 0 10, example_ride 1 30, example_ride 2 20, example_ride 3 50,
      example_ride 4 40]"

definition example_get_ride :: "nat \<Rightarrow> Ride option" where
  "example_get_ride i = (if i < length example_rides then Some (example_rides ! i) else None)"

definition example_tile :: "Ride \<Rightarrow> nat \<Rightarrow> TileCoordsXYZD" where
  "example_tile ride i =
     \<lparr> TileCoordsXYZD_x = (if i = 0 then 0x103 else 0xFFFF8000), TileCoordsXYZD_y = 7,
       TileCoordsXYZD_z = 0, TileCoordsXYZD_direction = 0 \<rparr>"

definition example_isNull :: "TileCoordsXYZD \<Rightarrow> bool" where
  "example_isNull t = (TileCoordsXYZD_x t = 0xFFFF8000)"

definition example_invented :: "nat \<Rightarrow> bool" where
  "example_invented i = (i mod 3 = 0)"

definition example_pass :: "rct_s6_data \<Rightarrow> rct_s6_data" where
  "example_pass s6 = s6"

definition example_game :: Game where
  "example_game = \<lparr>
     get_ride = example_get_ride,
     ride_get_entrance_location = example_tile,
     ride_get_exit_location = example_tile,
     isNull = example_isNull,
     gPeepSpawns = [\<lparr> CoordsXYZD_x = 0x12345, CoordsXYZD_y = 64, CoordsXYZD_z = - 40,
                      CoordsXYZD_direction = 2 \<rparr>],
     gParkEntrances = [\<lparr> CoordsXYZD_x = 32, CoordsXYZD_y = 64, CoordsXYZD_z = 112,
                         CoordsXYZD_direction = 1 \<rparr>],
     gInitialCash = 100000,
     gBankLoan = 100000,
     gMaxBankLoan = 200000,
     ride_type_is_invented = example_invented,
     ride_entry_is_invented = example_invented,
     scenery_is_invented = example_invented,
     check_for_spatial_index_cycles = - 1,
     check_for_sprite_list_cycles = - 1,
     null_sprites = [5, 6, 7, 8, 9],
     null_sprite_list = [9, 7, 5],
     scenario_remove_trackless_rides = example_pass,
     scenario_fix_ghosts = example_pass,
     game_convert_strings_to_rct2 = example_pass \<rparr>"

text \<open>The same park where only the ride of slot 3 holds samples.\<close>

definition example_park_with_one_sample :: Game where
  "example_park_with_one_sample =
     example_game\<lparr> get_ride := (\<lambda>i. if i = 3 then example_get_ride 3
        else map_option (\<lambda>ride. ride\<lparr> Ride_measurement := None \<rparr>) (example_get_ride i)) \<rparr>"

text \<open>The same park with the ride of slot 2 demolished: its type is the null type.\<close>

definition example_park_with_closed_slot :: Game where
  "example_park_with_closed_slot =
     example_game\<lparr> get_ride := (example_get_ride)
        (2 := Some ((example_ride 2 20)\<lparr> Ride_type := RIDE_TYPE_NULL example_limits \<rparr>)) \<rparr>"

text \<open>
  Stand-ins for the collaborators of \<^verbatim>\<open>Save\<close>: a chunk writer that puts one
  byte of framing before the payload, and the byte sum as the checksum.
\<close>

definition example_checksum :: "u8 list \<Rightarrow> u32" where
  "example_checksum bytes = foldl (\<lambda>c b. c + ucast b) 0 bytes"

definition example_codec :: "nat Codec" where
  "example_codec = \<lparr>
     chunk_bytes = (\<lambda>payload encoding. (case encoding of ROTATE \<Rightarrow> 3 | RLECOMPRESSED \<Rightarrow> 1) # payload),
     packed_objects_bytes = map of_nat,
     sawyercoding_calculate_checksum = example_checksum,
     s6_memory = (\<lambda>s6 start len. case start of At_header \<Rightarrow> [rct_s6_header_type (header s6), 0]
                                           | _ \<Rightarrow> [7]) \<rparr>"

definition example_s6 :: rct_s6_data where
  "example_s6 = rct_s6_data_zero example_limits 8 8 56"

text \<open>The rides and the samples of the example, exported in the order of \<^verbatim>\<open>Export\<close>.\<close>

definition example_export :: "error + rct_s6_data" where
  "example_export =
     and_then (ExportRides example_limits example_game example_s6)
       (ExportRideMeasurements example_limits example_game)"

definition exported_ride_indices :: "rct_s6_data \<Rightarrow> u8 list" where
  "exported_ride_indices s6 = map RCT12RideMeasurement_ride_index (ride_measurements s6)"

definition exported_ticks :: "rct_s6_data \<Rightarrow> u32 list" where
  "exported_ticks s6 = map RCT12RideMeasurement_last_use_tick (ride_measurements s6)"

definition exported_measurement_indices :: "rct_s6_data \<Rightarrow> u8 list" where
  "exported_measurement_indices s6 = map rct2_ride_measurement_index (rides s6)"

definition exported_entrances :: "nat \<Rightarrow> rct_s6_data \<Rightarrow> LocationXY8 list" where
  "exported_entrances index s6 = rct2_ride_entrances (rides s6 ! index)"

text \<open>The park with one sample record, exported as the example above.\<close>

definition example_one_sample_export :: "error + rct_s6_data" where
  "example_one_sample_export =
     and_then (ExportRides example_limits example_park_with_one_sample example_s6)
       (ExportRideMeasurements example_limits example_park_with_one_sample)"

section \<open>Properties\<close>

subsection \<open>The integrity hash\<close>

lemma ror32_inj: "(ror32 a n = ror32 b n) = (a = b)"
  unfolding ror32_def by (metis word_rot_rl)

text \<open>
  Claim C7.  \<^verbatim>\<open>GetLoanHash\<close> is the fixed sequence: start from the seed
  \<^verbatim>\<open>0x70093A\<close>, subtract the initial cash, rotate right by 5, subtract the bank
  loan, rotate right by 7, add the maximum loan, rotate right by 3.  It is a
  function of its three arguments, and it is injective in each of them: with
  the other two held fixed, two values of one argument give the same hash
  exactly when they are equal.
\<close>

theorem GetLoanHash_sequence_and_sensitivity:
  "GetLoanHash initialCash bankLoan maxBankLoan
     = ror32 (ror32 (ror32 (0x70093A - initialCash) 5 - bankLoan) 7 + maxBankLoan) 3 \<and>
   (GetLoanHash a b c = GetLoanHash a' b c) = (a = a') \<and>
   (GetLoanHash a b c = GetLoanHash a b' c) = (b = b') \<and>
   (GetLoanHash a b c = GetLoanHash a b c') = (c = c')"
  by (simp add: GetLoanHash_def ror32_inj)

subsection \<open>The researched-flag bitsets\<close>

lemma quad_index: "drop_bit 5 (i::nat) = i div 32"
  by (simp add: drop_bit_eq_div)

lemma bit_index: "(i::nat) AND 0x1F = i mod 32"
  using take_bit_eq_mask[of 5 i] by (simp add: take_bit_eq_mod mask_eq_exp_minus_1)

lemma researched_set_bit_Inr:
  assumes "index div 32 < length arr"
  shows "researched_set_bit index arr =
           Inr (arr[index div 32 := (arr ! (index div 32)) OR push_bit (index mod 32) 1])"
  using assms by (simp add: researched_set_bit_def quad_index bit_index Let_def)

lemma bit_one_shifted: "b < 32 \<Longrightarrow> bit ((2::u32) ^ m) b = (m = b)"
  by (auto simp: bit_exp_iff)

lemma index_split: "b < 32 \<Longrightarrow> (k = q * 32 + b) = (k div 32 = q \<and> k mod 32 = b)" for k q b :: nat
  by auto

lemma bit_set_word:
  assumes "q < length arr" "b < 32" "k div 32 < length arr"
  shows "bit ((arr[k div 32 := (arr ! (k div 32)) OR push_bit (k mod 32) (1::u32)]) ! q) b
         = (bit (arr ! q) b \<or> k = q * 32 + b)"
proof (cases "q = k div 32")
  case True
  then show ?thesis using assms
    by (simp add: bit_or_iff bit_one_shifted index_split)
next
  case False
  then show ?thesis using assms
    by (simp add: index_split)
qed

text \<open>
  The loop invariant: after the loop over \<open>idxs\<close>, a bit is set exactly when
  it was set before or its index is an invented member of \<open>idxs\<close>.
\<close>

lemma researched_loop_bits:
  assumes "\<forall>i \<in> set idxs. i div 32 < length arr"
  shows "\<exists>out. researched_loop invented idxs arr = Inr out \<and> length out = length arr \<and>
           (\<forall>q < length arr. \<forall>b < 32.
              bit (out ! q) b = (bit (arr ! q) b \<or> (q * 32 + b \<in> set idxs \<and> invented (q * 32 + b))))"
  using assms
proof (induction idxs arbitrary: arr)
  case Nil
  then show ?case by simp
next
  case (Cons k rest)
  show ?case
  proof (cases "invented k")
    case False
    from Cons.IH[of arr] Cons.prems obtain out where
      o: "researched_loop invented rest arr = Inr out" "length out = length arr"
       "\<forall>q < length arr. \<forall>b < 32.
              bit (out ! q) b = (bit (arr ! q) b \<or> (q * 32 + b \<in> set rest \<and> invented (q * 32 + b)))"
      by auto
    show ?thesis using False o by auto
  next
    case True
    let ?arr' = "arr[k div 32 := (arr ! (k div 32)) OR push_bit (k mod 32) 1]"
    have k: "k div 32 < length arr" using Cons.prems by simp
    have "\<forall>i \<in> set rest. i div 32 < length ?arr'" using Cons.prems by simp
    from Cons.IH[OF this] obtain out where
      o: "researched_loop invented rest ?arr' = Inr out" "length out = length arr"
       "\<forall>q < length arr. \<forall>b < 32.
              bit (out ! q) b = (bit (?arr' ! q) b \<or> (q * 32 + b \<in> set rest \<and> invented (q * 32 + b)))"
      by auto
    have "researched_loop invented (k # rest) arr = Inr out"
      using True o(1) researched_set_bit_Inr[OF k] by simp
    moreover have "\<forall>q < length arr. \<forall>b < 32.
              bit (out ! q) b = (bit (arr ! q) b \<or> (q * 32 + b \<in> set (k # rest) \<and> invented (q * 32 + b)))"
    proof (intro allI impI)
      fix q b assume qb: "q < length arr" "b < (32::nat)"
      from o(3) qb have A: "bit (out ! q) b = (bit (?arr' ! q) b \<or> (q * 32 + b \<in> set rest \<and> invented (q * 32 + b)))"
        by blast
      have B: "bit (?arr' ! q) b = (bit (arr ! q) b \<or> k = q * 32 + b)"
        by (rule bit_set_word[OF qb k])
      show "bit (out ! q) b = (bit (arr ! q) b \<or> (q * 32 + b \<in> set (k # rest) \<and> invented (q * 32 + b)))"
        unfolding A B using True by auto
    qed
    ultimately show ?thesis using o(2) by simp
  qed
qed

text \<open>The packer for a domain of size \<open>N\<close>, from a cleared array.\<close>

lemma researched_export_bits:
  assumes "N \<le> 32 * length arr"
  shows "\<exists>out. researched_loop invented [0 ..< N] (fill_false arr) = Inr out \<and> length out = length arr \<and>
           (\<forall>i < 32 * length arr. bit (out ! (i div 32)) (i mod 32) = (i < N \<and> invented i))"
proof -
  have "\<forall>i \<in> set [0 ..< N]. i div 32 < length (fill_false arr)"
    using assms by (auto simp: fill_false_def)
  from researched_loop_bits[OF this, of invented] obtain out where
    o: "researched_loop invented [0 ..< N] (fill_false arr) = Inr out" "length out = length arr"
       "\<forall>q < length arr. \<forall>b < 32.
              bit (out ! q) b = (bit (fill_false arr ! q) b \<or> (q * 32 + b \<in> set [0 ..< N] \<and> invented (q * 32 + b)))"
    by (auto simp: fill_false_def)
  have "\<forall>i < 32 * length arr. bit (out ! (i div 32)) (i mod 32) = (i < N \<and> invented i)"
  proof (intro allI impI)
    fix i assume i: "i < 32 * length arr"
    then have q: "i div 32 < length arr" by auto
    have b: "i mod 32 < 32" by simp
    from o(3) q b have "bit (out ! (i div 32)) (i mod 32) =
       (bit (fill_false arr ! (i div 32)) (i mod 32) \<or> (i div 32 * 32 + i mod 32 \<in> set [0 ..< N] \<and> invented (i div 32 * 32 + i mod 32)))"
      by blast
    then show "bit (out ! (i div 32)) (i mod 32) = (i < N \<and> invented i)"
      using q by (simp add: fill_false_def)
  qed
  then show ?thesis using o by blast
qed

lemma ExportResearchedRideTypes_Inr:
  assumes "RIDE_TYPE_COUNT K \<le> 32 * length (researched_ride_types s6)"
  shows "\<exists>out. ExportResearchedRideTypes K G s6 = Inr (s6\<lparr> researched_ride_types := out \<rparr>) \<and>
           length out = length (researched_ride_types s6) \<and>
           (\<forall>i < 32 * length (researched_ride_types s6).
              bit (out ! (i div 32)) (i mod 32) = (i < RIDE_TYPE_COUNT K \<and> ride_type_is_invented G i))"
  using researched_export_bits[OF assms, of "ride_type_is_invented G"]
  by (auto simp: ExportResearchedRideTypes_def)

lemma ExportResearchedRideEntries_Inr:
  assumes "MAX_RIDE_OBJECTS K \<le> 32 * length (researched_ride_entries s6)"
  shows "\<exists>out. ExportResearchedRideEntries K G s6 = Inr (s6\<lparr> researched_ride_entries := out \<rparr>) \<and>
           length out = length (researched_ride_entries s6) \<and>
           (\<forall>i < 32 * length (researched_ride_entries s6).
              bit (out ! (i div 32)) (i mod 32) = (i < MAX_RIDE_OBJECTS K \<and> ride_entry_is_invented G i))"
  using researched_export_bits[OF assms, of "ride_entry_is_invented G"]
  by (auto simp: ExportResearchedRideEntries_def)

lemma ExportResearchedSceneryItems_Inr:
  assumes "RCT2_MAX_RESEARCHED_SCENERY_ITEMS K \<le> 32 * length (researched_scenery_items s6)"
      and "RCT2_MAX_RESEARCHED_SCENERY_ITEMS K \<le> 65535"
  shows "\<exists>out. ExportResearchedSceneryItems K G s6 = Inr (s6\<lparr> researched_scenery_items := out \<rparr>) \<and>
           length out = length (researched_scenery_items s6) \<and>
           (\<forall>i < 32 * length (researched_scenery_items s6).
              bit (out ! (i div 32)) (i mod 32)
                = (i < RCT2_MAX_RESEARCHED_SCENERY_ITEMS K \<and> scenery_is_invented G i))"
  using researched_export_bits[OF assms(1), of "scenery_is_invented G"] assms(2)
  by (auto simp: ExportResearchedSceneryItems_def)

text \<open>
  Claim C8.  For each of the three researched-flag exports (ride types, ride
  entries, scenery items), with domain size \<open>N\<close> and predicate \<open>invented\<close>:
  when the array has room for \<open>N\<close> bits the export succeeds, keeps the
  length of the array, and bit \<open>i mod 32\<close> of word \<open>i div 32\<close> is set exactly
  when \<open>i < N\<close> and \<open>invented i\<close>, for every bit position \<open>i\<close> of the array:
  the bits of the domain follow the predicate, and every bit from \<open>N\<close> on, in
  the last word and in the words after it, is zero.
\<close>

theorem researched_bitsets:
  assumes "RIDE_TYPE_COUNT K \<le> 32 * length (researched_ride_types s6)"
      and "MAX_RIDE_OBJECTS K \<le> 32 * length (researched_ride_entries s6)"
      and "RCT2_MAX_RESEARCHED_SCENERY_ITEMS K \<le> 32 * length (researched_scenery_items s6)"
      and "RCT2_MAX_RESEARCHED_SCENERY_ITEMS K \<le> 65535"
  shows "(\<exists>out. ExportResearchedRideTypes K G s6 = Inr (s6\<lparr> researched_ride_types := out \<rparr>) \<and>
            length out = length (researched_ride_types s6) \<and>
            (\<forall>i < 32 * length (researched_ride_types s6).
               bit (out ! (i div 32)) (i mod 32) = (i < RIDE_TYPE_COUNT K \<and> ride_type_is_invented G i))) \<and>
         (\<exists>out. ExportResearchedRideEntries K G s6 = Inr (s6\<lparr> researched_ride_entries := out \<rparr>) \<and>
            length out = length (researched_ride_entries s6) \<and>
            (\<forall>i < 32 * length (researched_ride_entries s6).
               bit (out ! (i div 32)) (i mod 32) = (i < MAX_RIDE_OBJECTS K \<and> ride_entry_is_invented G i))) \<and>
         (\<exists>out. ExportResearchedSceneryItems K G s6 = Inr (s6\<lparr> researched_scenery_items := out \<rparr>) \<and>
            length out = length (researched_scenery_items s6) \<and>
            (\<forall>i < 32 * length (researched_scenery_items s6).
               bit (out ! (i div 32)) (i mod 32)
                 = (i < RCT2_MAX_RESEARCHED_SCENERY_ITEMS K \<and> scenery_is_invented G i)))"
  using ExportResearchedRideTypes_Inr[OF assms(1)] ExportResearchedRideEntries_Inr[OF assms(2)]
    ExportResearchedSceneryItems_Inr[OF assms(3,4)]
  by (intro conjI)

lemma example_sizes:
  "RCT12_MAX_RIDES_IN_PARK example_limits = 5"
  "RCT12_RIDE_MEASUREMENT_MAX_ITEMS example_limits = 3"
  "RCT12_MAX_PEEP_SPAWNS example_limits = 2"
  "RCT12_MAX_PARK_ENTRANCES example_limits = 4"
  "RCT12_MAX_STATIONS_PER_RIDE example_limits = 4"
  "RCT12_MAX_INVERSIONS example_limits = 31"
  "RCT12_MAX_GOLF_HOLES example_limits = 31"
  "RIDE_TYPE_COUNT example_limits = 91"
  "MAX_RIDE_OBJECTS example_limits = 128"
  "RCT2_MAX_RESEARCHED_SCENERY_ITEMS example_limits = 1792"
  "PEEP_SPAWN_UNDEFINED example_limits = 0xFFFF"
  "LOCATION_NULL example_limits = 0xFFFF8000"
  "RCT_XY8_UNDEFINED example_limits = 0xFFFF"
  "RIDE_TYPE_NULL example_limits = 255"
  "RIDE_TYPE_MINI_GOLF example_limits = 71"
  "S6_TYPE_SAVEDGAME example_limits = 0"
  "S6_TYPE_SCENARIO example_limits = 1"
  by (simp_all add: example_limits_def rct2_limits_def)

lemma example_s6_sizes:
  "length (rides example_s6) = 5"
  "length (ride_measurements example_s6) = 3"
  "length (researched_ride_types example_s6) = 8"
  "length (researched_ride_entries example_s6) = 8"
  "length (researched_scenery_items example_s6) = 56"
  by (simp_all add: example_s6_def rct_s6_data_zero_def example_sizes)

theorem researched_bitsets_witness:
  "(\<exists>out. ExportResearchedRideTypes example_limits example_game example_s6
            = Inr (example_s6\<lparr> researched_ride_types := out \<rparr>) \<and>
      length out = length (researched_ride_types example_s6) \<and>
      (\<forall>i < 32 * length (researched_ride_types example_s6).
         bit (out ! (i div 32)) (i mod 32)
           = (i < RIDE_TYPE_COUNT example_limits \<and> ride_type_is_invented example_game i))) \<and>
   (\<exists>out. ExportResearchedRideEntries example_limits example_game example_s6
            = Inr (example_s6\<lparr> researched_ride_entries := out \<rparr>) \<and>
      length out = length (researched_ride_entries example_s6) \<and>
      (\<forall>i < 32 * length (researched_ride_entries example_s6).
         bit (out ! (i div 32)) (i mod 32)
           = (i < MAX_RIDE_OBJECTS example_limits \<and> ride_entry_is_invented example_game i))) \<and>
   (\<exists>out. ExportResearchedSceneryItems example_limits example_game example_s6
            = Inr (example_s6\<lparr> researched_scenery_items := out \<rparr>) \<and>
      length out = length (researched_scenery_items example_s6) \<and>
      (\<forall>i < 32 * length (researched_scenery_items example_s6).
         bit (out ! (i div 32)) (i mod 32)
           = (i < RCT2_MAX_RESEARCHED_SCENERY_ITEMS example_limits \<and> scenery_is_invented example_game i)))"
proof -
  have h1: "RIDE_TYPE_COUNT example_limits \<le> 32 * length (researched_ride_types example_s6)"
    by (simp add: example_sizes example_s6_sizes)
  have h2: "MAX_RIDE_OBJECTS example_limits \<le> 32 * length (researched_ride_entries example_s6)"
    by (simp add: example_sizes example_s6_sizes)
  have h3: "RCT2_MAX_RESEARCHED_SCENERY_ITEMS example_limits
              \<le> 32 * length (researched_scenery_items example_s6)"
    by (simp add: example_sizes example_s6_sizes)
  have h4: "RCT2_MAX_RESEARCHED_SCENERY_ITEMS example_limits \<le> 65535"
    by (simp add: example_sizes)
  show ?thesis by (rule researched_bitsets[OF h1 h2 h3 h4])
qed

subsection \<open>Saving\<close>

lemma u32_of_bytes_u32_bytes: "u32_of_bytes (u32_bytes w) = w"
  unfolding u32_of_bytes_def u32_bytes_def
  apply (rule bit_word_eqI)
  apply (auto simp: bit_simps)
  subgoal for n by (cases "n < 24") simp_all
  done

lemma length_u32_bytes: "length (u32_bytes w) = 4"
  by (simp add: u32_bytes_def)

lemma Write_at_end:
  assumes "stream_position stream = length (stream_data stream)"
  shows "Write stream bytes =
           \<lparr> stream_data = stream_data stream @ bytes,
             stream_position = length (stream_data stream) + length bytes \<rparr>"
  using assms by (simp add: Write_def Let_def)

text \<open>On a stream positioned at its end the calls append their bytes in order.\<close>

lemma write_calls_at_end:
  assumes "stream_position stream = length (stream_data stream)"
  shows "write_calls C s6 objs calls stream =
           \<lparr> stream_data = stream_data stream @ concat (map (call_bytes C s6 objs) calls),
             stream_position = length (stream_data stream)
                + length (concat (map (call_bytes C s6 objs) calls)) \<rparr>"
  using assms
proof (induction calls arbitrary: stream)
  case Nil
  then show ?case by simp
next
  case (Cons call rest)
  have w: "Write stream (call_bytes C s6 objs call) =
           \<lparr> stream_data = stream_data stream @ call_bytes C s6 objs call,
             stream_position = length (stream_data stream) + length (call_bytes C s6 objs call) \<rparr>"
    by (rule Write_at_end[OF Cons.prems])
  have "stream_position (Write stream (call_bytes C s6 objs call))
          = length (stream_data (Write stream (call_bytes C s6 objs call)))"
    unfolding w by simp
  from Cons.IH[OF this] show ?case by (simp add: w)
qed

text \<open>
  \<^verbatim>\<open>Save\<close> always returns: the read-back asks for as many bytes as the stream
  holds, from position 0.
\<close>

lemma Save_result:
  "Save K C s6 objs stream isScenario =
     (let s6' = Save_header K s6 objs isScenario;
          written = stream_data (write_calls C s6' objs (Save_calls K s6') stream)
      in Inr (s6', \<lparr> stream_data = written @ u32_bytes (sawyercoding_calculate_checksum C written),
                     stream_position = length written + 4 \<rparr>))"
  by (simp add: Save_def Let_def ReadArray_def SetPosition_def GetLength_def WriteValue_u32_def
        Write_def length_u32_bytes)

lemma Save_header_fields:
  "rct_s6_header_type (header (Save_header K s6 objs b)) = (if b then S6_TYPE_SCENARIO K else S6_TYPE_SAVEDGAME K)"
  "rct_s6_header_classic_flag (header (Save_header K s6 objs b)) = 0"
  "rct_s6_header_num_packed_objects (header (Save_header K s6 objs b)) = of_nat (length objs)"
  "rct_s6_header_version (header (Save_header K s6 objs b)) = S6_RCT2_VERSION K"
  "rct_s6_header_magic_number (header (Save_header K s6 objs b)) = S6_MAGIC_NUMBER K"
  by (simp_all add: Save_header_def)

text \<open>
  Claim C2.  \<^verbatim>\<open>Save\<close> returns for every snapshot, object list, stream and
  mode.  With \<open>written\<close> the bytes the stream holds, from position 0, once
  the chunks are written, the final file is \<open>written\<close> followed by the four
  bytes of the checksum of \<open>written\<close>; so the checksum of the file without
  its last four bytes is the number those four bytes hold.  On a fresh stream
  \<open>written\<close> is exactly what the chunk writer and the object repository put
  out, call by call, framing included.
\<close>

theorem Save_checksum_roundtrip:
  "(\<exists>s6' final. Save K C s6 objs stream isScenario = Inr (s6', final) \<and>
      (let file = stream_data final;
           n = length file - 4;
           written = stream_data (write_calls C s6' objs (Save_calls K s6') stream)
       in length file = length written + 4 \<and> take n file = written \<and>
          drop n file = u32_bytes (sawyercoding_calculate_checksum C written) \<and>
          sawyercoding_calculate_checksum C (take n file) = u32_of_bytes (drop n file))) \<and>
   stream_data (write_calls C s6 objs calls \<lparr> stream_data = [], stream_position = 0 \<rparr>)
     = concat (map (call_bytes C s6 objs) calls)"
  by (simp add: Save_result Let_def length_u32_bytes u32_of_bytes_u32_bytes write_calls_at_end)

text \<open>
  Claim C3.  For a fixed snapshot and object list, where the two type
  constants differ: \<^verbatim>\<open>Save\<close> returns the snapshot with the header it wrote; the
  scenario header is the saved-game header with the type replaced; the classic
  flag is 0 and the packed-object count, version and magic number do not depend
  on the mode; the scenario-info chunk is among the chunks exactly when
  \<open>isScenario\<close> holds; the chunks of a scenario end with the scenario tail,
  those of a saved game with the saved-game tail, and no chunk of one tail is
  written in the other mode.  These chunks are what \<^verbatim>\<open>Save\<close> puts on the
  stream: the file it leaves is what the stream holds once the calls have
  written, followed by the checksum.  On a stream positioned at its end the
  file of a scenario is, after what the stream held, the header chunk, the
  info chunk, the packed objects when their count is not 0, the chunks of the
  objects, of the date and of the tile elements, the eight chunks of the
  scenario tail, and the checksum of all that; the file of a saved game is the
  header chunk, the packed objects when their count is not 0, the same three
  chunks, the one chunk of the saved-game tail, and the checksum: no info
  chunk, and one tail only in either mode.
\<close>

theorem Save_scenario_or_savedgame:
  assumes "S6_TYPE_SCENARIO K \<noteq> S6_TYPE_SAVEDGAME K"
  shows "(\<exists>final. Save K C s6 objs stream isScenario = Inr (Save_header K s6 objs isScenario, final)) \<and>
         header (Save_header K s6 objs True)
           = (header (Save_header K s6 objs False))\<lparr> rct_s6_header_type := S6_TYPE_SCENARIO K \<rparr> \<and>
         rct_s6_header_type (header (Save_header K s6 objs False)) = S6_TYPE_SAVEDGAME K \<and>
         rct_s6_header_classic_flag (header (Save_header K s6 objs isScenario)) = 0 \<and>
         rct_s6_header_num_packed_objects (header (Save_header K s6 objs isScenario)) = of_nat (length objs) \<and>
         rct_s6_header_version (header (Save_header K s6 objs isScenario)) = S6_RCT2_VERSION K \<and>
         rct_s6_header_magic_number (header (Save_header K s6 objs isScenario)) = S6_MAGIC_NUMBER K \<and>
         (WriteChunk At_info Sizeof ROTATE \<in> set (Save_calls K (Save_header K s6 objs isScenario))) = isScenario \<and>
         Save_calls K (Save_header K s6 objs True) =
           [WriteChunk At_header Sizeof ROTATE, WriteChunk At_info Sizeof ROTATE]
           @ (if (of_nat (length objs) :: u16) > 0 then [WritePackedObjects] else [])
           @ [WriteChunk At_objects Sizeof ROTATE,
              WriteChunk At_elapsed_months (Bytes 16) RLECOMPRESSED,
              WriteChunk At_tile_elements (Bytes 0x180000) RLECOMPRESSED]
           @ scenario_tail \<and>
         Save_calls K (Save_header K s6 objs False) =
           [WriteChunk At_header Sizeof ROTATE]
           @ (if (of_nat (length objs) :: u16) > 0 then [WritePackedObjects] else [])
           @ [WriteChunk At_objects Sizeof ROTATE,
              WriteChunk At_elapsed_months (Bytes 16) RLECOMPRESSED,
              WriteChunk At_tile_elements (Bytes 0x180000) RLECOMPRESSED]
           @ savedgame_tail \<and>
         set scenario_tail \<inter> set (Save_calls K (Save_header K s6 objs False)) = {} \<and>
         set savedgame_tail \<inter> set (Save_calls K (Save_header K s6 objs True)) = {} \<and>
         (let s6' = Save_header K s6 objs isScenario;
              written = stream_data (write_calls C s6' objs (Save_calls K s6') stream)
          in Save K C s6 objs stream isScenario =
               Inr (s6', \<lparr> stream_data = written @ u32_bytes (sawyercoding_calculate_checksum C written),
                          stream_position = length written + 4 \<rparr>)) \<and>
         (stream_position stream = length (stream_data stream) \<longrightarrow>
            (let s6' = Save_header K s6 objs True;
                chunk = (\<lambda>start len encoding. chunk_bytes C (s6_memory C s6' start len) encoding);
                file = stream_data stream
                  @ chunk At_header Sizeof ROTATE
                  @ chunk At_info Sizeof ROTATE
                  @ (if (of_nat (length objs) :: u16) > 0 then packed_objects_bytes C objs else [])
                  @ chunk At_objects Sizeof ROTATE
                  @ chunk At_elapsed_months (Bytes 16) RLECOMPRESSED
                  @ chunk At_tile_elements (Bytes 0x180000) RLECOMPRESSED
                  @ chunk At_next_free_tile_element_pointer_index (Bytes 0x27104C) RLECOMPRESSED
                  @ chunk At_guests_in_park (Bytes 4) RLECOMPRESSED
                  @ chunk At_last_guests_in_park (Bytes 8) RLECOMPRESSED
                  @ chunk At_park_rating (Bytes 2) RLECOMPRESSED
                  @ chunk At_active_research_types (Bytes 1082) RLECOMPRESSED
                  @ chunk At_current_expenditure (Bytes 16) RLECOMPRESSED
                  @ chunk At_park_value (Bytes 4) RLECOMPRESSED
                  @ chunk At_completed_company_value (Bytes 0x761E8) RLECOMPRESSED
            in Save K C s6 objs stream True =
                 Inr (s6', \<lparr> stream_data = file @ u32_bytes (sawyercoding_calculate_checksum C file),
                            stream_position = length file + 4 \<rparr>))) \<and>
         (stream_position stream = length (stream_data stream) \<longrightarrow>
            (let s6' = Save_header K s6 objs False;
                chunk = (\<lambda>start len encoding. chunk_bytes C (s6_memory C s6' start len) encoding);
                file = stream_data stream
                  @ chunk At_header Sizeof ROTATE
                  @ (if (of_nat (length objs) :: u16) > 0 then packed_objects_bytes C objs else [])
                  @ chunk At_objects Sizeof ROTATE
                  @ chunk At_elapsed_months (Bytes 16) RLECOMPRESSED
                  @ chunk At_tile_elements (Bytes 0x180000) RLECOMPRESSED
                  @ chunk At_next_free_tile_element_pointer_index (Bytes 0x2E8570) RLECOMPRESSED
            in Save K C s6 objs stream False =
                 Inr (s6', \<lparr> stream_data = file @ u32_bytes (sawyercoding_calculate_checksum C file),
                            stream_position = length file + 4 \<rparr>)))"
proof -
  have c1: "\<exists>final. Save K C s6 objs stream isScenario = Inr (Save_header K s6 objs isScenario, final)"
    by (simp add: Save_result Let_def)
  have c2: "header (Save_header K s6 objs True)
           = (header (Save_header K s6 objs False))\<lparr> rct_s6_header_type := S6_TYPE_SCENARIO K \<rparr>"
    by (simp add: Save_header_def)
  have c3: "rct_s6_header_type (header (Save_header K s6 objs False)) = S6_TYPE_SAVEDGAME K"
    by (simp add: Save_header_fields)
  have c4: "rct_s6_header_classic_flag (header (Save_header K s6 objs isScenario)) = 0"
    by (simp add: Save_header_fields)
  have c5: "rct_s6_header_num_packed_objects (header (Save_header K s6 objs isScenario)) = of_nat (length objs)"
    by (simp add: Save_header_fields)
  have c6: "rct_s6_header_version (header (Save_header K s6 objs isScenario)) = S6_RCT2_VERSION K"
    by (simp add: Save_header_fields)
  have c7: "rct_s6_header_magic_number (header (Save_header K s6 objs isScenario)) = S6_MAGIC_NUMBER K"
    by (simp add: Save_header_fields)
  have c8: "(WriteChunk At_info Sizeof ROTATE \<in> set (Save_calls K (Save_header K s6 objs isScenario))) = isScenario"
    using assms by (simp add: Save_calls_def Save_header_fields scenario_tail_def savedgame_tail_def)
  have c9: "Save_calls K (Save_header K s6 objs True) =
           [WriteChunk At_header Sizeof ROTATE, WriteChunk At_info Sizeof ROTATE]
           @ (if (of_nat (length objs) :: u16) > 0 then [WritePackedObjects] else [])
           @ [WriteChunk At_objects Sizeof ROTATE,
              WriteChunk At_elapsed_months (Bytes 16) RLECOMPRESSED,
              WriteChunk At_tile_elements (Bytes 0x180000) RLECOMPRESSED]
           @ scenario_tail"
    by (simp add: Save_calls_def Save_header_fields)
  have c10: "Save_calls K (Save_header K s6 objs False) =
           [WriteChunk At_header Sizeof ROTATE]
           @ (if (of_nat (length objs) :: u16) > 0 then [WritePackedObjects] else [])
           @ [WriteChunk At_objects Sizeof ROTATE,
              WriteChunk At_elapsed_months (Bytes 16) RLECOMPRESSED,
              WriteChunk At_tile_elements (Bytes 0x180000) RLECOMPRESSED]
           @ savedgame_tail"
    using assms by (simp add: Save_calls_def Save_header_fields)
  have c11: "set scenario_tail \<inter> set (Save_calls K (Save_header K s6 objs False)) = {}"
    using assms by (simp add: Save_calls_def Save_header_fields scenario_tail_def savedgame_tail_def)
  have c12: "set savedgame_tail \<inter> set (Save_calls K (Save_header K s6 objs True)) = {}"
    by (simp add: Save_calls_def Save_header_fields scenario_tail_def savedgame_tail_def)
  have g: "(let s6' = Save_header K s6 objs isScenario;
              written = stream_data (write_calls C s6' objs (Save_calls K s6') stream)
          in Save K C s6 objs stream isScenario =
               Inr (s6', \<lparr> stream_data = written @ u32_bytes (sawyercoding_calculate_checksum C written),
                          stream_position = length written + 4 \<rparr>))"
    by (simp add: Save_result Let_def)
  have s: "stream_position stream = length (stream_data stream) \<longrightarrow>
            (let s6' = Save_header K s6 objs True;
                chunk = (\<lambda>start len encoding. chunk_bytes C (s6_memory C s6' start len) encoding);
                file = stream_data stream
                  @ chunk At_header Sizeof ROTATE
                  @ chunk At_info Sizeof ROTATE
                  @ (if (of_nat (length objs) :: u16) > 0 then packed_objects_bytes C objs else [])
                  @ chunk At_objects Sizeof ROTATE
                  @ chunk At_elapsed_months (Bytes 16) RLECOMPRESSED
                  @ chunk At_tile_elements (Bytes 0x180000) RLECOMPRESSED
                  @ chunk At_next_free_tile_element_pointer_index (Bytes 0x27104C) RLECOMPRESSED
                  @ chunk At_guests_in_park (Bytes 4) RLECOMPRESSED
                  @ chunk At_last_guests_in_park (Bytes 8) RLECOMPRESSED
                  @ chunk At_park_rating (Bytes 2) RLECOMPRESSED
                  @ chunk At_active_research_types (Bytes 1082) RLECOMPRESSED
                  @ chunk At_current_expenditure (Bytes 16) RLECOMPRESSED
                  @ chunk At_park_value (Bytes 4) RLECOMPRESSED
                  @ chunk At_completed_company_value (Bytes 0x761E8) RLECOMPRESSED
            in Save K C s6 objs stream True =
                 Inr (s6', \<lparr> stream_data = file @ u32_bytes (sawyercoding_calculate_checksum C file),
                            stream_position = length file + 4 \<rparr>))"
  proof (intro impI)
    assume e: "stream_position stream = length (stream_data stream)"
    show "(let s6' = Save_header K s6 objs True;
                chunk = (\<lambda>start len encoding. chunk_bytes C (s6_memory C s6' start len) encoding);
                file = stream_data stream
                  @ chunk At_header Sizeof ROTATE
                  @ chunk At_info Sizeof ROTATE
                  @ (if (of_nat (length objs) :: u16) > 0 then packed_objects_bytes C objs else [])
                  @ chunk At_objects Sizeof ROTATE
                  @ chunk At_elapsed_months (Bytes 16) RLECOMPRESSED
                  @ chunk At_tile_elements (Bytes 0x180000) RLECOMPRESSED
                  @ chunk At_next_free_tile_element_pointer_index (Bytes 0x27104C) RLECOMPRESSED
                  @ chunk At_guests_in_park (Bytes 4) RLECOMPRESSED
                  @ chunk At_last_guests_in_park (Bytes 8) RLECOMPRESSED
                  @ chunk At_park_rating (Bytes 2) RLECOMPRESSED
                  @ chunk At_active_research_types (Bytes 1082) RLECOMPRESSED
                  @ chunk At_current_expenditure (Bytes 16) RLECOMPRESSED
                  @ chunk At_park_value (Bytes 4) RLECOMPRESSED
                  @ chunk At_completed_company_value (Bytes 0x761E8) RLECOMPRESSED
            in Save K C s6 objs stream True =
                 Inr (s6', \<lparr> stream_data = file @ u32_bytes (sawyercoding_calculate_checksum C file),
                            stream_position = length file + 4 \<rparr>))"
      by (simp add: Save_result Let_def write_calls_at_end[OF e] c9 call_bytes_def
            scenario_tail_def)
  qed
  have v: "stream_position stream = length (stream_data stream) \<longrightarrow>
            (let s6' = Save_header K s6 objs False;
                chunk = (\<lambda>start len encoding. chunk_bytes C (s6_memory C s6' start len) encoding);
                file = stream_data stream
                  @ chunk At_header Sizeof ROTATE
                  @ (if (of_nat (length objs) :: u16) > 0 then packed_objects_bytes C objs else [])
                  @ chunk At_objects Sizeof ROTATE
                  @ chunk At_elapsed_months (Bytes 16) RLECOMPRESSED
                  @ chunk At_tile_elements (Bytes 0x180000) RLECOMPRESSED
                  @ chunk At_next_free_tile_element_pointer_index (Bytes 0x2E8570) RLECOMPRESSED
            in Save K C s6 objs stream False =
                 Inr (s6', \<lparr> stream_data = file @ u32_bytes (sawyercoding_calculate_checksum C file),
                            stream_position = length file + 4 \<rparr>))"
  proof (intro impI)
    assume e: "stream_position stream = length (stream_data stream)"
    show "(let s6' = Save_header K s6 objs False;
                chunk = (\<lambda>start len encoding. chunk_bytes C (s6_memory C s6' start len) encoding);
                file = stream_data stream
                  @ chunk At_header Sizeof ROTATE
                  @ (if (of_nat (length objs) :: u16) > 0 then packed_objects_bytes C objs else [])
                  @ chunk At_objects Sizeof ROTATE
                  @ chunk At_elapsed_months (Bytes 16) RLECOMPRESSED
                  @ chunk At_tile_elements (Bytes 0x180000) RLECOMPRESSED
                  @ chunk At_next_free_tile_element_pointer_index (Bytes 0x2E8570) RLECOMPRESSED
            in Save K C s6 objs stream False =
                 Inr (s6', \<lparr> stream_data = file @ u32_bytes (sawyercoding_calculate_checksum C file),
                            stream_position = length file + 4 \<rparr>))"
      by (simp add: Save_result Let_def write_calls_at_end[OF e] c10 call_bytes_def
            savedgame_tail_def)
  qed
  from c1 c2 c3 c4 c5 c6 c7 c8 c9 c10 c11 c12 g s v show ?thesis by (intro conjI)
qed

theorem Save_scenario_or_savedgame_witness:
  "rct_s6_header_type (header (Save_header example_limits example_s6 [4, 2 :: nat] True)) = 1 \<and>
   rct_s6_header_type (header (Save_header example_limits example_s6 [4, 2 :: nat] False)) = 0 \<and>
   Save_calls example_limits (Save_header example_limits example_s6 [4, 2 :: nat] True) =
     [WriteChunk At_header Sizeof ROTATE, WriteChunk At_info Sizeof ROTATE, WritePackedObjects,
      WriteChunk At_objects Sizeof ROTATE,
      WriteChunk At_elapsed_months (Bytes 16) RLECOMPRESSED,
      WriteChunk At_tile_elements (Bytes 0x180000) RLECOMPRESSED]
     @ scenario_tail \<and>
   Save_calls example_limits (Save_header example_limits example_s6 [4, 2 :: nat] False) =
     [WriteChunk At_header Sizeof ROTATE, WritePackedObjects,
      WriteChunk At_objects Sizeof ROTATE,
      WriteChunk At_elapsed_months (Bytes 16) RLECOMPRESSED,
      WriteChunk At_tile_elements (Bytes 0x180000) RLECOMPRESSED]
     @ savedgame_tail \<and>
   set scenario_tail \<inter> set (Save_calls example_limits (Save_header example_limits example_s6 [4, 2 :: nat] False)) = {} \<and>
   set savedgame_tail \<inter> set (Save_calls example_limits (Save_header example_limits example_s6 [4, 2 :: nat] True)) = {} \<and>
   Save example_limits example_codec example_s6 [4, 2 :: nat]
       \<lparr> stream_data = [], stream_position = 0 \<rparr> True
     = Inr (Save_header example_limits example_s6 [4, 2 :: nat] True,
            \<lparr> stream_data = [3, 1, 0, 3, 7, 4, 2, 3, 7, 1, 7, 1, 7,
                              1, 7, 1, 7, 1, 7, 1, 7, 1, 7, 1, 7, 1, 7, 1, 7,
                              110, 0, 0, 0],
              stream_position = 33 \<rparr>) \<and>
   Save example_limits example_codec example_s6 [4, 2 :: nat]
       \<lparr> stream_data = [], stream_position = 0 \<rparr> False
     = Inr (Save_header example_limits example_s6 [4, 2 :: nat] False,
            \<lparr> stream_data = [3, 0, 0, 4, 2, 3, 7, 1, 7, 1, 7,
                              1, 7,
                              43, 0, 0, 0],
              stream_position = 17 \<rparr>)"
proof -
  have h: "S6_TYPE_SCENARIO example_limits \<noteq> S6_TYPE_SAVEDGAME example_limits"
    by (simp add: example_sizes)
  note T = Save_scenario_or_savedgame[OF h, of example_codec example_s6 "[4, 2 :: nat]"
      "\<lparr> stream_data = [], stream_position = 0 \<rparr>" True]
  note T2 = T[THEN conjunct2]
  note T3 = T2[THEN conjunct2]
  note T9 = T3[THEN conjunct2, THEN conjunct2, THEN conjunct2, THEN conjunct2, THEN conjunct2,
               THEN conjunct2]
  note T10 = T9[THEN conjunct2]
  note T11 = T10[THEN conjunct2]
  have t: "rct_s6_header_type (header (Save_header example_limits example_s6 [4, 2 :: nat] True)) = 1"
    using T2[THEN conjunct1] T3[THEN conjunct1] by (simp add: example_sizes)
  have f: "rct_s6_header_type (header (Save_header example_limits example_s6 [4, 2 :: nat] False)) = 0"
    using T3[THEN conjunct1] by (simp add: example_sizes)
  have a: "Save_calls example_limits (Save_header example_limits example_s6 [4, 2 :: nat] True) =
     [WriteChunk At_header Sizeof ROTATE, WriteChunk At_info Sizeof ROTATE, WritePackedObjects,
      WriteChunk At_objects Sizeof ROTATE,
      WriteChunk At_elapsed_months (Bytes 16) RLECOMPRESSED,
      WriteChunk At_tile_elements (Bytes 0x180000) RLECOMPRESSED]
     @ scenario_tail"
    using T9[THEN conjunct1] by simp
  have b: "Save_calls example_limits (Save_header example_limits example_s6 [4, 2 :: nat] False) =
     [WriteChunk At_header Sizeof ROTATE, WritePackedObjects,
      WriteChunk At_objects Sizeof ROTATE,
      WriteChunk At_elapsed_months (Bytes 16) RLECOMPRESSED,
      WriteChunk At_tile_elements (Bytes 0x180000) RLECOMPRESSED]
     @ savedgame_tail"
    using T10[THEN conjunct1] by simp
  note T13 = T11[THEN conjunct2, THEN conjunct2]
  have p: "stream_position \<lparr> stream_data = [], stream_position = 0 \<rparr>
             = length (stream_data \<lparr> stream_data = [], stream_position = 0 \<rparr>)"
    by simp
  note S = T13[THEN conjunct2, THEN conjunct1, THEN mp, OF p]
  note V = T13[THEN conjunct2, THEN conjunct2, THEN mp, OF p]
  have two: "(0 :: u16) < 2" by simp
  have cs: "example_checksum [3, 1, 0, 3, 7, 4, 2, 3, 7, 1, 7, 1, 7,
                              1, 7, 1, 7, 1, 7, 1, 7, 1, 7, 1, 7, 1, 7, 1, 7] = 110"
           "example_checksum [3, 0, 0, 4, 2, 3, 7, 1, 7, 1, 7, 1, 7] = 43"
    by (simp_all add: example_checksum_def)
  have ub: "u32_bytes 110 = [110, 0, 0, 0]" "u32_bytes 43 = [43, 0, 0, 0]"
    by (simp_all add: u32_bytes_def drop_bit_eq_div)
  have sc: "Save example_limits example_codec example_s6 [4, 2 :: nat]
       \<lparr> stream_data = [], stream_position = 0 \<rparr> True
     = Inr (Save_header example_limits example_s6 [4, 2 :: nat] True,
            \<lparr> stream_data = [3, 1, 0, 3, 7, 4, 2, 3, 7, 1, 7, 1, 7,
                              1, 7, 1, 7, 1, 7, 1, 7, 1, 7, 1, 7, 1, 7, 1, 7,
                              110, 0, 0, 0],
              stream_position = 33 \<rparr>)"
    using S by (simp add: Let_def example_codec_def t cs ub)
  have sg: "Save example_limits example_codec example_s6 [4, 2 :: nat]
       \<lparr> stream_data = [], stream_position = 0 \<rparr> False
     = Inr (Save_header example_limits example_s6 [4, 2 :: nat] False,
            \<lparr> stream_data = [3, 0, 0, 4, 2, 3, 7, 1, 7, 1, 7,
                              1, 7,
                              43, 0, 0, 0],
              stream_position = 17 \<rparr>)"
    using V by (simp add: Let_def example_codec_def f cs ub)
  from t f a b T11[THEN conjunct1] T11[THEN conjunct2, THEN conjunct1] sc sg show ?thesis by (intro conjI)
qed

subsection \<open>Rides\<close>

lemma ExportRides_slot_Some:
  "get_ride G i = Some src \<Longrightarrow>
   ExportRides_slot K G i =
     Inr (if Ride_type src = RIDE_TYPE_NULL K
          then (rct2_ride_zero K)\<lparr> rct2_ride_type := RIDE_TYPE_NULL K \<rparr>
          else ExportRide K G src)"
  by (simp add: ExportRides_slot_def)

lemma ExportRides_loop_result:
  assumes "\<forall>i \<in> set idxs. i < length tbl \<and> get_ride G i \<noteq> None"
  shows "\<exists>out. ExportRides_loop K G idxs tbl = Inr out \<and> length out = length tbl \<and>
           (\<forall>i < length tbl.
              out ! i = (if i \<in> set idxs
                         then (case get_ride G i of
                                 Some src \<Rightarrow>
                                   if Ride_type src = RIDE_TYPE_NULL K
                                   then (rct2_ride_zero K)\<lparr> rct2_ride_type := RIDE_TYPE_NULL K \<rparr>
                                   else ExportRide K G src
                               | None \<Rightarrow> tbl ! i)
                         else tbl ! i))"
  using assms
proof (induction idxs arbitrary: tbl)
  case Nil
  then show ?case by simp
next
  case (Cons k rest)
  from Cons.prems obtain src where src: "get_ride G k = Some src" and k: "k < length tbl"
    by auto
  let ?dst = "if Ride_type src = RIDE_TYPE_NULL K
              then (rct2_ride_zero K)\<lparr> rct2_ride_type := RIDE_TYPE_NULL K \<rparr>
              else ExportRide K G src"
  have "\<forall>i \<in> set rest. i < length (tbl[k := ?dst]) \<and> get_ride G i \<noteq> None"
    using Cons.prems by simp
  from Cons.IH[OF this] obtain out where
    o: "ExportRides_loop K G rest (tbl[k := ?dst]) = Inr out" "length out = length tbl"
       "\<forall>i < length tbl.
              out ! i = (if i \<in> set rest
                         then (case get_ride G i of
                                 Some src \<Rightarrow>
                                   if Ride_type src = RIDE_TYPE_NULL K
                                   then (rct2_ride_zero K)\<lparr> rct2_ride_type := RIDE_TYPE_NULL K \<rparr>
                                   else ExportRide K G src
                               | None \<Rightarrow> (tbl[k := ?dst]) ! i)
                         else (tbl[k := ?dst]) ! i)"
    by auto
  have run: "ExportRides_loop K G (k # rest) tbl = Inr out"
    using k o(1) by (simp add: ExportRides_slot_Some[OF src])
  have "\<forall>i < length tbl.
              out ! i = (if i \<in> set (k # rest)
                         then (case get_ride G i of
                                 Some src \<Rightarrow>
                                   if Ride_type src = RIDE_TYPE_NULL K
                                   then (rct2_ride_zero K)\<lparr> rct2_ride_type := RIDE_TYPE_NULL K \<rparr>
                                   else ExportRide K G src
                               | None \<Rightarrow> tbl ! i)
                         else tbl ! i)"
  proof (intro allI impI)
    fix i assume i: "i < length tbl"
    show "out ! i = (if i \<in> set (k # rest)
                         then (case get_ride G i of
                                 Some src \<Rightarrow>
                                   if Ride_type src = RIDE_TYPE_NULL K
                                   then (rct2_ride_zero K)\<lparr> rct2_ride_type := RIDE_TYPE_NULL K \<rparr>
                                   else ExportRide K G src
                               | None \<Rightarrow> tbl ! i)
                         else tbl ! i)"
    proof (cases "i \<in> set rest")
      case True
      then obtain s where "get_ride G i = Some s" using Cons.prems by auto
      then show ?thesis using o(3) i True by simp
    next
      case False
      then show ?thesis using o(3) i k src by (cases "i = k") simp_all
    qed
  qed
  with run o(2) show ?case by blast
qed

lemma ExportRides_result:
  assumes len: "length (rides s6) = RCT12_MAX_RIDES_IN_PARK K"
      and nn: "\<forall>i < RCT12_MAX_RIDES_IN_PARK K. get_ride G i \<noteq> None"
  shows "\<exists>tbl. ExportRides K G s6 = Inr (s6\<lparr> rides := tbl \<rparr>) \<and>
           length tbl = RCT12_MAX_RIDES_IN_PARK K \<and>
           (\<forall>i < RCT12_MAX_RIDES_IN_PARK K. \<forall>src. get_ride G i = Some src \<longrightarrow>
              tbl ! i = (if Ride_type src = RIDE_TYPE_NULL K
                         then (rct2_ride_zero K)\<lparr> rct2_ride_type := RIDE_TYPE_NULL K \<rparr>
                         else ExportRide K G src))"
proof -
  have "\<forall>i \<in> set [0 ..< RCT12_MAX_RIDES_IN_PARK K]. i < length (rides s6) \<and> get_ride G i \<noteq> None"
    using len nn by simp
  from ExportRides_loop_result[OF this, of K] obtain out where
    o: "ExportRides_loop K G [0 ..< RCT12_MAX_RIDES_IN_PARK K] (rides s6) = Inr out"
       "length out = length (rides s6)"
       "\<forall>i < length (rides s6).
              out ! i = (if i \<in> set [0 ..< RCT12_MAX_RIDES_IN_PARK K]
                         then (case get_ride G i of
                                 Some src \<Rightarrow>
                                   if Ride_type src = RIDE_TYPE_NULL K
                                   then (rct2_ride_zero K)\<lparr> rct2_ride_type := RIDE_TYPE_NULL K \<rparr>
                                   else ExportRide K G src
                               | None \<Rightarrow> rides s6 ! i)
                         else rides s6 ! i)"
    by blast
  have "ExportRides K G s6 = Inr (s6\<lparr> rides := out \<rparr>)"
    by (simp add: ExportRides_def o(1))
  moreover have "\<forall>i < RCT12_MAX_RIDES_IN_PARK K. \<forall>src. get_ride G i = Some src \<longrightarrow>
              out ! i = (if Ride_type src = RIDE_TYPE_NULL K
                         then (rct2_ride_zero K)\<lparr> rct2_ride_type := RIDE_TYPE_NULL K \<rparr>
                         else ExportRide K G src)"
    using o(3) len by simp
  ultimately show ?thesis using o(2) len by auto
qed

text \<open>Bits of the packed \<^verbatim>\<open>inversions\<close> byte.\<close>

lemma m31: "(0x1F :: u8) = mask 5" by (simp add: mask_eq_exp_minus_1)
lemma mE0: "(0xE0 :: u8) = NOT (mask 5)" by (simp add: mask_eq_exp_minus_1)

lemma low5_push: "take_bit 5 (of_nat (push_bit 5 m) :: u8) = 0"
  by (simp add: take_bit_of_nat take_bit_push_bit)

lemma low5_small: "n \<le> 31 \<Longrightarrow> take_bit 5 (of_nat n :: u8) = of_nat n"
  by (simp add: take_bit_of_nat take_bit_nat_eq_self)

lemma u8_low5_of_small:
  assumes "n \<le> 31"
  shows "((of_nat n :: u8) OR of_nat (push_bit 5 m)) AND 0x1F = of_nat n"
proof -
  have "((of_nat n :: u8) OR of_nat (push_bit 5 m)) AND 0x1F
        = take_bit 5 ((of_nat n :: u8) OR of_nat (push_bit 5 m))"
    unfolding m31 by (simp add: take_bit_eq_mask)
  also have "\<dots> = take_bit 5 (of_nat n :: u8) OR take_bit 5 (of_nat (push_bit 5 m) :: u8)"
    by (rule bit_word_eqI) (auto simp: bit_take_bit_iff bit_or_iff)
  also have "\<dots> = of_nat n" using assms by (simp only: low5_push low5_small) simp
  finally show ?thesis .
qed

lemma u8_high3:
  assumes "n \<le> 31"
  shows "drop_bit 5 ((of_nat n :: u8) OR of_nat (push_bit 5 m)) = of_nat (m mod 8)"
proof -
  have a: "drop_bit 5 (of_nat n :: u8) = 0"
  proof -
    have "drop_bit 5 (of_nat n :: u8) = drop_bit 5 (take_bit 5 (of_nat n :: u8))"
      using assms by (simp only: low5_small)
    then show ?thesis by (simp add: drop_bit_take_bit)
  qed
  have m8: "m mod 8 = take_bit 3 m" by (simp add: take_bit_eq_mod)
  have b: "drop_bit 5 (of_nat (push_bit 5 m) :: u8) = of_nat (take_bit 3 m)"
    by (rule bit_word_eqI) (auto simp: bit_simps)
  show ?thesis unfolding m8 by (simp only: drop_bit_or a b) simp
qed

lemma small_bit:
  assumes "n \<le> 31" "bit (n::nat) k"
  shows "k < 5"
proof (rule ccontr)
  assume "\<not> k < 5"
  then have "(2::nat) ^ 5 \<le> 2 ^ k" by (intro power_increasing) auto
  then have "n < 2 ^ k" using assms(1) by simp
  then have "n div 2 ^ k = 0" by simp
  then show False using assms(2) by (simp add: bit_iff_odd)
qed

lemma u8_high3_mask:
  assumes "n \<le> 31"
  shows "((of_nat n :: u8) OR of_nat (push_bit 5 m)) AND 0xE0 = of_nat (push_bit 5 m)"
  unfolding mE0
  by (rule bit_word_eqI) (auto simp: bit_simps dest: small_bit[OF assms])

lemma unat_of_small: "n \<le> 31 \<Longrightarrow> unat (of_nat n :: u8) = n"
  by (simp add: unsigned_of_nat take_bit_nat_eq_self)

lemma ExportPeepSpawns_nth:
  "i < RCT12_MAX_PEEP_SPAWNS K \<Longrightarrow> ExportPeepSpawns K sp ! i = ExportPeepSpawn K sp i"
  by (simp add: ExportPeepSpawns_def)

lemma ExportPeepSpawn_unused:
  "length sp \<le> i \<Longrightarrow>
   ExportPeepSpawn K sp i =
     \<lparr> rct12_peep_spawn_x = PEEP_SPAWN_UNDEFINED K, rct12_peep_spawn_y = PEEP_SPAWN_UNDEFINED K,
       rct12_peep_spawn_z = 0, rct12_peep_spawn_direction = 0 \<rparr>"
  by (simp add: ExportPeepSpawn_def)

lemma ExportParkEntrances_unused:
  assumes "length pe \<le> i" "i < RCT12_MAX_PARK_ENTRANCES K"
  shows "park_entrance_x (ExportParkEntrances K pe) ! i = ucast (LOCATION_NULL K)"
    and "park_entrance_y (ExportParkEntrances K pe) ! i = ucast (LOCATION_NULL K)"
    and "park_entrance_z (ExportParkEntrances K pe) ! i = 0"
    and "park_entrance_direction (ExportParkEntrances K pe) ! i = 0"
  using assms by (simp_all add: ExportParkEntrances_def park_entrance_slot_def Let_def)

lemma ExportRide_entrances_nth:
  "i < RCT12_MAX_STATIONS_PER_RIDE K \<Longrightarrow>
   rct2_ride_entrances (ExportRide K G src) ! i = ExportRide_entrance K G src i"
  by (simp add: ExportRide_def)

lemma ExportRide_exits_nth:
  "i < RCT12_MAX_STATIONS_PER_RIDE K \<Longrightarrow>
   rct2_ride_exits (ExportRide K G src) ! i = ExportRide_exit K G src i"
  by (simp add: ExportRide_def)

lemma ExportRide_inversions_field:
  "rct2_ride_inversions (ExportRide K G src) = ExportRide_inversions K src"
  by (simp add: ExportRide_def)

lemma ExportRide_measurement_index:
  "rct2_ride_measurement_index (ExportRide K G src) = 0"
  by (simp add: ExportRide_def rct2_ride_zero_def)



lemma less_5_cases: "i < (5::nat) \<Longrightarrow> i = 0 \<or> i = 1 \<or> i = 2 \<or> i = 3 \<or> i = 4"
  by arith

lemma example_get_ride_some:
  "i < 5 \<Longrightarrow> \<exists>t. example_get_ride i = Some (example_ride i t)"
  by (drule less_5_cases) (auto simp: example_get_ride_def example_rides_def)

lemma example_owner:
  "\<forall>i < RCT12_MAX_RIDES_IN_PARK example_limits. \<forall>r m.
     get_ride example_game i = Some r \<longrightarrow> Ride_measurement r = Some m \<longrightarrow> RideMeasurement_ride_id m = i"
proof (intro allI impI)
  fix i r m
  assume i: "i < RCT12_MAX_RIDES_IN_PARK example_limits"
    and r: "get_ride example_game i = Some r" and m: "Ride_measurement r = Some m"
  from i obtain t where "example_get_ride i = Some (example_ride i t)"
    using example_get_ride_some by (auto simp: example_sizes)
  with r have "r = example_ride i t" by (simp add: example_game_def)
  with m show "RideMeasurement_ride_id m = i"
    by (auto simp: example_ride_def example_measurement_def)
qed

lemma example_not_null:
  "\<forall>i < RCT12_MAX_RIDES_IN_PARK example_limits. get_ride example_game i \<noteq> None"
  by (simp add: example_sizes example_game_def example_get_ride_def example_rides_def)

lemma example_closed_not_null:
  "\<forall>i < RCT12_MAX_RIDES_IN_PARK example_limits. get_ride example_park_with_closed_slot i \<noteq> None"
  by (simp add: example_sizes example_park_with_closed_slot_def example_get_ride_def example_rides_def)

text \<open>
  Claim C6.  When every ride slot of the live game holds a ride and the ride of
  slot \<open>index\<close> has the null type, \<^verbatim>\<open>ExportRides\<close> succeeds and the record
  of that slot is the all-zero record with \<^verbatim>\<open>RIDE_TYPE_NULL\<close> in its type
  field: nothing of the live ride is copied.
\<close>

theorem null_ride_is_type_only:
  assumes "length (rides s6) = RCT12_MAX_RIDES_IN_PARK K"
      and "\<forall>i < RCT12_MAX_RIDES_IN_PARK K. get_ride G i \<noteq> None"
      and "index < RCT12_MAX_RIDES_IN_PARK K"
      and "get_ride G index = Some src"
      and "Ride_type src = RIDE_TYPE_NULL K"
  shows "\<exists>s6'. ExportRides K G s6 = Inr s6' \<and>
           rides s6' ! index = (rct2_ride_zero K)\<lparr> rct2_ride_type := RIDE_TYPE_NULL K \<rparr>"
  using ExportRides_result[OF assms(1,2)] assms(3,4,5) by auto

theorem null_ride_is_type_only_witness:
  "\<exists>s6'. ExportRides example_limits example_park_with_closed_slot example_s6 = Inr s6' \<and>
     rides s6' ! 2 = (rct2_ride_zero example_limits)\<lparr> rct2_ride_type := RIDE_TYPE_NULL example_limits \<rparr>"
proof -
  have lr: "length (rides example_s6) = RCT12_MAX_RIDES_IN_PARK example_limits"
    by (simp add: example_s6_sizes example_sizes)
  have i: "2 < RCT12_MAX_RIDES_IN_PARK example_limits" by (simp add: example_sizes)
  have g: "get_ride example_park_with_closed_slot 2
             = Some ((example_ride 2 20)\<lparr> Ride_type := RIDE_TYPE_NULL example_limits \<rparr>)"
    by (simp add: example_park_with_closed_slot_def)
  have t: "Ride_type ((example_ride 2 20)\<lparr> Ride_type := RIDE_TYPE_NULL example_limits \<rparr>)
             = RIDE_TYPE_NULL example_limits"
    by simp
  show ?thesis
    by (rule null_ride_is_type_only[OF lr example_closed_not_null i g t])
qed

text \<open>
  Claim C10.  Where both maxima fit in five bits: in the exported record of a
  ride that is not of the null type, the low five bits of the \<^verbatim>\<open>inversions\<close>
  byte hold the smaller of the hole count and \<^verbatim>\<open>RCT12_MAX_GOLF_HOLES\<close> for a
  mini golf, and the smaller of the inversion count and
  \<^verbatim>\<open>RCT12_MAX_INVERSIONS\<close> for any other ride, so a count above the maximum is
  stored as the maximum; the high three bits are those of
  \<^verbatim>\<open>sheltered_eighths << 5\<close>, that is the low three bits of
  \<^verbatim>\<open>sheltered_eighths\<close>.
\<close>

theorem inversions_byte_is_packed:
  assumes "length (rides s6) = RCT12_MAX_RIDES_IN_PARK K"
      and "\<forall>i < RCT12_MAX_RIDES_IN_PARK K. get_ride G i \<noteq> None"
      and "index < RCT12_MAX_RIDES_IN_PARK K"
      and "get_ride G index = Some src"
      and "Ride_type src \<noteq> RIDE_TYPE_NULL K"
      and "RCT12_MAX_GOLF_HOLES K \<le> 31"
      and "RCT12_MAX_INVERSIONS K \<le> 31"
  shows "\<exists>s6'. ExportRides K G s6 = Inr s6' \<and>
           unat (rct2_ride_inversions (rides s6' ! index) AND 0x1F) =
             (if Ride_type src = RIDE_TYPE_MINI_GOLF K
              then min (Ride_holes src) (RCT12_MAX_GOLF_HOLES K)
              else min (Ride_inversions src) (RCT12_MAX_INVERSIONS K)) \<and>
           rct2_ride_inversions (rides s6' ! index) AND 0xE0 =
             of_nat (push_bit 5 (Ride_sheltered_eighths src)) \<and>
           unat (drop_bit 5 (rct2_ride_inversions (rides s6' ! index))) =
             Ride_sheltered_eighths src mod 8"
proof -
  from ExportRides_result[OF assms(1,2)] assms(3,4,5) obtain tbl where
    r: "ExportRides K G s6 = Inr (s6\<lparr> rides := tbl \<rparr>)" and t: "tbl ! index = ExportRide K G src"
    by auto
  let ?n = "if Ride_type src = RIDE_TYPE_MINI_GOLF K
              then min (Ride_holes src) (RCT12_MAX_GOLF_HOLES K)
              else min (Ride_inversions src) (RCT12_MAX_INVERSIONS K)"
  have n: "?n \<le> 31" using assms(6,7) by auto
  have b: "rct2_ride_inversions (tbl ! index) = of_nat ?n OR of_nat (push_bit 5 (Ride_sheltered_eighths src))"
    unfolding t ExportRide_inversions_field by (simp add: ExportRide_inversions_def)
  have "unat (rct2_ride_inversions (tbl ! index) AND 0x1F) = ?n"
    unfolding b u8_low5_of_small[OF n] by (rule unat_of_small[OF n])
  moreover have "rct2_ride_inversions (tbl ! index) AND 0xE0 = of_nat (push_bit 5 (Ride_sheltered_eighths src))"
    unfolding b by (rule u8_high3_mask[OF n])
  moreover have "unat (drop_bit 5 (rct2_ride_inversions (tbl ! index))) = Ride_sheltered_eighths src mod 8"
    unfolding b u8_high3[OF n] by (simp add: unsigned_of_nat take_bit_nat_eq_self)
  ultimately show ?thesis using r by simp
qed

theorem inversions_byte_is_packed_witness:
  "\<exists>s6'. ExportRides example_limits example_game example_s6 = Inr s6' \<and>
     unat (rct2_ride_inversions (rides s6' ! 0) AND 0x1F) = 31 \<and>
     rct2_ride_inversions (rides s6' ! 0) AND 0xE0 = 96 \<and>
     unat (drop_bit 5 (rct2_ride_inversions (rides s6' ! 0))) = 3"
proof -
  have lr: "length (rides example_s6) = RCT12_MAX_RIDES_IN_PARK example_limits"
    by (simp add: example_s6_sizes example_sizes)
  have i: "0 < RCT12_MAX_RIDES_IN_PARK example_limits" by (simp add: example_sizes)
  have g: "get_ride example_game 0 = Some (example_ride 0 10)"
    by (simp add: example_game_def example_get_ride_def example_rides_def)
  have t: "Ride_type (example_ride 0 10) \<noteq> RIDE_TYPE_NULL example_limits"
    by (simp add: example_ride_def example_sizes)
  have m: "RCT12_MAX_GOLF_HOLES example_limits \<le> 31" "RCT12_MAX_INVERSIONS example_limits \<le> 31"
    by (simp_all add: example_sizes)
  have v: "Ride_type (example_ride 0 10) = 4"
          "Ride_inversions (example_ride 0 10) = 33"
          "Ride_sheltered_eighths (example_ride 0 10) = 3"
    by (simp_all add: example_ride_def)
  from inversions_byte_is_packed[OF lr example_not_null i g t m]
  show ?thesis by (simp add: v example_sizes)
qed

subsection \<open>Ride measurements\<close>

lemma set_measurement_index_reads:
  "rct2_ride_measurement_index (set_measurement_index i ride) = i"
  by (simp add: set_measurement_index_def)

lemma unat_u8_Suc: "unat (i :: u8) < 255 \<Longrightarrow> unat (i + 1) = Suc (unat i)"
  using unat_add_lem[of i 1] by simp

lemma write_ride_measurements_result:
  assumes "unat i + length ms \<le> length (ride_measurements s6)"
      and "unat i + length ms \<le> 255"
      and "\<forall>m \<in> set ms. RideMeasurement_ride_id m < length (rides s6)"
      and "distinct (map RideMeasurement_ride_id ms)"
  shows "\<exists>tbl rds.
           write_ride_measurements ms i s6 = Inr (s6\<lparr> ride_measurements := tbl, rides := rds \<rparr>) \<and>
           length tbl = length (ride_measurements s6) \<and>
           length rds = length (rides s6) \<and>
           (\<forall>j < length ms.
              tbl ! (unat i + j) =
                (ExportRideMeasurement (ride_measurements s6 ! (unat i + j)) (ms ! j))
                  \<lparr> RCT12RideMeasurement_ride_index := of_nat (RideMeasurement_ride_id (ms ! j)) \<rparr>) \<and>
           (\<forall>j < length ms.
              rds ! RideMeasurement_ride_id (ms ! j) =
                set_measurement_index (i + of_nat j) (rides s6 ! RideMeasurement_ride_id (ms ! j))) \<and>
           (\<forall>n < length (ride_measurements s6).
              n < unat i \<or> unat i + length ms \<le> n \<longrightarrow> tbl ! n = ride_measurements s6 ! n) \<and>
           (\<forall>r < length (rides s6).
              r \<notin> RideMeasurement_ride_id ` set ms \<longrightarrow> rds ! r = rides s6 ! r)"
  using assms
proof (induction ms arbitrary: i s6)
  case Nil
  have "write_ride_measurements [] i s6 = Inr (s6\<lparr> ride_measurements := ride_measurements s6, rides := rides s6 \<rparr>)"
    by simp
  then show ?case by (intro exI[of _ "ride_measurements s6"] exI[of _ "rides s6"]) simp
next
  case (Cons m rest)
  let ?T = "ride_measurements s6" and ?R = "rides s6"
  let ?rid = "RideMeasurement_ride_id m"
  let ?dst = "(ExportRideMeasurement (?T ! unat i) m)\<lparr> RCT12RideMeasurement_ride_index := of_nat ?rid \<rparr>"
  let ?T1 = "?T[unat i := ?dst]"
  let ?R1 = "?R[?rid := set_measurement_index (i) (?R ! ?rid)]"
  let ?s1 = "s6\<lparr> ride_measurements := ?T1, rides := ?R1 \<rparr>"
  have iT: "unat i < length ?T" using Cons.prems(1) by simp
  have i255: "unat i < 255" using Cons.prems(2) by simp
  have ridR: "?rid < length ?R" using Cons.prems(3) by simp
  have suc: "unat (i + 1) = Suc (unat i)" by (rule unat_u8_Suc[OF i255])
  have step: "write_ride_measurements (m # rest) i s6 = write_ride_measurements rest (i + 1) ?s1"
    using iT ridR by (simp add: Let_def)
  have p1: "unat (i + 1) + length rest \<le> length (ride_measurements ?s1)"
    using Cons.prems(1) suc by simp
  have p2: "unat (i + 1) + length rest \<le> 255" using Cons.prems(2) suc by simp
  have p3: "\<forall>m \<in> set rest. RideMeasurement_ride_id m < length (rides ?s1)"
    using Cons.prems(3) by simp
  have p4: "distinct (map RideMeasurement_ride_id rest)" using Cons.prems(4) by simp
  have notin: "?rid \<notin> RideMeasurement_ride_id ` set rest" using Cons.prems(4) by simp
  from Cons.IH[OF p1 p2 p3 p4] obtain tbl rds where
    run: "write_ride_measurements rest (i + 1) ?s1 = Inr (?s1\<lparr> ride_measurements := tbl, rides := rds \<rparr>)"
    and lt: "length tbl = length ?T" and lr: "length rds = length ?R"
    and tb: "\<forall>j < length rest.
              tbl ! (unat (i + 1) + j) =
                (ExportRideMeasurement (?T1 ! (unat (i + 1) + j)) (rest ! j))
                  \<lparr> RCT12RideMeasurement_ride_index := of_nat (RideMeasurement_ride_id (rest ! j)) \<rparr>"
    and rd: "\<forall>j < length rest.
              rds ! RideMeasurement_ride_id (rest ! j) =
                set_measurement_index (i + 1 + of_nat j) (?R1 ! RideMeasurement_ride_id (rest ! j))"
    and tframe: "\<forall>n < length ?T.
              n < unat (i + 1) \<or> unat (i + 1) + length rest \<le> n \<longrightarrow> tbl ! n = ?T1 ! n"
    and rframe: "\<forall>r < length ?R.
              r \<notin> RideMeasurement_ride_id ` set rest \<longrightarrow> rds ! r = ?R1 ! r"
    by auto
  have res: "write_ride_measurements (m # rest) i s6 = Inr (s6\<lparr> ride_measurements := tbl, rides := rds \<rparr>)"
    unfolding step run by simp
  have c1: "\<forall>j < length (m # rest).
              tbl ! (unat i + j) =
                (ExportRideMeasurement (?T ! (unat i + j)) ((m # rest) ! j))
                  \<lparr> RCT12RideMeasurement_ride_index := of_nat (RideMeasurement_ride_id ((m # rest) ! j)) \<rparr>"
  proof (intro allI impI)
    fix j assume j: "j < length (m # rest)"
    show "tbl ! (unat i + j) =
                (ExportRideMeasurement (?T ! (unat i + j)) ((m # rest) ! j))
                  \<lparr> RCT12RideMeasurement_ride_index := of_nat (RideMeasurement_ride_id ((m # rest) ! j)) \<rparr>"
    proof (cases j)
      case 0
      have "tbl ! unat i = ?T1 ! unat i" using tframe iT suc by simp
      then show ?thesis using 0 iT by simp
    next
      case (Suc j')
      then have j': "j' < length rest" using j by simp
      have e: "unat (i + 1) + j' = unat i + j" using Suc suc by simp
      from tb j' have "tbl ! (unat (i + 1) + j') =
                (ExportRideMeasurement (?T1 ! (unat (i + 1) + j')) (rest ! j'))
                  \<lparr> RCT12RideMeasurement_ride_index := of_nat (RideMeasurement_ride_id (rest ! j')) \<rparr>"
        by blast
      then have "tbl ! (unat i + j) =
                (ExportRideMeasurement (?T1 ! (unat i + j)) (rest ! j'))
                  \<lparr> RCT12RideMeasurement_ride_index := of_nat (RideMeasurement_ride_id (rest ! j')) \<rparr>"
        unfolding e .
      moreover have "?T1 ! (unat i + j) = ?T ! (unat i + j)"
        using Suc by simp
      ultimately show ?thesis using Suc by simp
    qed
  qed
  have c2: "\<forall>j < length (m # rest).
              rds ! RideMeasurement_ride_id ((m # rest) ! j) =
                set_measurement_index (i + of_nat j) (?R ! RideMeasurement_ride_id ((m # rest) ! j))"
  proof (intro allI impI)
    fix j assume j: "j < length (m # rest)"
    show "rds ! RideMeasurement_ride_id ((m # rest) ! j) =
                set_measurement_index (i + of_nat j) (?R ! RideMeasurement_ride_id ((m # rest) ! j))"
    proof (cases j)
      case 0
      have "rds ! ?rid = ?R1 ! ?rid" using rframe ridR notin by blast
      then show ?thesis using 0 ridR by simp
    next
      case (Suc j')
      then have j': "j' < length rest" using j by simp
      then have "rest ! j' \<in> set rest" by simp
      then have ne: "RideMeasurement_ride_id (rest ! j') \<noteq> ?rid" using notin by (metis imageI)
      from rd j' have "rds ! RideMeasurement_ride_id (rest ! j') =
                set_measurement_index (i + 1 + of_nat j') (?R1 ! RideMeasurement_ride_id (rest ! j'))"
        by blast
      moreover have "?R1 ! RideMeasurement_ride_id (rest ! j') = ?R ! RideMeasurement_ride_id (rest ! j')"
        using ne by simp
      moreover have "i + 1 + of_nat j' = i + of_nat j" using Suc by simp
      ultimately show ?thesis using Suc by simp
    qed
  qed
  have c3: "\<forall>n < length ?T.
              n < unat i \<or> unat i + length (m # rest) \<le> n \<longrightarrow> tbl ! n = ?T ! n"
  proof (intro allI impI)
    fix n assume n: "n < length ?T" and out: "n < unat i \<or> unat i + length (m # rest) \<le> n"
    then have "n < unat (i + 1) \<or> unat (i + 1) + length rest \<le> n" using suc by auto
    then have "tbl ! n = ?T1 ! n" using tframe n by blast
    moreover have "n \<noteq> unat i" using out by auto
    ultimately show "tbl ! n = ?T ! n" by simp
  qed
  have c4: "\<forall>r < length ?R.
              r \<notin> RideMeasurement_ride_id ` set (m # rest) \<longrightarrow> rds ! r = ?R ! r"
  proof (intro allI impI)
    fix r assume r: "r < length ?R" and out: "r \<notin> RideMeasurement_ride_id ` set (m # rest)"
    then have "r \<notin> RideMeasurement_ride_id ` set rest" and ne: "r \<noteq> ?rid" by auto
    then have "rds ! r = ?R1 ! r" using rframe r by blast
    then show "rds ! r = ?R ! r" using ne by simp
  qed
  show ?case using res lt lr c1 c2 c3 c4 by blast
qed

lemma sort_by_last_use_mset: "mset (sort_by_last_use ms) = mset ms"
  by (simp add: sort_by_last_use_def)

lemma sort_by_last_use_set: "set (sort_by_last_use ms) = set ms"
  by (simp add: sort_by_last_use_def)

lemma sort_by_last_use_length: "length (sort_by_last_use ms) = length ms"
  by (simp add: sort_by_last_use_def)

lemma sort_by_last_use_descending:
  assumes "distinct (map RideMeasurement_last_use_tick ms)"
  shows "sorted_wrt (\<lambda>a b. RideMeasurement_last_use_tick b < RideMeasurement_last_use_tick a) (sort_by_last_use ms)"
proof -
  let ?key = "\<lambda>m. - uint (RideMeasurement_last_use_tick m)"
  let ?xs = "sort_by_last_use ms"
  have s: "sorted (map ?key ?xs)" by (simp add: sort_by_last_use_def)
  have "mset (map RideMeasurement_last_use_tick ?xs) = mset (map RideMeasurement_last_use_tick ms)"
    by (simp add: sort_by_last_use_mset)
  then have "distinct (map RideMeasurement_last_use_tick ?xs)" using assms by (metis mset_eq_imp_distinct_iff)
  moreover have "inj_on (\<lambda>t :: u32. - uint t) (set (map RideMeasurement_last_use_tick ?xs))"
    by (auto simp: inj_on_def word_uint_eq_iff)
  ultimately have "distinct (map (\<lambda>t :: u32. - uint t) (map RideMeasurement_last_use_tick ?xs))"
    by (simp only: distinct_map simp_thms)
  then have d: "distinct (map ?key ?xs)" by (simp add: comp_def)
  from s d have "sorted_wrt (<) (map ?key ?xs)" by (simp add: strict_sorted_iff)
  then have "sorted_wrt (\<lambda>a b. ?key a < ?key b) ?xs" by (simp add: sorted_wrt_map)
  then show ?thesis
    by (rule sorted_wrt_mono_rel[rotated]) (simp add: word_less_def)
qed

lemma filter_same_key:
  assumes "distinct (map f xs)" "k \<in> set xs"
  shows "filter (\<lambda>x. f k = f x) xs = [k]"
  using assms
proof (induction xs)
  case Nil
  then show ?case by simp
next
  case (Cons a xs)
  show ?case
  proof (cases "k = a")
    case True
    have "\<forall>x \<in> set xs. f a \<noteq> f x" using Cons.prems(1) by auto
    then have "filter (\<lambda>x. f a = f x) xs = []" by (simp add: filter_empty_conv)
    then show ?thesis using True by simp
  next
    case False
    then have k: "k \<in> set xs" using Cons.prems(2) by simp
    then have "f k \<noteq> f a" using Cons.prems(1) by (metis distinct.simps(2) imageI list.simps(9) list.set_map)
    then show ?thesis using Cons.IH k Cons.prems(1) by simp
  qed
qed

text \<open>
  Whatever order \<^verbatim>\<open>std::sort\<close> produces is a permutation in which no later
  element is more recent than an earlier one.  With distinct ticks that
  determines the list: it is the one \<open>sort_by_last_use\<close> computes.
\<close>

lemma sort_by_last_use_unique:
  assumes dist: "distinct (map RideMeasurement_last_use_tick ms)"
      and perm: "mset ys = mset ms"
      and srt: "sorted_wrt (\<lambda>a b. \<not> RideMeasurement_last_use_tick a < RideMeasurement_last_use_tick b) ys"
  shows "sort_by_last_use ms = ys"
  unfolding sort_by_last_use_def
proof (rule properties_for_sort_key)
  let ?key = "\<lambda>m. - uint (RideMeasurement_last_use_tick m)"
  show "mset ys = mset ms" by (rule perm)
  show "sorted (map ?key ys)"
    unfolding sorted_map
    by (rule sorted_wrt_mono_rel[OF _ srt]) (simp add: word_less_def)
  have dk: "distinct (map ?key ms)"
  proof -
    have "inj_on (\<lambda>t :: u32. - uint t) (set (map RideMeasurement_last_use_tick ms))"
      by (auto simp: inj_on_def word_uint_eq_iff)
    with dist have "distinct (map (\<lambda>t :: u32. - uint t) (map RideMeasurement_last_use_tick ms))"
      by (simp only: distinct_map simp_thms)
    then show ?thesis by (simp add: comp_def)
  qed
  have "mset (map ?key ys) = mset (map ?key ms)" using perm by simp
  then have dy: "distinct (map ?key ys)" using dk by (metis mset_eq_imp_distinct_iff)
  fix k assume k: "k \<in> set ys"
  then have k': "k \<in> set ms" using perm by (metis mset_eq_setD)
  show "filter (\<lambda>x. ?key k = ?key x) ys = filter (\<lambda>x. ?key k = ?key x) ms"
    using filter_same_key[of ?key ys k, OF dy k] filter_same_key[of ?key ms k, OF dk k'] by simp
qed

lemma sort_by_last_use_distinct_rid:
  assumes "distinct (map RideMeasurement_ride_id ms)"
  shows "distinct (map RideMeasurement_ride_id (sort_by_last_use ms))"
proof -
  have "mset (map RideMeasurement_ride_id (sort_by_last_use ms)) = mset (map RideMeasurement_ride_id ms)"
    by (simp add: sort_by_last_use_mset)
  then show ?thesis using assms by (metis mset_eq_imp_distinct_iff)
qed

lemma trim_by_lru_most_recent:
  assumes more: "length ms > RCT12_RIDE_MEASUREMENT_MAX_ITEMS K"
      and dist: "distinct (map RideMeasurement_last_use_tick ms)"
  shows "length (trim_by_lru K ms) = RCT12_RIDE_MEASUREMENT_MAX_ITEMS K"
    and "set (trim_by_lru K ms) \<subseteq> set ms"
    and "sorted_wrt (\<lambda>a b. RideMeasurement_last_use_tick b < RideMeasurement_last_use_tick a) (trim_by_lru K ms)"
    and "\<forall>m \<in> set (trim_by_lru K ms). \<forall>m' \<in> set ms - set (trim_by_lru K ms). RideMeasurement_last_use_tick m' < RideMeasurement_last_use_tick m"
proof -
  let ?C = "RCT12_RIDE_MEASUREMENT_MAX_ITEMS K"
  let ?xs = "sort_by_last_use ms"
  have t: "trim_by_lru K ms = take ?C ?xs" using more by (simp add: trim_by_lru_def)
  show "length (trim_by_lru K ms) = ?C"
    using more by (simp add: t sort_by_last_use_length)
  show "set (trim_by_lru K ms) \<subseteq> set ms"
    unfolding t using set_take_subset[of ?C ?xs] by (simp add: sort_by_last_use_set)
  have sw: "sorted_wrt (\<lambda>a b. RideMeasurement_last_use_tick b < RideMeasurement_last_use_tick a) (take ?C ?xs @ drop ?C ?xs)"
    using sort_by_last_use_descending[OF dist] by simp
  then show "sorted_wrt (\<lambda>a b. RideMeasurement_last_use_tick b < RideMeasurement_last_use_tick a) (trim_by_lru K ms)"
    unfolding t sorted_wrt_append by blast
  have "set ms = set (take ?C ?xs) \<union> set (drop ?C ?xs)"
    using set_append[of "take ?C ?xs" "drop ?C ?xs"] by (simp add: sort_by_last_use_set)
  then have "set ms - set (take ?C ?xs) \<subseteq> set (drop ?C ?xs)" by blast
  then show "\<forall>m \<in> set (trim_by_lru K ms). \<forall>m' \<in> set ms - set (trim_by_lru K ms). RideMeasurement_last_use_tick m' < RideMeasurement_last_use_tick m"
    unfolding t using sw unfolding sorted_wrt_append by blast
qed

lemma trim_by_lru_distinct_rid:
  assumes "distinct (map RideMeasurement_ride_id ms)"
  shows "distinct (map RideMeasurement_ride_id (trim_by_lru K ms))"
  using assms sort_by_last_use_distinct_rid[OF assms]
  by (simp add: trim_by_lru_def take_map[symmetric])

lemma trim_by_lru_set: "set (trim_by_lru K ms) \<subseteq> set ms"
  using set_take_subset[of "RCT12_RIDE_MEASUREMENT_MAX_ITEMS K" "sort_by_last_use ms"]
  by (auto simp: trim_by_lru_def sort_by_last_use_set)

lemma collect_rids_aux:
  assumes "\<forall>i \<in> set idxs. \<forall>r m. get_ride G i = Some r \<longrightarrow> Ride_measurement r = Some m \<longrightarrow> RideMeasurement_ride_id m = i"
  shows "map RideMeasurement_ride_id (concat (map (\<lambda>i. case get_ride G i of
                         None \<Rightarrow> []
                       | Some ride \<Rightarrow> (case Ride_measurement ride of None \<Rightarrow> [] | Some m \<Rightarrow> [m])) idxs))
         = filter (\<lambda>i. case get_ride G i of None \<Rightarrow> False | Some ride \<Rightarrow> Ride_measurement ride \<noteq> None) idxs"
  using assms
proof (induction idxs)
  case Nil
  then show ?case by simp
next
  case (Cons k rest)
  then show ?case
    by (auto split: option.splits)
qed

lemma collect_rids:
  assumes "\<forall>i < RCT12_MAX_RIDES_IN_PARK K. \<forall>r m.
             get_ride G i = Some r \<longrightarrow> Ride_measurement r = Some m \<longrightarrow> RideMeasurement_ride_id m = i"
  shows "map RideMeasurement_ride_id (collect_ride_measurements K G)
           = filter (\<lambda>i. case get_ride G i of None \<Rightarrow> False | Some ride \<Rightarrow> Ride_measurement ride \<noteq> None) [0 ..< RCT12_MAX_RIDES_IN_PARK K]"
  unfolding collect_ride_measurements_def
  by (rule collect_rids_aux) (use assms in simp)

lemma collect_rids_distinct:
  assumes "\<forall>i < RCT12_MAX_RIDES_IN_PARK K. \<forall>r m.
             get_ride G i = Some r \<longrightarrow> Ride_measurement r = Some m \<longrightarrow> RideMeasurement_ride_id m = i"
  shows "distinct (map RideMeasurement_ride_id (collect_ride_measurements K G))"
    and "\<forall>m \<in> set (collect_ride_measurements K G). RideMeasurement_ride_id m < RCT12_MAX_RIDES_IN_PARK K"
proof -
  show "distinct (map RideMeasurement_ride_id (collect_ride_measurements K G))"
    by (simp add: collect_rids[OF assms])
  have "set (map RideMeasurement_ride_id (collect_ride_measurements K G)) \<subseteq> {..< RCT12_MAX_RIDES_IN_PARK K}"
    by (auto simp: collect_rids[OF assms])
  then show "\<forall>m \<in> set (collect_ride_measurements K G). RideMeasurement_ride_id m < RCT12_MAX_RIDES_IN_PARK K"
    by auto
qed

lemma ExportRideMeasurements_lru_aux:
  assumes own: "\<forall>i < RCT12_MAX_RIDES_IN_PARK K. \<forall>r m.
             get_ride G i = Some r \<longrightarrow> Ride_measurement r = Some m \<longrightarrow> RideMeasurement_ride_id m = i"
      and lr: "length (rides s6) = RCT12_MAX_RIDES_IN_PARK K"
      and lt: "length (ride_measurements s6) = RCT12_RIDE_MEASUREMENT_MAX_ITEMS K"
      and c255: "RCT12_RIDE_MEASUREMENT_MAX_ITEMS K \<le> 255"
  shows "\<exists>tbl rds.
           ExportRideMeasurements K G s6 = Inr (s6\<lparr> ride_measurements := tbl, rides := rds \<rparr>) \<and>
           length tbl = length (ride_measurements s6) \<and>
           length rds = length (rides s6) \<and>
           (\<forall>j < length (trim_by_lru K (collect_ride_measurements K G)).
              tbl ! j =
                (ExportRideMeasurement (ride_measurements s6 ! j) (trim_by_lru K (collect_ride_measurements K G) ! j))
                  \<lparr> RCT12RideMeasurement_ride_index :=
                      of_nat (RideMeasurement_ride_id (trim_by_lru K (collect_ride_measurements K G) ! j)) \<rparr>) \<and>
           (\<forall>j < length (trim_by_lru K (collect_ride_measurements K G)).
              rds ! RideMeasurement_ride_id (trim_by_lru K (collect_ride_measurements K G) ! j) =
                set_measurement_index (of_nat j)
                  (rides s6 ! RideMeasurement_ride_id (trim_by_lru K (collect_ride_measurements K G) ! j))) \<and>
           (\<forall>n < length (ride_measurements s6).
              length (trim_by_lru K (collect_ride_measurements K G)) \<le> n \<longrightarrow> tbl ! n = ride_measurements s6 ! n) \<and>
           (\<forall>r < length (rides s6).
              r \<notin> RideMeasurement_ride_id ` set (trim_by_lru K (collect_ride_measurements K G))
                \<longrightarrow> rds ! r = rides s6 ! r)"
proof -
  let ?ms = "collect_ride_measurements K G"
  let ?kept = "trim_by_lru K ?ms"
  have len: "length ?kept \<le> RCT12_RIDE_MEASUREMENT_MAX_ITEMS K"
    by (simp add: trim_by_lru_def sort_by_last_use_length)
  have p1: "unat (0 :: u8) + length ?kept \<le> length (ride_measurements s6)"
    using len lt by simp
  have p2: "unat (0 :: u8) + length ?kept \<le> 255" using len c255 by simp
  have p3: "\<forall>m \<in> set ?kept. RideMeasurement_ride_id m < length (rides s6)"
    using collect_rids_distinct(2)[OF own] trim_by_lru_set[of K ?ms] lr by auto
  have p4: "distinct (map RideMeasurement_ride_id ?kept)"
    by (rule trim_by_lru_distinct_rid[OF collect_rids_distinct(1)[OF own]])
  from write_ride_measurements_result[OF p1 p2 p3 p4]
  show ?thesis unfolding ExportRideMeasurements_def by simp
qed

lemma collect_mem:
  "m \<in> set (collect_ride_measurements K G) \<Longrightarrow>
   \<exists>i < RCT12_MAX_RIDES_IN_PARK K. \<exists>r. get_ride G i = Some r \<and> Ride_measurement r = Some m"
  unfolding collect_ride_measurements_def
  apply (auto split: option.splits)
  apply (metis)
  done

text \<open>
  Claim C1, as stated, fails.  In the example park the rides 0 to 4 hold
  samples of recency 10, 30, 20, 50, 40 and there is room for three.  The
  exported table holds the samples of rides 3, 4 and 1, in that order: most
  recent first, not in their original order 1, 3, 4.  The rides 0 and 2, whose
  samples are evicted, have \<^verbatim>\<open>measurement_index\<close> 0, the value of the cleared
  record: the same as ride 3, whose samples are in slot 0.
\<close>

theorem ExportRideMeasurements_order_counterexample:
  "map RideMeasurement_ride_id (collect_ride_measurements example_limits example_game) = [0, 1, 2, 3, 4] \<and>
   map RideMeasurement_last_use_tick (collect_ride_measurements example_limits example_game)
     = [10, 30, 20, 50, 40] \<and>
   map_sum id exported_ride_indices example_export = Inr [3, 4, 1] \<and>
   map_sum id exported_ticks example_export = Inr [50, 40, 30] \<and>
   map_sum id exported_measurement_indices example_export = Inr [0, 2, 0, 0, 1]"
  by code_simp

text \<open>
  Claim C1, amended.  Let every ride slot with samples hold samples that name
  that slot as their owner, let the tables have their declared sizes, and let
  there be more sample records than the capacity
  \<^verbatim>\<open>RCT12_RIDE_MEASUREMENT_MAX_ITEMS\<close> (at most 255), with distinct
  \<^verbatim>\<open>last_use_tick\<close>.  Then the export succeeds and changes the two tables
  only.  The sample table holds exactly as many records as the capacity: the
  most recent ones (each kept record is more recent than each evicted one), in
  descending order of recency, most recent first.  Slot \<open>j\<close> is the export
  of the \<open>j\<close>-th kept record with the index of its owner in \<^verbatim>\<open>ride_index\<close>,
  and the owner's ride record has \<open>j\<close> in \<^verbatim>\<open>measurement_index\<close>.  The ride
  record of every other slot, the evicted owners among them, is left as it was.
\<close>

theorem ExportRideMeasurements_lru:
  assumes own: "\<forall>i < RCT12_MAX_RIDES_IN_PARK K. \<forall>r m.
             get_ride G i = Some r \<longrightarrow> Ride_measurement r = Some m \<longrightarrow> RideMeasurement_ride_id m = i"
      and lr: "length (rides s6) = RCT12_MAX_RIDES_IN_PARK K"
      and lt: "length (ride_measurements s6) = RCT12_RIDE_MEASUREMENT_MAX_ITEMS K"
      and c255: "RCT12_RIDE_MEASUREMENT_MAX_ITEMS K \<le> 255"
      and more: "length (collect_ride_measurements K G) > RCT12_RIDE_MEASUREMENT_MAX_ITEMS K"
      and dist: "distinct (map RideMeasurement_last_use_tick (collect_ride_measurements K G))"
  shows "\<exists>tbl rds kept.
           ExportRideMeasurements K G s6 = Inr (s6\<lparr> ride_measurements := tbl, rides := rds \<rparr>) \<and>
           length tbl = RCT12_RIDE_MEASUREMENT_MAX_ITEMS K \<and>
           length rds = RCT12_MAX_RIDES_IN_PARK K \<and>
           length kept = RCT12_RIDE_MEASUREMENT_MAX_ITEMS K \<and>
           set kept \<subseteq> set (collect_ride_measurements K G) \<and>
           (\<forall>m \<in> set kept. \<forall>m' \<in> set (collect_ride_measurements K G) - set kept.
              RideMeasurement_last_use_tick m' < RideMeasurement_last_use_tick m) \<and>
           sorted_wrt (\<lambda>a b. RideMeasurement_last_use_tick b < RideMeasurement_last_use_tick a) kept \<and>
           (\<forall>j < RCT12_RIDE_MEASUREMENT_MAX_ITEMS K.
              tbl ! j = (ExportRideMeasurement (ride_measurements s6 ! j) (kept ! j))
                          \<lparr> RCT12RideMeasurement_ride_index := of_nat (RideMeasurement_ride_id (kept ! j)) \<rparr> \<and>
              RideMeasurement_ride_id (kept ! j) < RCT12_MAX_RIDES_IN_PARK K \<and>
              (\<exists>r. get_ride G (RideMeasurement_ride_id (kept ! j)) = Some r \<and>
                   Ride_measurement r = Some (kept ! j)) \<and>
              rds ! RideMeasurement_ride_id (kept ! j) =
                set_measurement_index (of_nat j) (rides s6 ! RideMeasurement_ride_id (kept ! j))) \<and>
           (\<forall>r < RCT12_MAX_RIDES_IN_PARK K.
              r \<notin> RideMeasurement_ride_id ` set kept \<longrightarrow> rds ! r = rides s6 ! r)"
proof -
  let ?ms = "collect_ride_measurements K G"
  let ?kept = "trim_by_lru K ?ms"
  let ?C = "RCT12_RIDE_MEASUREMENT_MAX_ITEMS K"
  note tr = trim_by_lru_most_recent[OF more dist]
  from ExportRideMeasurements_lru_aux[OF own lr lt c255] obtain tbl rds where
    run: "ExportRideMeasurements K G s6 = Inr (s6\<lparr> ride_measurements := tbl, rides := rds \<rparr>)"
    and ltb: "length tbl = length (ride_measurements s6)"
    and lrd: "length rds = length (rides s6)"
    and tb: "\<forall>j < length ?kept.
              tbl ! j = (ExportRideMeasurement (ride_measurements s6 ! j) (?kept ! j))
                  \<lparr> RCT12RideMeasurement_ride_index := of_nat (RideMeasurement_ride_id (?kept ! j)) \<rparr>"
    and rd: "\<forall>j < length ?kept.
              rds ! RideMeasurement_ride_id (?kept ! j) =
                set_measurement_index (of_nat j) (rides s6 ! RideMeasurement_ride_id (?kept ! j))"
    and rframe: "\<forall>r < length (rides s6).
              r \<notin> RideMeasurement_ride_id ` set ?kept \<longrightarrow> rds ! r = rides s6 ! r"
    by blast
  have owner: "\<forall>j < ?C. RideMeasurement_ride_id (?kept ! j) < RCT12_MAX_RIDES_IN_PARK K \<and>
              (\<exists>r. get_ride G (RideMeasurement_ride_id (?kept ! j)) = Some r \<and>
                   Ride_measurement r = Some (?kept ! j))"
  proof (intro allI impI)
    fix j assume j: "j < ?C"
    then have "?kept ! j \<in> set ?kept" using tr(1) by simp
    then have "?kept ! j \<in> set ?ms" using tr(2) by blast
    from collect_mem[OF this] obtain i r where i: "i < RCT12_MAX_RIDES_IN_PARK K"
      and r: "get_ride G i = Some r" "Ride_measurement r = Some (?kept ! j)"
      by blast
    with own i have "RideMeasurement_ride_id (?kept ! j) = i" by blast
    with i r show "RideMeasurement_ride_id (?kept ! j) < RCT12_MAX_RIDES_IN_PARK K \<and>
              (\<exists>r. get_ride G (RideMeasurement_ride_id (?kept ! j)) = Some r \<and>
                   Ride_measurement r = Some (?kept ! j))" by simp
  qed
  have slots: "\<forall>j < ?C.
              tbl ! j = (ExportRideMeasurement (ride_measurements s6 ! j) (?kept ! j))
                          \<lparr> RCT12RideMeasurement_ride_index := of_nat (RideMeasurement_ride_id (?kept ! j)) \<rparr> \<and>
              RideMeasurement_ride_id (?kept ! j) < RCT12_MAX_RIDES_IN_PARK K \<and>
              (\<exists>r. get_ride G (RideMeasurement_ride_id (?kept ! j)) = Some r \<and>
                   Ride_measurement r = Some (?kept ! j)) \<and>
              rds ! RideMeasurement_ride_id (?kept ! j) =
                set_measurement_index (of_nat j) (rides s6 ! RideMeasurement_ride_id (?kept ! j))"
    using tb rd owner tr(1) by simp
  have frame: "\<forall>r < RCT12_MAX_RIDES_IN_PARK K.
              r \<notin> RideMeasurement_ride_id ` set ?kept \<longrightarrow> rds ! r = rides s6 ! r"
    using rframe lr by simp
  show ?thesis
    apply (rule exI[of _ tbl], rule exI[of _ rds], rule exI[of _ ?kept])
    using run ltb lrd lt lr tr slots frame by simp
qed

theorem ExportRideMeasurements_lru_witness:
  "\<exists>tbl rds kept.
     ExportRideMeasurements example_limits example_game example_s6
       = Inr (example_s6\<lparr> ride_measurements := tbl, rides := rds \<rparr>) \<and>
     length tbl = RCT12_RIDE_MEASUREMENT_MAX_ITEMS example_limits \<and>
     length rds = RCT12_MAX_RIDES_IN_PARK example_limits \<and>
     length kept = RCT12_RIDE_MEASUREMENT_MAX_ITEMS example_limits \<and>
     set kept \<subseteq> set (collect_ride_measurements example_limits example_game) \<and>
     (\<forall>m \<in> set kept. \<forall>m' \<in> set (collect_ride_measurements example_limits example_game) - set kept.
        RideMeasurement_last_use_tick m' < RideMeasurement_last_use_tick m) \<and>
     sorted_wrt (\<lambda>a b. RideMeasurement_last_use_tick b < RideMeasurement_last_use_tick a) kept \<and>
     (\<forall>j < RCT12_RIDE_MEASUREMENT_MAX_ITEMS example_limits.
        tbl ! j = (ExportRideMeasurement (ride_measurements example_s6 ! j) (kept ! j))
                    \<lparr> RCT12RideMeasurement_ride_index := of_nat (RideMeasurement_ride_id (kept ! j)) \<rparr> \<and>
        RideMeasurement_ride_id (kept ! j) < RCT12_MAX_RIDES_IN_PARK example_limits \<and>
        (\<exists>r. get_ride example_game (RideMeasurement_ride_id (kept ! j)) = Some r \<and>
             Ride_measurement r = Some (kept ! j)) \<and>
        rds ! RideMeasurement_ride_id (kept ! j) =
          set_measurement_index (of_nat j) (rides example_s6 ! RideMeasurement_ride_id (kept ! j))) \<and>
     (\<forall>r < RCT12_MAX_RIDES_IN_PARK example_limits.
        r \<notin> RideMeasurement_ride_id ` set kept \<longrightarrow> rds ! r = rides example_s6 ! r)"
proof -
  have lr: "length (rides example_s6) = RCT12_MAX_RIDES_IN_PARK example_limits"
    by (simp add: example_s6_sizes example_sizes)
  have lt: "length (ride_measurements example_s6) = RCT12_RIDE_MEASUREMENT_MAX_ITEMS example_limits"
    by (simp add: example_s6_sizes example_sizes)
  have c255: "RCT12_RIDE_MEASUREMENT_MAX_ITEMS example_limits \<le> 255"
    by (simp add: example_sizes)
  have "length (collect_ride_measurements example_limits example_game) = 5" by code_simp
  then have more: "length (collect_ride_measurements example_limits example_game)
                     > RCT12_RIDE_MEASUREMENT_MAX_ITEMS example_limits"
    by (simp add: example_sizes)
  have dist: "distinct (map RideMeasurement_last_use_tick
                 (collect_ride_measurements example_limits example_game))"
    by code_simp
  show ?thesis
    by (rule ExportRideMeasurements_lru[OF example_owner lr lt c255 more dist])
qed

subsection \<open>Slots without a live element\<close>

lemma example_one_sample_owner:
  "\<forall>i < RCT12_MAX_RIDES_IN_PARK example_limits. \<forall>r m.
     get_ride example_park_with_one_sample i = Some r \<longrightarrow> Ride_measurement r = Some m
       \<longrightarrow> RideMeasurement_ride_id m = i"
proof (intro allI impI)
  fix i r m
  assume i: "i < RCT12_MAX_RIDES_IN_PARK example_limits"
    and r: "get_ride example_park_with_one_sample i = Some r" and m: "Ride_measurement r = Some m"
  have i3: "i = 3"
  proof (rule ccontr)
    assume "i \<noteq> 3"
    with r have "Ride_measurement r = None"
      by (auto simp: example_park_with_one_sample_def example_game_def)
    with m show False by simp
  qed
  from example_get_ride_some[of 3] obtain t where "example_get_ride 3 = Some (example_ride 3 t)"
    by auto
  with r i3 have "r = example_ride 3 t"
    by (simp add: example_park_with_one_sample_def example_game_def)
  with m i3 show "RideMeasurement_ride_id m = i"
    by (auto simp: example_ride_def example_measurement_def)
qed

text \<open>
  Claim C5, as stated, fails: not every table has its unused slots written.
  In the park where only the ride of slot 3 holds samples there is one sample
  record for a table of three.  The table exported holds the record of ride 3
  in slot 0; the slots 1 and 2 are not written and keep the zero bytes of the
  cleared snapshot, so they name ride 0 with recency 0.  And the ride of slot 2
  of the park with a demolished ride has the null type: its entrance of station
  0 is set and those of the stations 1 to 3 are not, and all four are exported
  as 0, the value of the cleared record.
\<close>

theorem unused_measurement_slots_are_zero_counterexample:
  "RCT12_RIDE_MEASUREMENT_MAX_ITEMS example_limits = 3 \<and>
   map RideMeasurement_ride_id
     (collect_ride_measurements example_limits example_park_with_one_sample) = [3] \<and>
   map_sum id exported_ride_indices example_one_sample_export = Inr [3, 0, 0] \<and>
   map_sum id exported_ticks example_one_sample_export = Inr [50, 0, 0] \<and>
   map_option Ride_type (get_ride example_park_with_closed_slot 2)
     = Some (RIDE_TYPE_NULL example_limits) \<and>
   map_option (\<lambda>ride. map (\<lambda>i. isNull example_park_with_closed_slot
                  (ride_get_entrance_location example_park_with_closed_slot ride i)) [0, 1, 2, 3])
       (get_ride example_park_with_closed_slot 2)
     = Some [False, True, True, True] \<and>
   map_sum id (exported_entrances 2)
       (ExportRides example_limits example_park_with_closed_slot example_s6)
     = Inr [0, 0, 0, 0]"
  by code_simp

lemma example_one_sample_count:
  "length (collect_ride_measurements example_limits example_park_with_one_sample) = 1"
  by code_simp

lemma trim_by_lru_length:
  "length (trim_by_lru K ms) = min (length ms) (RCT12_RIDE_MEASUREMENT_MAX_ITEMS K)"
  by (simp add: trim_by_lru_def sort_by_last_use_length)

lemma rct2_ride_zero_stations:
  "rct2_ride_entrances ((rct2_ride_zero K)\<lparr> rct2_ride_type := t \<rparr>)
     = replicate (RCT12_MAX_STATIONS_PER_RIDE K) 0 \<and>
   rct2_ride_exits ((rct2_ride_zero K)\<lparr> rct2_ride_type := t \<rparr>)
     = replicate (RCT12_MAX_STATIONS_PER_RIDE K) 0"
  by (simp add: rct2_ride_zero_def)

lemma ExportRide_stations_length:
  "length (rct2_ride_entrances (ExportRide K G src)) = RCT12_MAX_STATIONS_PER_RIDE K \<and>
   length (rct2_ride_exits (ExportRide K G src)) = RCT12_MAX_STATIONS_PER_RIDE K"
  by (simp add: ExportRide_def)

lemma rct_s6_data_zero_measurements:
  "n < RCT12_RIDE_MEASUREMENT_MAX_ITEMS K \<Longrightarrow>
   RCT12RideMeasurement_ride_index (ride_measurements (rct_s6_data_zero K a b c) ! n) = 0 \<and>
   RCT12RideMeasurement_last_use_tick (ride_measurements (rct_s6_data_zero K a b c) ! n) = 0"
  by (simp add: rct_s6_data_zero_def)

text \<open>
  Claim C5, amended.  Where the three sentinel constants are not zero: the
  peep-spawn table has \<^verbatim>\<open>RCT12_MAX_PEEP_SPAWNS\<close> slots and every slot from the
  number of live spawns on holds \<^verbatim>\<open>PEEP_SPAWN_UNDEFINED\<close> in both coordinates
  (and 0 in \<^verbatim>\<open>z\<close> and \<^verbatim>\<open>direction\<close>); the park-entrance tables have
  \<^verbatim>\<open>RCT12_MAX_PARK_ENTRANCES\<close> slots and every slot from the number of live
  entrances on holds \<^verbatim>\<open>LOCATION_NULL\<close> (its 16 bits) in both coordinates; a
  station entrance or exit whose live location is null is exported as
  \<^verbatim>\<open>RCT_XY8_UNDEFINED\<close> by \<^verbatim>\<open>ExportRide\<close>, so in the table that
  \<^verbatim>\<open>ExportRides\<close> leaves this holds of every ride that is not of the null
  type.  None of these values is zero.  The other slots are left zero: the
  record of a ride of the null type has 0 in every station entrance and exit,
  and \<^verbatim>\<open>ExportRideMeasurements\<close> does not write the slots of the sample table
  from the number of sample records on, which keep what the snapshot held, in
  the cleared snapshot the zero record with ride index 0.
\<close>

theorem unused_slots_hold_sentinels:
  assumes "PEEP_SPAWN_UNDEFINED K \<noteq> 0"
      and "(ucast (LOCATION_NULL K) :: s16) \<noteq> 0"
      and "RCT_XY8_UNDEFINED K \<noteq> 0"
  shows "length (ExportPeepSpawns K sp) = RCT12_MAX_PEEP_SPAWNS K \<and>
         (\<forall>i. length sp \<le> i \<and> i < RCT12_MAX_PEEP_SPAWNS K \<longrightarrow>
            ExportPeepSpawns K sp ! i =
              \<lparr> rct12_peep_spawn_x = PEEP_SPAWN_UNDEFINED K,
                rct12_peep_spawn_y = PEEP_SPAWN_UNDEFINED K,
                rct12_peep_spawn_z = 0, rct12_peep_spawn_direction = 0 \<rparr> \<and>
            rct12_peep_spawn_x (ExportPeepSpawns K sp ! i) \<noteq> 0 \<and>
            rct12_peep_spawn_y (ExportPeepSpawns K sp ! i) \<noteq> 0) \<and>
         length (park_entrance_x (ExportParkEntrances K pe)) = RCT12_MAX_PARK_ENTRANCES K \<and>
         length (park_entrance_y (ExportParkEntrances K pe)) = RCT12_MAX_PARK_ENTRANCES K \<and>
         (\<forall>i. length pe \<le> i \<and> i < RCT12_MAX_PARK_ENTRANCES K \<longrightarrow>
            park_entrance_x (ExportParkEntrances K pe) ! i = ucast (LOCATION_NULL K) \<and>
            park_entrance_y (ExportParkEntrances K pe) ! i = ucast (LOCATION_NULL K) \<and>
            park_entrance_x (ExportParkEntrances K pe) ! i \<noteq> 0 \<and>
            park_entrance_y (ExportParkEntrances K pe) ! i \<noteq> 0) \<and>
         (\<forall>i < RCT12_MAX_STATIONS_PER_RIDE K.
            (isNull G (ride_get_entrance_location G src i) \<longrightarrow>
               rct2_ride_entrances (ExportRide K G src) ! i = RCT_XY8_UNDEFINED K \<and>
               rct2_ride_entrances (ExportRide K G src) ! i \<noteq> 0) \<and>
            (isNull G (ride_get_exit_location G src i) \<longrightarrow>
               rct2_ride_exits (ExportRide K G src) ! i = RCT_XY8_UNDEFINED K \<and>
               rct2_ride_exits (ExportRide K G src) ! i \<noteq> 0)) \<and>
         (length (rides s6) = RCT12_MAX_RIDES_IN_PARK K \<and>
          (\<forall>index < RCT12_MAX_RIDES_IN_PARK K. get_ride G index \<noteq> None) \<longrightarrow>
            (\<exists>tbl. ExportRides K G s6 = Inr (s6\<lparr> rides := tbl \<rparr>) \<and>
               length tbl = RCT12_MAX_RIDES_IN_PARK K \<and>
               (\<forall>index < RCT12_MAX_RIDES_IN_PARK K. \<forall>ride. get_ride G index = Some ride \<longrightarrow>
                  (Ride_type ride \<noteq> RIDE_TYPE_NULL K \<longrightarrow>
                     length (rct2_ride_entrances (tbl ! index)) = RCT12_MAX_STATIONS_PER_RIDE K \<and>
                     length (rct2_ride_exits (tbl ! index)) = RCT12_MAX_STATIONS_PER_RIDE K \<and>
                     (\<forall>i < RCT12_MAX_STATIONS_PER_RIDE K.
                        (isNull G (ride_get_entrance_location G ride i) \<longrightarrow>
                           rct2_ride_entrances (tbl ! index) ! i = RCT_XY8_UNDEFINED K \<and>
                           rct2_ride_entrances (tbl ! index) ! i \<noteq> 0) \<and>
                        (isNull G (ride_get_exit_location G ride i) \<longrightarrow>
                           rct2_ride_exits (tbl ! index) ! i = RCT_XY8_UNDEFINED K \<and>
                           rct2_ride_exits (tbl ! index) ! i \<noteq> 0))) \<and>
                  (Ride_type ride = RIDE_TYPE_NULL K \<longrightarrow>
                     rct2_ride_entrances (tbl ! index) = replicate (RCT12_MAX_STATIONS_PER_RIDE K) 0 \<and>
                     rct2_ride_exits (tbl ! index) = replicate (RCT12_MAX_STATIONS_PER_RIDE K) 0)))) \<and>
         ((\<forall>index < RCT12_MAX_RIDES_IN_PARK K. \<forall>r m.
             get_ride G index = Some r \<longrightarrow> Ride_measurement r = Some m
               \<longrightarrow> RideMeasurement_ride_id m = index) \<and>
          length (rides s6) = RCT12_MAX_RIDES_IN_PARK K \<and>
          length (ride_measurements s6) = RCT12_RIDE_MEASUREMENT_MAX_ITEMS K \<and>
          RCT12_RIDE_MEASUREMENT_MAX_ITEMS K \<le> 255 \<longrightarrow>
            (\<exists>tbl rds. ExportRideMeasurements K G s6
                          = Inr (s6\<lparr> ride_measurements := tbl, rides := rds \<rparr>) \<and>
               length tbl = RCT12_RIDE_MEASUREMENT_MAX_ITEMS K \<and>
               (\<forall>n < RCT12_RIDE_MEASUREMENT_MAX_ITEMS K.
                  length (collect_ride_measurements K G) \<le> n \<longrightarrow>
                    tbl ! n = ride_measurements s6 ! n))) \<and>
         (\<forall>n < RCT12_RIDE_MEASUREMENT_MAX_ITEMS K.
            RCT12RideMeasurement_ride_index
              (ride_measurements (rct_s6_data_zero K n_types n_entries n_scenery) ! n) = 0 \<and>
            RCT12RideMeasurement_last_use_tick
              (ride_measurements (rct_s6_data_zero K n_types n_entries n_scenery) ! n) = 0)"
proof -
  have p1: "length (ExportPeepSpawns K sp) = RCT12_MAX_PEEP_SPAWNS K"
    by (simp add: ExportPeepSpawns_def)
  have p2: "\<forall>i. length sp \<le> i \<and> i < RCT12_MAX_PEEP_SPAWNS K \<longrightarrow>
            ExportPeepSpawns K sp ! i =
              \<lparr> rct12_peep_spawn_x = PEEP_SPAWN_UNDEFINED K,
                rct12_peep_spawn_y = PEEP_SPAWN_UNDEFINED K,
                rct12_peep_spawn_z = 0, rct12_peep_spawn_direction = 0 \<rparr> \<and>
            rct12_peep_spawn_x (ExportPeepSpawns K sp ! i) \<noteq> 0 \<and>
            rct12_peep_spawn_y (ExportPeepSpawns K sp ! i) \<noteq> 0"
    using assms(1) by (simp add: ExportPeepSpawns_nth ExportPeepSpawn_unused)
  have p3: "length (park_entrance_x (ExportParkEntrances K pe)) = RCT12_MAX_PARK_ENTRANCES K"
    by (simp add: ExportParkEntrances_def Let_def)
  have p4: "length (park_entrance_y (ExportParkEntrances K pe)) = RCT12_MAX_PARK_ENTRANCES K"
    by (simp add: ExportParkEntrances_def Let_def)
  have p5: "\<forall>i. length pe \<le> i \<and> i < RCT12_MAX_PARK_ENTRANCES K \<longrightarrow>
            park_entrance_x (ExportParkEntrances K pe) ! i = ucast (LOCATION_NULL K) \<and>
            park_entrance_y (ExportParkEntrances K pe) ! i = ucast (LOCATION_NULL K) \<and>
            park_entrance_x (ExportParkEntrances K pe) ! i \<noteq> 0 \<and>
            park_entrance_y (ExportParkEntrances K pe) ! i \<noteq> 0"
    using assms(2) by (simp add: ExportParkEntrances_unused)
  have st: "\<forall>i < RCT12_MAX_STATIONS_PER_RIDE K.
            (isNull G (ride_get_entrance_location G r i) \<longrightarrow>
               rct2_ride_entrances (ExportRide K G r) ! i = RCT_XY8_UNDEFINED K \<and>
               rct2_ride_entrances (ExportRide K G r) ! i \<noteq> 0) \<and>
            (isNull G (ride_get_exit_location G r i) \<longrightarrow>
               rct2_ride_exits (ExportRide K G r) ! i = RCT_XY8_UNDEFINED K \<and>
               rct2_ride_exits (ExportRide K G r) ! i \<noteq> 0)" for r
    using assms(3)
    by (simp add: ExportRide_entrances_nth ExportRide_exits_nth ExportRide_entrance_def
          ExportRide_exit_def)
  have p7: "length (rides s6) = RCT12_MAX_RIDES_IN_PARK K \<and>
          (\<forall>index < RCT12_MAX_RIDES_IN_PARK K. get_ride G index \<noteq> None) \<longrightarrow>
            (\<exists>tbl. ExportRides K G s6 = Inr (s6\<lparr> rides := tbl \<rparr>) \<and>
               length tbl = RCT12_MAX_RIDES_IN_PARK K \<and>
               (\<forall>index < RCT12_MAX_RIDES_IN_PARK K. \<forall>ride. get_ride G index = Some ride \<longrightarrow>
                  (Ride_type ride \<noteq> RIDE_TYPE_NULL K \<longrightarrow>
                     length (rct2_ride_entrances (tbl ! index)) = RCT12_MAX_STATIONS_PER_RIDE K \<and>
                     length (rct2_ride_exits (tbl ! index)) = RCT12_MAX_STATIONS_PER_RIDE K \<and>
                     (\<forall>i < RCT12_MAX_STATIONS_PER_RIDE K.
                        (isNull G (ride_get_entrance_location G ride i) \<longrightarrow>
                           rct2_ride_entrances (tbl ! index) ! i = RCT_XY8_UNDEFINED K \<and>
                           rct2_ride_entrances (tbl ! index) ! i \<noteq> 0) \<and>
                        (isNull G (ride_get_exit_location G ride i) \<longrightarrow>
                           rct2_ride_exits (tbl ! index) ! i = RCT_XY8_UNDEFINED K \<and>
                           rct2_ride_exits (tbl ! index) ! i \<noteq> 0))) \<and>
                  (Ride_type ride = RIDE_TYPE_NULL K \<longrightarrow>
                     rct2_ride_entrances (tbl ! index) = replicate (RCT12_MAX_STATIONS_PER_RIDE K) 0 \<and>
                     rct2_ride_exits (tbl ! index) = replicate (RCT12_MAX_STATIONS_PER_RIDE K) 0)))"
  proof (intro impI)
    assume a: "length (rides s6) = RCT12_MAX_RIDES_IN_PARK K \<and>
          (\<forall>index < RCT12_MAX_RIDES_IN_PARK K. get_ride G index \<noteq> None)"
    from ExportRides_result[OF a[THEN conjunct1] a[THEN conjunct2]] obtain tbl where
      r: "ExportRides K G s6 = Inr (s6\<lparr> rides := tbl \<rparr>)"
      and l: "length tbl = RCT12_MAX_RIDES_IN_PARK K"
      and t: "\<forall>i < RCT12_MAX_RIDES_IN_PARK K. \<forall>src. get_ride G i = Some src \<longrightarrow>
              tbl ! i = (if Ride_type src = RIDE_TYPE_NULL K
                         then (rct2_ride_zero K)\<lparr> rct2_ride_type := RIDE_TYPE_NULL K \<rparr>
                         else ExportRide K G src)"
      by blast
    have "\<forall>index < RCT12_MAX_RIDES_IN_PARK K. \<forall>ride. get_ride G index = Some ride \<longrightarrow>
                  (Ride_type ride \<noteq> RIDE_TYPE_NULL K \<longrightarrow>
                     length (rct2_ride_entrances (tbl ! index)) = RCT12_MAX_STATIONS_PER_RIDE K \<and>
                     length (rct2_ride_exits (tbl ! index)) = RCT12_MAX_STATIONS_PER_RIDE K \<and>
                     (\<forall>i < RCT12_MAX_STATIONS_PER_RIDE K.
                        (isNull G (ride_get_entrance_location G ride i) \<longrightarrow>
                           rct2_ride_entrances (tbl ! index) ! i = RCT_XY8_UNDEFINED K \<and>
                           rct2_ride_entrances (tbl ! index) ! i \<noteq> 0) \<and>
                        (isNull G (ride_get_exit_location G ride i) \<longrightarrow>
                           rct2_ride_exits (tbl ! index) ! i = RCT_XY8_UNDEFINED K \<and>
                           rct2_ride_exits (tbl ! index) ! i \<noteq> 0))) \<and>
                  (Ride_type ride = RIDE_TYPE_NULL K \<longrightarrow>
                     rct2_ride_entrances (tbl ! index) = replicate (RCT12_MAX_STATIONS_PER_RIDE K) 0 \<and>
                     rct2_ride_exits (tbl ! index) = replicate (RCT12_MAX_STATIONS_PER_RIDE K) 0)"
    proof (intro allI impI)
      fix index ride
      assume i: "index < RCT12_MAX_RIDES_IN_PARK K" and g: "get_ride G index = Some ride"
      from t i g have e: "tbl ! index = (if Ride_type ride = RIDE_TYPE_NULL K
                         then (rct2_ride_zero K)\<lparr> rct2_ride_type := RIDE_TYPE_NULL K \<rparr>
                         else ExportRide K G ride)"
        by blast
      show "(Ride_type ride \<noteq> RIDE_TYPE_NULL K \<longrightarrow>
                     length (rct2_ride_entrances (tbl ! index)) = RCT12_MAX_STATIONS_PER_RIDE K \<and>
                     length (rct2_ride_exits (tbl ! index)) = RCT12_MAX_STATIONS_PER_RIDE K \<and>
                     (\<forall>i < RCT12_MAX_STATIONS_PER_RIDE K.
                        (isNull G (ride_get_entrance_location G ride i) \<longrightarrow>
                           rct2_ride_entrances (tbl ! index) ! i = RCT_XY8_UNDEFINED K \<and>
                           rct2_ride_entrances (tbl ! index) ! i \<noteq> 0) \<and>
                        (isNull G (ride_get_exit_location G ride i) \<longrightarrow>
                           rct2_ride_exits (tbl ! index) ! i = RCT_XY8_UNDEFINED K \<and>
                           rct2_ride_exits (tbl ! index) ! i \<noteq> 0))) \<and>
                  (Ride_type ride = RIDE_TYPE_NULL K \<longrightarrow>
                     rct2_ride_entrances (tbl ! index) = replicate (RCT12_MAX_STATIONS_PER_RIDE K) 0 \<and>
                     rct2_ride_exits (tbl ! index) = replicate (RCT12_MAX_STATIONS_PER_RIDE K) 0)"
      proof (cases "Ride_type ride = RIDE_TYPE_NULL K")
        case True
        then have "tbl ! index = (rct2_ride_zero K)\<lparr> rct2_ride_type := RIDE_TYPE_NULL K \<rparr>"
          using e by simp
        then show ?thesis using True by (simp only: rct2_ride_zero_stations simp_thms)
      next
        case False
        then have "tbl ! index = ExportRide K G ride" using e by simp
        then show ?thesis using False st[of ride]
          by (simp only: ExportRide_stations_length simp_thms)
      qed
    qed
    with r l show "\<exists>tbl. ExportRides K G s6 = Inr (s6\<lparr> rides := tbl \<rparr>) \<and>
               length tbl = RCT12_MAX_RIDES_IN_PARK K \<and>
               (\<forall>index < RCT12_MAX_RIDES_IN_PARK K. \<forall>ride. get_ride G index = Some ride \<longrightarrow>
                  (Ride_type ride \<noteq> RIDE_TYPE_NULL K \<longrightarrow>
                     length (rct2_ride_entrances (tbl ! index)) = RCT12_MAX_STATIONS_PER_RIDE K \<and>
                     length (rct2_ride_exits (tbl ! index)) = RCT12_MAX_STATIONS_PER_RIDE K \<and>
                     (\<forall>i < RCT12_MAX_STATIONS_PER_RIDE K.
                        (isNull G (ride_get_entrance_location G ride i) \<longrightarrow>
                           rct2_ride_entrances (tbl ! index) ! i = RCT_XY8_UNDEFINED K \<and>
                           rct2_ride_entrances (tbl ! index) ! i \<noteq> 0) \<and>
                        (isNull G (ride_get_exit_location G ride i) \<longrightarrow>
                           rct2_ride_exits (tbl ! index) ! i = RCT_XY8_UNDEFINED K \<and>
                           rct2_ride_exits (tbl ! index) ! i \<noteq> 0))) \<and>
                  (Ride_type ride = RIDE_TYPE_NULL K \<longrightarrow>
                     rct2_ride_entrances (tbl ! index) = replicate (RCT12_MAX_STATIONS_PER_RIDE K) 0 \<and>
                     rct2_ride_exits (tbl ! index) = replicate (RCT12_MAX_STATIONS_PER_RIDE K) 0))"
      by (intro exI[of _ tbl] conjI)
  qed
  have p8: "(\<forall>index < RCT12_MAX_RIDES_IN_PARK K. \<forall>r m.
             get_ride G index = Some r \<longrightarrow> Ride_measurement r = Some m
               \<longrightarrow> RideMeasurement_ride_id m = index) \<and>
          length (rides s6) = RCT12_MAX_RIDES_IN_PARK K \<and>
          length (ride_measurements s6) = RCT12_RIDE_MEASUREMENT_MAX_ITEMS K \<and>
          RCT12_RIDE_MEASUREMENT_MAX_ITEMS K \<le> 255 \<longrightarrow>
            (\<exists>tbl rds. ExportRideMeasurements K G s6
                          = Inr (s6\<lparr> ride_measurements := tbl, rides := rds \<rparr>) \<and>
               length tbl = RCT12_RIDE_MEASUREMENT_MAX_ITEMS K \<and>
               (\<forall>n < RCT12_RIDE_MEASUREMENT_MAX_ITEMS K.
                  length (collect_ride_measurements K G) \<le> n \<longrightarrow>
                    tbl ! n = ride_measurements s6 ! n))"
  proof (intro impI)
    assume a: "(\<forall>index < RCT12_MAX_RIDES_IN_PARK K. \<forall>r m.
             get_ride G index = Some r \<longrightarrow> Ride_measurement r = Some m
               \<longrightarrow> RideMeasurement_ride_id m = index) \<and>
          length (rides s6) = RCT12_MAX_RIDES_IN_PARK K \<and>
          length (ride_measurements s6) = RCT12_RIDE_MEASUREMENT_MAX_ITEMS K \<and>
          RCT12_RIDE_MEASUREMENT_MAX_ITEMS K \<le> 255"
    note own = a[THEN conjunct1]
    note lr = a[THEN conjunct2, THEN conjunct1]
    note lt = a[THEN conjunct2, THEN conjunct2, THEN conjunct1]
    note c255 = a[THEN conjunct2, THEN conjunct2, THEN conjunct2]
    from ExportRideMeasurements_lru_aux[OF own lr lt c255] obtain tbl rds where
      r: "ExportRideMeasurements K G s6 = Inr (s6\<lparr> ride_measurements := tbl, rides := rds \<rparr>)"
      and l: "length tbl = length (ride_measurements s6)"
      and u: "\<forall>n < length (ride_measurements s6).
              length (trim_by_lru K (collect_ride_measurements K G)) \<le> n
                \<longrightarrow> tbl ! n = ride_measurements s6 ! n"
      by blast
    have "\<forall>n < RCT12_RIDE_MEASUREMENT_MAX_ITEMS K.
                  length (collect_ride_measurements K G) \<le> n \<longrightarrow>
                    tbl ! n = ride_measurements s6 ! n"
      using u lt by (simp add: trim_by_lru_length)
    with r l lt show "\<exists>tbl rds. ExportRideMeasurements K G s6
                          = Inr (s6\<lparr> ride_measurements := tbl, rides := rds \<rparr>) \<and>
               length tbl = RCT12_RIDE_MEASUREMENT_MAX_ITEMS K \<and>
               (\<forall>n < RCT12_RIDE_MEASUREMENT_MAX_ITEMS K.
                  length (collect_ride_measurements K G) \<le> n \<longrightarrow>
                    tbl ! n = ride_measurements s6 ! n)"
      by (intro exI[of _ tbl] exI[of _ rds] conjI) simp_all
  qed
  have p9: "\<forall>n < RCT12_RIDE_MEASUREMENT_MAX_ITEMS K.
            RCT12RideMeasurement_ride_index
              (ride_measurements (rct_s6_data_zero K n_types n_entries n_scenery) ! n) = 0 \<and>
            RCT12RideMeasurement_last_use_tick
              (ride_measurements (rct_s6_data_zero K n_types n_entries n_scenery) ! n) = 0"
    using rct_s6_data_zero_measurements by blast
  from p1 p2 p3 p4 p5 st[of src] p7 p8 p9 show ?thesis by (intro conjI)
qed

theorem unused_slots_hold_sentinels_witness:
  "ExportPeepSpawns example_limits (gPeepSpawns example_game) ! 1 =
     \<lparr> rct12_peep_spawn_x = 0xFFFF, rct12_peep_spawn_y = 0xFFFF,
       rct12_peep_spawn_z = 0, rct12_peep_spawn_direction = 0 \<rparr> \<and>
   park_entrance_x (ExportParkEntrances example_limits (gParkEntrances example_game)) ! 3 = 0x8000 \<and>
   park_entrance_y (ExportParkEntrances example_limits (gParkEntrances example_game)) ! 3 = 0x8000 \<and>
   rct2_ride_entrances (ExportRide example_limits example_game (example_ride 0 10)) ! 1 = 0xFFFF \<and>
   rct2_ride_exits (ExportRide example_limits example_game (example_ride 0 10)) ! 1 = 0xFFFF \<and>
   (\<exists>tbl. ExportRides example_limits example_park_with_closed_slot example_s6
            = Inr (example_s6\<lparr> rides := tbl \<rparr>) \<and>
          rct2_ride_entrances (tbl ! 0) ! 1 = 0xFFFF \<and>
          rct2_ride_exits (tbl ! 0) ! 1 = 0xFFFF \<and>
          rct2_ride_entrances (tbl ! 2) = [0, 0, 0, 0] \<and>
          rct2_ride_exits (tbl ! 2) = [0, 0, 0, 0]) \<and>
   (\<exists>tbl rds. ExportRideMeasurements example_limits example_park_with_one_sample example_s6
            = Inr (example_s6\<lparr> ride_measurements := tbl, rides := rds \<rparr>) \<and>
          length tbl = 3 \<and>
          tbl ! 1 = ride_measurements example_s6 ! 1 \<and>
          tbl ! 2 = ride_measurements example_s6 ! 2) \<and>
   RCT12RideMeasurement_ride_index (ride_measurements example_s6 ! 1) = 0 \<and>
   RCT12RideMeasurement_ride_index (ride_measurements example_s6 ! 2) = 0"
proof -
  have h1: "PEEP_SPAWN_UNDEFINED example_limits \<noteq> 0" by (simp add: example_sizes)
  have h2: "(ucast (LOCATION_NULL example_limits) :: s16) \<noteq> 0" by (simp add: example_sizes)
  have h3: "RCT_XY8_UNDEFINED example_limits \<noteq> 0" by (simp add: example_sizes)
  note T = unused_slots_hold_sentinels[OF h1 h2 h3, of "gPeepSpawns example_game"
      "gParkEntrances example_game" example_game "example_ride 0 10" example_s6 8 8 56]
  note T1 = T[THEN conjunct2, THEN conjunct1]
  note T2 = T[THEN conjunct2, THEN conjunct2, THEN conjunct2, THEN conjunct2, THEN conjunct1]
  note T3 = T[THEN conjunct2, THEN conjunct2, THEN conjunct2, THEN conjunct2, THEN conjunct2,
      THEN conjunct1]
  have n: "isNull example_game (ride_get_entrance_location example_game (example_ride 0 10) 1)"
          "isNull example_game (ride_get_exit_location example_game (example_ride 0 10) 1)"
    by (simp_all add: example_game_def example_isNull_def example_tile_def)
  have l: "length (gPeepSpawns example_game) \<le> 1 \<and> 1 < RCT12_MAX_PEEP_SPAWNS example_limits"
          "length (gParkEntrances example_game) \<le> 3 \<and> 3 < RCT12_MAX_PARK_ENTRANCES example_limits"
          "1 < RCT12_MAX_STATIONS_PER_RIDE example_limits"
    by (simp_all add: example_game_def example_sizes)
  from T1 l(1) have a: "ExportPeepSpawns example_limits (gPeepSpawns example_game) ! 1 =
              \<lparr> rct12_peep_spawn_x = PEEP_SPAWN_UNDEFINED example_limits,
                rct12_peep_spawn_y = PEEP_SPAWN_UNDEFINED example_limits,
                rct12_peep_spawn_z = 0, rct12_peep_spawn_direction = 0 \<rparr>"
    by blast
  from T2 l(2) have b: "park_entrance_x (ExportParkEntrances example_limits (gParkEntrances example_game)) ! 3
                         = ucast (LOCATION_NULL example_limits)"
      "park_entrance_y (ExportParkEntrances example_limits (gParkEntrances example_game)) ! 3
                         = ucast (LOCATION_NULL example_limits)"
    by blast+
  from T3 l(3) n have c:
      "rct2_ride_entrances (ExportRide example_limits example_game (example_ride 0 10)) ! 1
         = RCT_XY8_UNDEFINED example_limits"
      "rct2_ride_exits (ExportRide example_limits example_game (example_ride 0 10)) ! 1
         = RCT_XY8_UNDEFINED example_limits"
    by blast+
  have old: "ExportPeepSpawns example_limits (gPeepSpawns example_game) ! 1 =
     \<lparr> rct12_peep_spawn_x = 0xFFFF, rct12_peep_spawn_y = 0xFFFF,
       rct12_peep_spawn_z = 0, rct12_peep_spawn_direction = 0 \<rparr> \<and>
   park_entrance_x (ExportParkEntrances example_limits (gParkEntrances example_game)) ! 3 = 0x8000 \<and>
   park_entrance_y (ExportParkEntrances example_limits (gParkEntrances example_game)) ! 3 = 0x8000 \<and>
   rct2_ride_entrances (ExportRide example_limits example_game (example_ride 0 10)) ! 1 = 0xFFFF \<and>
   rct2_ride_exits (ExportRide example_limits example_game (example_ride 0 10)) ! 1 = 0xFFFF"
    unfolding a b c by (simp add: example_sizes)
  have lr: "length (rides example_s6) = RCT12_MAX_RIDES_IN_PARK example_limits"
    by (simp add: example_s6_sizes example_sizes)
  have lt: "length (ride_measurements example_s6) = RCT12_RIDE_MEASUREMENT_MAX_ITEMS example_limits"
    by (simp add: example_s6_sizes example_sizes)
  have c255: "RCT12_RIDE_MEASUREMENT_MAX_ITEMS example_limits \<le> 255" by (simp add: example_sizes)
  note R = unused_slots_hold_sentinels[OF h1 h2 h3, of "[]" "[]"
      example_park_with_closed_slot "example_ride 0 10" example_s6 8 8 56,
      THEN conjunct2, THEN conjunct2, THEN conjunct2, THEN conjunct2, THEN conjunct2,
      THEN conjunct2, THEN conjunct1, THEN mp, OF conjI, OF lr example_closed_not_null]
  from R obtain tbl where
    r1: "ExportRides example_limits example_park_with_closed_slot example_s6
            = Inr (example_s6\<lparr> rides := tbl \<rparr>)"
    and r2: "\<forall>index < RCT12_MAX_RIDES_IN_PARK example_limits. \<forall>ride.
          get_ride example_park_with_closed_slot index = Some ride \<longrightarrow>
            (Ride_type ride \<noteq> RIDE_TYPE_NULL example_limits \<longrightarrow>
               length (rct2_ride_entrances (tbl ! index)) = RCT12_MAX_STATIONS_PER_RIDE example_limits \<and>
               length (rct2_ride_exits (tbl ! index)) = RCT12_MAX_STATIONS_PER_RIDE example_limits \<and>
               (\<forall>i < RCT12_MAX_STATIONS_PER_RIDE example_limits.
                  (isNull example_park_with_closed_slot
                     (ride_get_entrance_location example_park_with_closed_slot ride i) \<longrightarrow>
                     rct2_ride_entrances (tbl ! index) ! i = RCT_XY8_UNDEFINED example_limits \<and>
                     rct2_ride_entrances (tbl ! index) ! i \<noteq> 0) \<and>
                  (isNull example_park_with_closed_slot
                     (ride_get_exit_location example_park_with_closed_slot ride i) \<longrightarrow>
                     rct2_ride_exits (tbl ! index) ! i = RCT_XY8_UNDEFINED example_limits \<and>
                     rct2_ride_exits (tbl ! index) ! i \<noteq> 0))) \<and>
            (Ride_type ride = RIDE_TYPE_NULL example_limits \<longrightarrow>
               rct2_ride_entrances (tbl ! index)
                 = replicate (RCT12_MAX_STATIONS_PER_RIDE example_limits) 0 \<and>
               rct2_ride_exits (tbl ! index)
                 = replicate (RCT12_MAX_STATIONS_PER_RIDE example_limits) 0)"
    by blast
  have i0: "0 < RCT12_MAX_RIDES_IN_PARK example_limits" by (simp add: example_sizes)
  have i2: "2 < RCT12_MAX_RIDES_IN_PARK example_limits" by (simp add: example_sizes)
  have g0: "get_ride example_park_with_closed_slot 0 = Some (example_ride 0 10)"
    by (simp add: example_park_with_closed_slot_def example_get_ride_def example_rides_def)
  have g2: "get_ride example_park_with_closed_slot 2
             = Some ((example_ride 2 20)\<lparr> Ride_type := RIDE_TYPE_NULL example_limits \<rparr>)"
    by (simp add: example_park_with_closed_slot_def)
  have t0: "Ride_type (example_ride 0 10) \<noteq> RIDE_TYPE_NULL example_limits"
    by (simp add: example_ride_def example_sizes)
  have t2: "Ride_type ((example_ride 2 20)\<lparr> Ride_type := RIDE_TYPE_NULL example_limits \<rparr>)
             = RIDE_TYPE_NULL example_limits"
    by simp
  have n0: "isNull example_park_with_closed_slot
              (ride_get_entrance_location example_park_with_closed_slot (example_ride 0 10) 1)"
           "isNull example_park_with_closed_slot
              (ride_get_exit_location example_park_with_closed_slot (example_ride 0 10) 1)"
    by (simp_all add: example_park_with_closed_slot_def example_game_def example_isNull_def
          example_tile_def)
  note s0 = r2[THEN spec, THEN mp, OF i0, THEN spec, THEN mp, OF g0, THEN conjunct1, THEN mp, OF t0,
      THEN conjunct2, THEN conjunct2, THEN spec, THEN mp, OF l(3)]
  note s2 = r2[THEN spec, THEN mp, OF i2, THEN spec, THEN mp, OF g2, THEN conjunct2, THEN mp, OF t2]
  have e0: "rct2_ride_entrances (tbl ! 0) ! 1 = 0xFFFF"
    using s0[THEN conjunct1, THEN mp, OF n0(1), THEN conjunct1] by (simp add: example_sizes)
  have x0: "rct2_ride_exits (tbl ! 0) ! 1 = 0xFFFF"
    using s0[THEN conjunct2, THEN mp, OF n0(2), THEN conjunct1] by (simp add: example_sizes)
  have e2: "rct2_ride_entrances (tbl ! 2) = [0, 0, 0, 0]"
    using s2[THEN conjunct1] by (simp add: example_sizes numeral_eq_Suc)
  have x2: "rct2_ride_exits (tbl ! 2) = [0, 0, 0, 0]"
    using s2[THEN conjunct2] by (simp add: example_sizes numeral_eq_Suc)
  have rides_part: "\<exists>tbl. ExportRides example_limits example_park_with_closed_slot example_s6
            = Inr (example_s6\<lparr> rides := tbl \<rparr>) \<and>
          rct2_ride_entrances (tbl ! 0) ! 1 = 0xFFFF \<and>
          rct2_ride_exits (tbl ! 0) ! 1 = 0xFFFF \<and>
          rct2_ride_entrances (tbl ! 2) = [0, 0, 0, 0] \<and>
          rct2_ride_exits (tbl ! 2) = [0, 0, 0, 0]"
    using r1 e0 x0 e2 x2 by (intro exI[of _ tbl] conjI)
  note M = unused_slots_hold_sentinels[OF h1 h2 h3, of "[]" "[]"
      example_park_with_one_sample "example_ride 0 10" example_s6 8 8 56,
      THEN conjunct2, THEN conjunct2, THEN conjunct2, THEN conjunct2, THEN conjunct2,
      THEN conjunct2, THEN conjunct2, THEN conjunct1, THEN mp, OF conjI,
      OF example_one_sample_owner conjI, OF lr conjI, OF lt c255]
  from M obtain mt rds where
    m1: "ExportRideMeasurements example_limits example_park_with_one_sample example_s6
            = Inr (example_s6\<lparr> ride_measurements := mt, rides := rds \<rparr>)"
    and m2: "length mt = RCT12_RIDE_MEASUREMENT_MAX_ITEMS example_limits"
    and m3: "\<forall>n < RCT12_RIDE_MEASUREMENT_MAX_ITEMS example_limits.
               length (collect_ride_measurements example_limits example_park_with_one_sample) \<le> n
                 \<longrightarrow> mt ! n = ride_measurements example_s6 ! n"
    by blast
  have u1: "mt ! 1 = ride_measurements example_s6 ! 1"
    using m3[THEN spec, of 1] by (simp add: example_sizes example_one_sample_count)
  have u2: "mt ! 2 = ride_measurements example_s6 ! 2"
    using m3[THEN spec, of 2] by (simp add: example_sizes example_one_sample_count)
  have u3: "length mt = 3" using m2 by (simp add: example_sizes)
  have table_part: "\<exists>tbl rds. ExportRideMeasurements example_limits example_park_with_one_sample example_s6
            = Inr (example_s6\<lparr> ride_measurements := tbl, rides := rds \<rparr>) \<and>
          length tbl = 3 \<and>
          tbl ! 1 = ride_measurements example_s6 ! 1 \<and>
          tbl ! 2 = ride_measurements example_s6 ! 2"
    using m1 u3 u1 u2 by (intro exI[of _ mt] exI[of _ rds] conjI)
  note Z = T[THEN conjunct2, THEN conjunct2, THEN conjunct2, THEN conjunct2, THEN conjunct2,
      THEN conjunct2, THEN conjunct2, THEN conjunct2]
  have z1: "RCT12RideMeasurement_ride_index (ride_measurements example_s6 ! 1) = 0"
    using Z[THEN spec, of 1] by (simp add: example_sizes example_s6_def)
  have z2: "RCT12RideMeasurement_ride_index (ride_measurements example_s6 ! 2) = 0"
    using Z[THEN spec, of 2] by (simp add: example_sizes example_s6_def)
  from old rides_part table_part z1 z2 show ?thesis by (intro conjI) simp_all
qed

subsection \<open>Narrowing conversions\<close>






subsection \<open>The integrity checks of \<^verbatim>\<open>Export\<close>\<close>

text \<open>
  No step of the gather reads the placeholders: the snapshot is the same
  whatever the list of placeholders holds.
\<close>

lemma ExportRide_entrance_frame:
  "ExportRide_entrance K (G\<lparr> null_sprite_list := l \<rparr>) = ExportRide_entrance K G"
  by (intro ext) (simp add: ExportRide_entrance_def)

lemma ExportRide_exit_frame:
  "ExportRide_exit K (G\<lparr> null_sprite_list := l \<rparr>) = ExportRide_exit K G"
  by (intro ext) (simp add: ExportRide_exit_def)

lemma ExportRide_frame:
  "ExportRide K (G\<lparr> null_sprite_list := l \<rparr>) = ExportRide K G"
  by (intro ext) (simp only: ExportRide_def ExportRide_entrance_frame ExportRide_exit_frame)

lemma ExportRides_slot_frame:
  "ExportRides_slot K (G\<lparr> null_sprite_list := l \<rparr>) = ExportRides_slot K G"
  by (intro ext) (simp add: ExportRides_slot_def ExportRide_frame split: option.splits)

lemma ExportRides_loop_frame:
  "ExportRides_loop K (G\<lparr> null_sprite_list := l \<rparr>) is tbl = ExportRides_loop K G is tbl"
  by (induction "is" arbitrary: tbl) (simp_all add: ExportRides_slot_frame split: sum.splits)

lemma ExportRides_frame:
  "ExportRides K (G\<lparr> null_sprite_list := l \<rparr>) = ExportRides K G"
  by (intro ext) (simp add: ExportRides_def ExportRides_loop_frame)

lemma ExportRideMeasurements_frame:
  "ExportRideMeasurements K (G\<lparr> null_sprite_list := l \<rparr>) = ExportRideMeasurements K G"
  by (intro ext) (simp add: ExportRideMeasurements_def collect_ride_measurements_def)

lemma ExportResearched_frame:
  "ExportResearchedRideTypes K (G\<lparr> null_sprite_list := l \<rparr>) = ExportResearchedRideTypes K G \<and>
   ExportResearchedRideEntries K (G\<lparr> null_sprite_list := l \<rparr>) = ExportResearchedRideEntries K G \<and>
   ExportResearchedSceneryItems K (G\<lparr> null_sprite_list := l \<rparr>) = ExportResearchedSceneryItems K G"
  by (intro conjI ext)
     (simp_all add: ExportResearchedRideTypes_def ExportResearchedRideEntries_def
        ExportResearchedSceneryItems_def)

lemma Export_gather_frame:
  "Export_gather K (G\<lparr> null_sprite_list := l \<rparr>) R s6 = Export_gather K G R s6"
  by (simp add: Export_gather_def ExportResearched_frame ExportRides_frame
        ExportRideMeasurements_frame cong: if_cong)

lemma disjoint_null_sprites_repaired:
  "disjoint_null_sprites (G\<lparr> null_sprite_list := null_sprite_list G @ disjoint_null_sprites G \<rparr>) = []"
  by (auto simp add: disjoint_null_sprites_def filter_empty_conv)

lemma positive_count:
  "n < 2 ^ 31 \<Longrightarrow> (0 <s (of_nat n :: s32)) = (n \<noteq> 0)"
proof -
  assume n: "n < 2 ^ 31"
  have "sint (of_nat n :: s32) = int n"
    using n by (simp add: signed_of_nat signed_take_bit_int_eq_self)
  then show ?thesis by (simp add: word_sless_alt)
qed

text \<open>
  On a well-formed game (every ride slot holds a ride, samples name the slot of
  their owner, the tables have their declared sizes and the researched-flag
  arrays have room for their domains) every step of the gather succeeds.
\<close>

lemma Export_gather_Inr:
  assumes b1: "RIDE_TYPE_COUNT K \<le> 32 * length (researched_ride_types s6)"
      and b2: "MAX_RIDE_OBJECTS K \<le> 32 * length (researched_ride_entries s6)"
      and b3: "RCT2_MAX_RESEARCHED_SCENERY_ITEMS K \<le> 32 * length (researched_scenery_items s6)"
      and b4: "RCT2_MAX_RESEARCHED_SCENERY_ITEMS K \<le> 65535"
      and lr: "length (rides s6) = RCT12_MAX_RIDES_IN_PARK K"
      and lt: "length (ride_measurements s6) = RCT12_RIDE_MEASUREMENT_MAX_ITEMS K"
      and c255: "RCT12_RIDE_MEASUREMENT_MAX_ITEMS K \<le> 255"
      and nn: "\<forall>i < RCT12_MAX_RIDES_IN_PARK K. get_ride G i \<noteq> None"
      and own: "\<forall>i < RCT12_MAX_RIDES_IN_PARK K. \<forall>r m.
             get_ride G i = Some r \<longrightarrow> Ride_measurement r = Some m \<longrightarrow> RideMeasurement_ride_id m = i"
  shows "\<exists>s6'. Export_gather K G RemoveTracklessRides s6 = Inr s6'"
proof -
  let ?s1 = "s6\<lparr> initial_cash := gInitialCash G, current_loan := gBankLoan G,
                  peep_spawns := ExportPeepSpawns K (gPeepSpawns G) \<rparr>"
  from ExportResearchedRideTypes_Inr[of K ?s1 G] b1 obtain o1 where
    r1: "ExportResearchedRideTypes K G ?s1 = Inr (?s1\<lparr> researched_ride_types := o1 \<rparr>)"
    by auto
  let ?s2 = "?s1\<lparr> researched_ride_types := o1 \<rparr>"
  from ExportResearchedRideEntries_Inr[of K ?s2 G] b2 obtain o2 where
    r2: "ExportResearchedRideEntries K G ?s2 = Inr (?s2\<lparr> researched_ride_entries := o2 \<rparr>)"
    by auto
  let ?s3 = "?s2\<lparr> researched_ride_entries := o2 \<rparr>"
  from ExportResearchedSceneryItems_Inr[of K ?s3 G] b3 b4 obtain o3 where
    r3: "ExportResearchedSceneryItems K G ?s3 = Inr (?s3\<lparr> researched_scenery_items := o3 \<rparr>)"
    by auto
  let ?e = "ExportParkEntrances K (gParkEntrances G)"
  let ?s4 = "?s3\<lparr> researched_scenery_items := o3, maximum_loan := gMaxBankLoan G,
                   loan_hash := GetLoanHash (gInitialCash G) (gBankLoan G) (gMaxBankLoan G),
                   s6_park_entrance_x := park_entrance_x ?e,
                   s6_park_entrance_y := park_entrance_y ?e,
                   s6_park_entrance_z := park_entrance_z ?e,
                   s6_park_entrance_direction := park_entrance_direction ?e \<rparr>"
  have lr4: "length (rides ?s4) = RCT12_MAX_RIDES_IN_PARK K" using lr by simp
  from ExportRides_result[OF lr4 nn] obtain tbl where
    r4: "ExportRides K G ?s4 = Inr (?s4\<lparr> rides := tbl \<rparr>)"
    and ltbl: "length tbl = RCT12_MAX_RIDES_IN_PARK K"
    by blast
  let ?s5 = "?s4\<lparr> rides := tbl \<rparr>"
  have lr5: "length (rides ?s5) = RCT12_MAX_RIDES_IN_PARK K" using ltbl by simp
  have lt5: "length (ride_measurements ?s5) = RCT12_RIDE_MEASUREMENT_MAX_ITEMS K" using lt by simp
  from ExportRideMeasurements_lru_aux[OF own lr5 lt5 c255] obtain s6m where
    r5: "ExportRideMeasurements K G ?s5 = Inr s6m"
    by blast
  show ?thesis
    unfolding Export_gather_def Let_def
    by (simp add: and_then_def r1 r2 r3 r4 r5)
qed

text \<open>
  \<^verbatim>\<open>Export\<close> in one equation: the two assertions, then the gather, which
  reads nothing of the placeholders, then the snapshot with the log and the
  repaired game.
\<close>

lemma Export_eq:
  "Export K G R s6 =
     (if check_for_spatial_index_cycles G \<noteq> - 1
      then Inl (AssertionFailed ''Sprite cycle exists in spatial list'')
      else if check_for_sprite_list_cycles G \<noteq> - 1
      then Inl (AssertionFailed ''Sprite cycle exists in regular list'')
      else and_then (Export_gather K G R s6)
             (\<lambda>s6'. Inr (s6',
                if 0 <s (of_nat (length (disjoint_null_sprites G)) :: s32)
                then [''Found disjoint null sprites''] else [],
                G\<lparr> null_sprite_list := null_sprite_list G @ disjoint_null_sprites G \<rparr>)))"
  by (simp add: Export_def Let_def fix_disjoint_sprites_def openrct2_assert_def and_then_def
        Export_gather_frame)

text \<open>
  Claim C9.  A cycle reported by the check of the spatial index, or by the
  check of the sprite lists, ends \<^verbatim>\<open>Export\<close> with the failed assertion: no
  snapshot is produced, so an export that returns a snapshot has found no
  cycle.  Disjoint null sprites never end it.  Whenever \<^verbatim>\<open>Export\<close> returns,
  the snapshot is the one the gather produces from the game, the same as if no
  placeholder had been disjoint; the game it leaves is the game with every
  disjoint placeholder linked to the list of placeholders, so none is disjoint
  any more and every placeholder is on the list; and the log holds the one
  line about disjoint sprites exactly when there was one (their number being
  below \<open>2\<^sup>3\<^sup>1\<close>), and nothing else.  Without cycles the export fails only
  where the gather fails, and on a well-formed game it returns.
\<close>

theorem cycles_are_fatal_disjoint_sprites_are_not:
  "(check_for_spatial_index_cycles G \<noteq> - 1 \<longrightarrow>
      Export K G RemoveTracklessRides s6 = Inl (AssertionFailed ''Sprite cycle exists in spatial list'')) \<and>
   (check_for_spatial_index_cycles G = - 1 \<and> check_for_sprite_list_cycles G \<noteq> - 1 \<longrightarrow>
      Export K G RemoveTracklessRides s6 = Inl (AssertionFailed ''Sprite cycle exists in regular list'')) \<and>
   (\<forall>s6' log G'. Export K G RemoveTracklessRides s6 = Inr (s6', log, G') \<longrightarrow>
      check_for_spatial_index_cycles G = - 1 \<and> check_for_sprite_list_cycles G = - 1 \<and>
      Export_gather K G RemoveTracklessRides s6 = Inr s6' \<and>
      G' = G\<lparr> null_sprite_list := null_sprite_list G @ disjoint_null_sprites G \<rparr> \<and>
      disjoint_null_sprites G' = [] \<and>
      set (null_sprites G) \<subseteq> set (null_sprite_list G') \<and>
      (length (disjoint_null_sprites G) < 2 ^ 31 \<longrightarrow>
         log = (if disjoint_null_sprites G = [] then [] else [''Found disjoint null sprites'']))) \<and>
   (check_for_spatial_index_cycles G = - 1 \<and> check_for_sprite_list_cycles G = - 1 \<longrightarrow>
      (\<forall>s6'. Export_gather K G RemoveTracklessRides s6 = Inr s6' \<longrightarrow>
         (\<exists>log. Export K G RemoveTracklessRides s6 =
            Inr (s6', log, G\<lparr> null_sprite_list := null_sprite_list G @ disjoint_null_sprites G \<rparr>))) \<and>
      (\<forall>e. Export_gather K G RemoveTracklessRides s6 = Inl e \<longrightarrow>
         Export K G RemoveTracklessRides s6 = Inl e)) \<and>
   (check_for_spatial_index_cycles G = - 1 \<and> check_for_sprite_list_cycles G = - 1 \<and>
    RIDE_TYPE_COUNT K \<le> 32 * length (researched_ride_types s6) \<and>
    MAX_RIDE_OBJECTS K \<le> 32 * length (researched_ride_entries s6) \<and>
    RCT2_MAX_RESEARCHED_SCENERY_ITEMS K \<le> 32 * length (researched_scenery_items s6) \<and>
    RCT2_MAX_RESEARCHED_SCENERY_ITEMS K \<le> 65535 \<and>
    length (rides s6) = RCT12_MAX_RIDES_IN_PARK K \<and>
    length (ride_measurements s6) = RCT12_RIDE_MEASUREMENT_MAX_ITEMS K \<and>
    RCT12_RIDE_MEASUREMENT_MAX_ITEMS K \<le> 255 \<and>
    (\<forall>i < RCT12_MAX_RIDES_IN_PARK K. get_ride G i \<noteq> None) \<and>
    (\<forall>i < RCT12_MAX_RIDES_IN_PARK K. \<forall>r m.
       get_ride G i = Some r \<longrightarrow> Ride_measurement r = Some m \<longrightarrow> RideMeasurement_ride_id m = i) \<longrightarrow>
      (\<exists>s6' log G'. Export K G RemoveTracklessRides s6 = Inr (s6', log, G')))"
proof (intro conjI impI allI)
  assume "check_for_spatial_index_cycles G \<noteq> - 1"
  then show "Export K G RemoveTracklessRides s6 = Inl (AssertionFailed ''Sprite cycle exists in spatial list'')"
    by (simp add: Export_eq)
next
  assume "check_for_spatial_index_cycles G = - 1 \<and> check_for_sprite_list_cycles G \<noteq> - 1"
  then show "Export K G RemoveTracklessRides s6 = Inl (AssertionFailed ''Sprite cycle exists in regular list'')"
    by (simp add: Export_eq)
next
  fix s6' log G'
  assume ok: "Export K G RemoveTracklessRides s6 = Inr (s6', log, G')"
  show "check_for_spatial_index_cycles G = - 1"
    using ok by (simp add: Export_eq split: if_splits)
  show "check_for_sprite_list_cycles G = - 1"
    using ok by (simp add: Export_eq split: if_splits)
  show "Export_gather K G RemoveTracklessRides s6 = Inr s6'"
    using ok by (simp add: Export_eq and_then_def split: if_splits sum.splits)
  show g: "G' = G\<lparr> null_sprite_list := null_sprite_list G @ disjoint_null_sprites G \<rparr>"
    using ok by (simp add: Export_eq and_then_def split: if_splits sum.splits)
  show "disjoint_null_sprites G' = []"
    unfolding g by (rule disjoint_null_sprites_repaired)
  show "set (null_sprites G) \<subseteq> set (null_sprite_list G')"
    unfolding g by (auto simp add: disjoint_null_sprites_def)
next
  fix s6' log G'
  assume ok: "Export K G RemoveTracklessRides s6 = Inr (s6', log, G')"
     and n: "length (disjoint_null_sprites G) < 2 ^ 31"
  have "log = (if 0 <s (of_nat (length (disjoint_null_sprites G)) :: s32)
               then [''Found disjoint null sprites''] else [])"
    using ok by (simp add: Export_eq and_then_def split: if_splits sum.splits)
  then show "log = (if disjoint_null_sprites G = [] then [] else [''Found disjoint null sprites''])"
    by (simp add: positive_count[OF n])
next
  fix s6'
  assume "check_for_spatial_index_cycles G = - 1 \<and> check_for_sprite_list_cycles G = - 1"
     and "Export_gather K G RemoveTracklessRides s6 = Inr s6'"
  then show "\<exists>log. Export K G RemoveTracklessRides s6 =
            Inr (s6', log, G\<lparr> null_sprite_list := null_sprite_list G @ disjoint_null_sprites G \<rparr>)"
    by (simp add: Export_eq and_then_def)
next
  fix e
  assume "check_for_spatial_index_cycles G = - 1 \<and> check_for_sprite_list_cycles G = - 1"
     and "Export_gather K G RemoveTracklessRides s6 = Inl e"
  then show "Export K G RemoveTracklessRides s6 = Inl e"
    by (simp add: Export_eq and_then_def)
next
  assume a: "check_for_spatial_index_cycles G = - 1 \<and> check_for_sprite_list_cycles G = - 1 \<and>
    RIDE_TYPE_COUNT K \<le> 32 * length (researched_ride_types s6) \<and>
    MAX_RIDE_OBJECTS K \<le> 32 * length (researched_ride_entries s6) \<and>
    RCT2_MAX_RESEARCHED_SCENERY_ITEMS K \<le> 32 * length (researched_scenery_items s6) \<and>
    RCT2_MAX_RESEARCHED_SCENERY_ITEMS K \<le> 65535 \<and>
    length (rides s6) = RCT12_MAX_RIDES_IN_PARK K \<and>
    length (ride_measurements s6) = RCT12_RIDE_MEASUREMENT_MAX_ITEMS K \<and>
    RCT12_RIDE_MEASUREMENT_MAX_ITEMS K \<le> 255 \<and>
    (\<forall>i < RCT12_MAX_RIDES_IN_PARK K. get_ride G i \<noteq> None) \<and>
    (\<forall>i < RCT12_MAX_RIDES_IN_PARK K. \<forall>r m.
       get_ride G i = Some r \<longrightarrow> Ride_measurement r = Some m \<longrightarrow> RideMeasurement_ride_id m = i)"
  then have "\<exists>s6'. Export_gather K G RemoveTracklessRides s6 = Inr s6'"
    by (intro Export_gather_Inr) simp_all
  then obtain s6' where g: "Export_gather K G RemoveTracklessRides s6 = Inr s6'" by blast
  show "\<exists>s6' log G'. Export K G RemoveTracklessRides s6 = Inr (s6', log, G')"
    using a by (simp add: Export_eq and_then_def g)
qed

theorem cycles_are_fatal_disjoint_sprites_are_not_witness:
  "Export example_limits (example_game\<lparr> check_for_spatial_index_cycles := 7 \<rparr>) True example_s6
     = Inl (AssertionFailed ''Sprite cycle exists in spatial list'') \<and>
   Export example_limits (example_game\<lparr> check_for_sprite_list_cycles := 7 \<rparr>) True example_s6
     = Inl (AssertionFailed ''Sprite cycle exists in regular list'') \<and>
   disjoint_null_sprites example_game = [6, 8] \<and>
   (\<exists>s6'. Export example_limits example_game True example_s6
            = Inr (s6', [''Found disjoint null sprites''],
                   example_game\<lparr> null_sprite_list := [9, 7, 5, 6, 8] \<rparr>) \<and>
          Export_gather example_limits example_game True example_s6 = Inr s6') \<and>
   disjoint_null_sprites (example_game\<lparr> null_sprite_list := [9, 7, 5, 6, 8] \<rparr>) = []"
proof -
  have a: "check_for_spatial_index_cycles (example_game\<lparr> check_for_spatial_index_cycles := 7 \<rparr>) \<noteq> - 1"
    by simp
  have b: "check_for_spatial_index_cycles (example_game\<lparr> check_for_sprite_list_cycles := 7 \<rparr>) = - 1 \<and>
           check_for_sprite_list_cycles (example_game\<lparr> check_for_sprite_list_cycles := 7 \<rparr>) \<noteq> - 1"
    by (simp add: example_game_def)
  have c: "check_for_spatial_index_cycles example_game = - 1 \<and>
    check_for_sprite_list_cycles example_game = - 1 \<and>
    RIDE_TYPE_COUNT example_limits \<le> 32 * length (researched_ride_types example_s6) \<and>
    MAX_RIDE_OBJECTS example_limits \<le> 32 * length (researched_ride_entries example_s6) \<and>
    RCT2_MAX_RESEARCHED_SCENERY_ITEMS example_limits \<le> 32 * length (researched_scenery_items example_s6) \<and>
    RCT2_MAX_RESEARCHED_SCENERY_ITEMS example_limits \<le> 65535 \<and>
    length (rides example_s6) = RCT12_MAX_RIDES_IN_PARK example_limits \<and>
    length (ride_measurements example_s6) = RCT12_RIDE_MEASUREMENT_MAX_ITEMS example_limits \<and>
    RCT12_RIDE_MEASUREMENT_MAX_ITEMS example_limits \<le> 255 \<and>
    (\<forall>i < RCT12_MAX_RIDES_IN_PARK example_limits. get_ride example_game i \<noteq> None) \<and>
    (\<forall>i < RCT12_MAX_RIDES_IN_PARK example_limits. \<forall>r m.
       get_ride example_game i = Some r \<longrightarrow> Ride_measurement r = Some m \<longrightarrow> RideMeasurement_ride_id m = i)"
    using example_not_null example_owner
    by (simp add: example_sizes example_s6_sizes example_game_def)
  have d: "disjoint_null_sprites example_game = [6, 8]"
    by (simp add: disjoint_null_sprites_def example_game_def)
  have l: "null_sprite_list example_game = [9, 7, 5]"
    by (simp add: example_game_def)
  note 1 = cycles_are_fatal_disjoint_sprites_are_not[of "example_game\<lparr> check_for_spatial_index_cycles := 7 \<rparr>"
      example_limits True example_s6, THEN conjunct1, THEN mp, OF a]
  note 2 = cycles_are_fatal_disjoint_sprites_are_not[of "example_game\<lparr> check_for_sprite_list_cycles := 7 \<rparr>"
      example_limits True example_s6, THEN conjunct2, THEN conjunct1, THEN mp, OF b]
  note e = cycles_are_fatal_disjoint_sprites_are_not[of example_game
      example_limits True example_s6, THEN conjunct2, THEN conjunct2, THEN conjunct2, THEN conjunct2,
      THEN mp, OF c]
  from e obtain s6' log G' where
    ok: "Export example_limits example_game True example_s6 = Inr (s6', log, G')"
    by blast
  note f = cycles_are_fatal_disjoint_sprites_are_not[of example_game
      example_limits True example_s6, THEN conjunct2, THEN conjunct2, THEN conjunct1,
      THEN spec, THEN spec, THEN spec, THEN mp, OF ok]
  note g = f[THEN conjunct2, THEN conjunct2, THEN conjunct1]
  note f4 = f[THEN conjunct2, THEN conjunct2, THEN conjunct2, THEN conjunct1]
  note f5 = f[THEN conjunct2, THEN conjunct2, THEN conjunct2, THEN conjunct2, THEN conjunct1]
  note f7 = f[THEN conjunct2, THEN conjunct2, THEN conjunct2, THEN conjunct2, THEN conjunct2,
      THEN conjunct2]
  have G': "G' = example_game\<lparr> null_sprite_list := [9, 7, 5, 6, 8] \<rparr>"
    using f4 by (simp add: d l)
  have r: "disjoint_null_sprites (example_game\<lparr> null_sprite_list := [9, 7, 5, 6, 8] \<rparr>) = []"
    using f5 unfolding G' .
  have lg: "log = [''Found disjoint null sprites'']"
    using f7 by (simp add: d)
  have 3: "\<exists>s6'. Export example_limits example_game True example_s6
            = Inr (s6', [''Found disjoint null sprites''],
                   example_game\<lparr> null_sprite_list := [9, 7, 5, 6, 8] \<rparr>) \<and>
          Export_gather example_limits example_game True example_s6 = Inr s6'"
    using ok g G' lg by blast
  from 1 2 d 3 r show ?thesis by (intro conjI)
qed

end
